theory Spec2Isabelle
  imports Main "HOL-Library.Word"
begin

unbundle bit_operations_syntax

section \<open>Machine words, constants and the store\<close>

text \<open>
  The development embeds \<^verbatim>\<open>arch/s390/mm/gmap.c\<close>.  An \<^verbatim>\<open>unsigned long\<close> is a
  64-bit word, an \<^verbatim>\<open>int\<close> return code is an \<open>int\<close>, and a pointer is the address it
  holds (\<open>0\<close> is \<^verbatim>\<open>NULL\<close>).
\<close>

type_synonym u64 = "64 word"

subsection \<open>Constants of the table format\<close>

text \<open>
  Modelled from the spec: the macros of \<^verbatim>\<open>asm/pgtable.h\<close>, \<^verbatim>\<open>asm/page.h\<close>,
  \<^verbatim>\<open>asm/gmap.h\<close>, \<^verbatim>\<open>linux/mman.h\<close> and \<^verbatim>\<open>errno.h\<close> that \<^verbatim>\<open>gmap.c\<close> uses are
  not among the sources.  The spec names what they stand for (four hierarchy depths,
  region levels 1-3, segment and page level, the invalid and the protection bit of an
  entry, the large-leaf bit, the notification bit); the values are those of the s390
  table format that the code itself presupposes, for instance in
  \<^verbatim>\<open>31 + (asce_type >> 2) * 11\<close> and \<^verbatim>\<open>level > (asce_type >> 2) + 1\<close> of
  \<^verbatim>\<open>gmap_table_walk\<close> and in \<^verbatim>\<open>255 * sizeof(pte_t)\<close> of \<^verbatim>\<open>ptep_notify\<close>.
\<close>

definition PAGE_SHIFT :: nat where "PAGE_SHIFT = 12"
definition PAGE_SIZE :: u64 where "PAGE_SIZE = 0x1000"
definition PAGE_MASK :: u64 where "PAGE_MASK = NOT 0xfff"
definition PMD_SHIFT :: nat where "PMD_SHIFT = 20"
definition PMD_SIZE :: u64 where "PMD_SIZE = 0x100000"
definition PMD_MASK :: u64 where "PMD_MASK = NOT 0xfffff"
definition HPAGE_SIZE :: u64 where "HPAGE_SIZE = 0x100000"
definition HPAGE_MASK :: u64 where "HPAGE_MASK = NOT 0xfffff"
definition TASK_SIZE_MAX :: u64 where "TASK_SIZE_MAX = - 0x1000"

definition CRST_ENTRIES :: nat where "CRST_ENTRIES = 2048"
definition PAGE_ENTRIES :: nat where "PAGE_ENTRIES = 256"

definition REGION1_SHIFT :: nat where "REGION1_SHIFT = 53"
definition REGION2_SHIFT :: nat where "REGION2_SHIFT = 42"
definition REGION3_SHIFT :: nat where "REGION3_SHIFT = 31"
definition SEGMENT_SHIFT :: nat where "SEGMENT_SHIFT = 20"

definition REGION1_INDEX :: u64 where "REGION1_INDEX = push_bit 53 0x7ff"
definition REGION2_INDEX :: u64 where "REGION2_INDEX = push_bit 42 0x7ff"
definition REGION3_INDEX :: u64 where "REGION3_INDEX = push_bit 31 0x7ff"
definition SEGMENT_INDEX :: u64 where "SEGMENT_INDEX = push_bit 20 0x7ff"
definition PAGE_INDEX :: u64 where "PAGE_INDEX = push_bit 12 0xff"

definition REGION1_SIZE :: u64 where "REGION1_SIZE = push_bit 53 1"
definition REGION2_SIZE :: u64 where "REGION2_SIZE = push_bit 42 1"
definition REGION3_SIZE :: u64 where "REGION3_SIZE = push_bit 31 1"
definition SEGMENT_SIZE :: u64 where "SEGMENT_SIZE = push_bit 20 1"

definition REGION1_MASK :: u64 where "REGION1_MASK = NOT (REGION1_SIZE - 1)"
definition REGION2_MASK :: u64 where "REGION2_MASK = NOT (REGION2_SIZE - 1)"
definition REGION3_MASK :: u64 where "REGION3_MASK = NOT (REGION3_SIZE - 1)"
definition SEGMENT_MASK :: u64 where "SEGMENT_MASK = NOT (SEGMENT_SIZE - 1)"

definition ASCE_ORIGIN :: u64 where "ASCE_ORIGIN = NOT 0xfff"
definition ASCE_USER_BITS :: u64 where "ASCE_USER_BITS = 0x1c0"
definition ASCE_REAL_SPACE :: u64 where "ASCE_REAL_SPACE = 0x20"
definition ASCE_TYPE_MASK :: u64 where "ASCE_TYPE_MASK = 0x0c"
definition ASCE_TYPE_REGION1 :: u64 where "ASCE_TYPE_REGION1 = 0x0c"
definition ASCE_TYPE_REGION2 :: u64 where "ASCE_TYPE_REGION2 = 0x08"
definition ASCE_TYPE_REGION3 :: u64 where "ASCE_TYPE_REGION3 = 0x04"
definition ASCE_TYPE_SEGMENT :: u64 where "ASCE_TYPE_SEGMENT = 0x00"
definition ASCE_TABLE_LENGTH :: u64 where "ASCE_TABLE_LENGTH = 0x03"

definition REGION_ENTRY_ORIGIN :: u64 where "REGION_ENTRY_ORIGIN = NOT 0xfff"
definition REGION_ENTRY_PROTECT :: u64 where "REGION_ENTRY_PROTECT = 0x200"
definition REGION_ENTRY_OFFSET :: u64 where "REGION_ENTRY_OFFSET = 0xc0"
definition REGION_ENTRY_INVALID :: u64 where "REGION_ENTRY_INVALID = 0x20"
definition REGION_ENTRY_TYPE_MASK :: u64 where "REGION_ENTRY_TYPE_MASK = 0x0c"
definition REGION_ENTRY_TYPE_R1 :: u64 where "REGION_ENTRY_TYPE_R1 = 0x0c"
definition REGION_ENTRY_TYPE_R2 :: u64 where "REGION_ENTRY_TYPE_R2 = 0x08"
definition REGION_ENTRY_TYPE_R3 :: u64 where "REGION_ENTRY_TYPE_R3 = 0x04"
definition REGION_ENTRY_LENGTH :: u64 where "REGION_ENTRY_LENGTH = 0x03"
definition REGION1_ENTRY_EMPTY :: u64 where "REGION1_ENTRY_EMPTY = 0x2c"
definition REGION2_ENTRY_EMPTY :: u64 where "REGION2_ENTRY_EMPTY = 0x28"
definition REGION3_ENTRY_EMPTY :: u64 where "REGION3_ENTRY_EMPTY = 0x24"
definition REGION3_ENTRY_LARGE :: u64 where "REGION3_ENTRY_LARGE = 0x400"

definition SEGMENT_ENTRY_HARDWARE_BITS :: u64 where
  "SEGMENT_ENTRY_HARDWARE_BITS = 0xfffffffffffffe3c"
definition SEGMENT_ENTRY_HARDWARE_BITS_LARGE :: u64 where
  "SEGMENT_ENTRY_HARDWARE_BITS_LARGE = 0xfffffffffff1073c"
definition SEGMENT_ENTRY_ORIGIN :: u64 where "SEGMENT_ENTRY_ORIGIN = NOT 0x7ff"
definition SEGMENT_ENTRY_PROTECT :: u64 where "SEGMENT_ENTRY_PROTECT = 0x200"
definition SEGMENT_ENTRY_INVALID :: u64 where "SEGMENT_ENTRY_INVALID = 0x20"
definition SEGMENT_ENTRY_TYPE_MASK :: u64 where "SEGMENT_ENTRY_TYPE_MASK = 0x0c"
definition SEGMENT_ENTRY :: u64 where "SEGMENT_ENTRY = 0"
definition SEGMENT_ENTRY_EMPTY :: u64 where "SEGMENT_ENTRY_EMPTY = 0x20"
definition SEGMENT_ENTRY_LARGE :: u64 where "SEGMENT_ENTRY_LARGE = 0x400"
definition SEGMENT_ENTRY_GMAP_IN :: u64 where "SEGMENT_ENTRY_GMAP_IN = 0x0800"
definition SEGMENT_ENTRY_GMAP_UC :: u64 where "SEGMENT_ENTRY_GMAP_UC = 0x0002"

definition PAGE_INVALID :: u64 where "PAGE_INVALID = 0x400"
definition PAGE_PROTECT :: u64 where "PAGE_PROTECT = 0x200"

definition PGSTE_IN_BIT :: u64 where "PGSTE_IN_BIT = 0x0000800000000000"
definition PGSTE_VSIE_BIT :: u64 where "PGSTE_VSIE_BIT = 0x0000200000000000"

definition GMAP_NOTIFY_SHADOW :: u64 where "GMAP_NOTIFY_SHADOW = 0x2"
definition GMAP_NOTIFY_MPROT :: u64 where "GMAP_NOTIFY_MPROT = 0x1"

definition PROT_NONE :: int where "PROT_NONE = 0"
definition PROT_READ :: int where "PROT_READ = 1"
definition PROT_WRITE :: int where "PROT_WRITE = 2"

definition EAGAIN :: int where "EAGAIN = 11"
definition ENOMEM :: int where "ENOMEM = 12"
definition EFAULT :: int where "EFAULT = 14"
definition EEXIST :: int where "EEXIST = 17"
definition EINVAL :: int where "EINVAL = 22"

text \<open>The three macros at the head of \<^verbatim>\<open>gmap.c\<close> and the rmap tags further down.\<close>

definition VALID_GADDR_FLAG :: u64 where "VALID_GADDR_FLAG = 1"

definition IS_GADDR_VALID :: "u64 \<Rightarrow> bool" where
  "IS_GADDR_VALID gaddr = (gaddr AND VALID_GADDR_FLAG \<noteq> 0)"

definition MAKE_VALID_GADDR :: "u64 \<Rightarrow> u64" where
  "MAKE_VALID_GADDR gaddr = ((gaddr AND HPAGE_MASK) OR VALID_GADDR_FLAG)"

definition GMAP_SHADOW_FAKE_TABLE :: u64 where "GMAP_SHADOW_FAKE_TABLE = 1"

definition SHADOW_RMAP_MASK :: u64 where "SHADOW_RMAP_MASK = 0x7"
definition SHADOW_RMAP_REGION1 :: u64 where "SHADOW_RMAP_REGION1 = 0x5"
definition SHADOW_RMAP_REGION2 :: u64 where "SHADOW_RMAP_REGION2 = 0x4"
definition SHADOW_RMAP_REGION3 :: u64 where "SHADOW_RMAP_REGION3 = 0x3"
definition SHADOW_RMAP_SEGMENT :: u64 where "SHADOW_RMAP_SEGMENT = 0x2"
definition SHADOW_RMAP_PGTABLE :: u64 where "SHADOW_RMAP_PGTABLE = 0x1"

text \<open>
  \<^verbatim>\<open>IS_ERR_VALUE(x)\<close>: the top 4095 values of the address range are error codes.
  An error code returned through an \<^verbatim>\<open>unsigned long\<close> is the two's complement word.
\<close>

definition IS_ERR_VALUE :: "u64 \<Rightarrow> bool" where
  "IS_ERR_VALUE x = (x \<ge> - 4095)"

definition err_ptr :: "int \<Rightarrow> u64" where
  "err_ptr e = word_of_int (- e)"

definition long_to_int :: "u64 \<Rightarrow> int" where
  "long_to_int x = sint (ucast x :: 32 word)"

subsection \<open>Radix trees\<close>

text \<open>
  Modelled from the spec: \<^verbatim>\<open>lib/radix-tree.c\<close> is not among the sources; the spec asks
  for "any ordered or hashed sparse map from integer key to value".  A tree is an
  association list with distinct keys in ascending order; an absent key reads as
  \<^verbatim>\<open>NULL\<close>.  \<^verbatim>\<open>radix_tree_insert\<close> fails with \<^verbatim>\<open>-ENOMEM\<close> when the environment says
  so (\<open>nomem\<close>) and with \<^verbatim>\<open>-EEXIST\<close> when the slot is occupied.
\<close>

type_synonym 'v radix_tree = "(u64 \<times> 'v) list"

definition radix_tree_lookup :: "'v radix_tree \<Rightarrow> u64 \<Rightarrow> 'v option" where
  "radix_tree_lookup root index = map_of root index"

definition radix_tree_delete :: "'v radix_tree \<Rightarrow> u64 \<Rightarrow> 'v option \<times> 'v radix_tree" where
  "radix_tree_delete root index = (map_of root index, filter (\<lambda>kv. fst kv \<noteq> index) root)"

fun radix_tree_place :: "u64 \<Rightarrow> 'v \<Rightarrow> 'v radix_tree \<Rightarrow> 'v radix_tree" where
  "radix_tree_place k v [] = [(k, v)]"
| "radix_tree_place k v ((k', v') # t) =
     (if k < k' then (k, v) # (k', v') # t
      else if k = k' then (k, v) # t
      else (k', v') # radix_tree_place k v t)"

definition radix_tree_insert :: "bool \<Rightarrow> 'v radix_tree \<Rightarrow> u64 \<Rightarrow> 'v \<Rightarrow> int \<times> 'v radix_tree" where
  "radix_tree_insert nomem root index item =
     (if nomem then (- ENOMEM, root)
      else if map_of root index \<noteq> None then (- EEXIST, root)
      else (0, radix_tree_place index item root))"

text \<open>A stored \<^verbatim>\<open>unsigned long\<close> is read back through a cast; \<^verbatim>\<open>NULL\<close> reads as 0.
  Storing 0 stores \<^verbatim>\<open>NULL\<close>, which leaves the slot empty.\<close>

definition ulong_of :: "u64 option \<Rightarrow> u64" where
  "ulong_of p = (case p of None \<Rightarrow> 0 | Some v \<Rightarrow> v)"

definition radix_tree_insert_ulong :: "bool \<Rightarrow> u64 radix_tree \<Rightarrow> u64 \<Rightarrow> u64 \<Rightarrow> int \<times> u64 radix_tree" where
  "radix_tree_insert_ulong nomem root index item =
     (if nomem then (- ENOMEM, root)
      else if map_of root index \<noteq> None then (- EEXIST, root)
      else if item = 0 then (0, root)
      else (0, radix_tree_place index item root))"

subsection \<open>The kernel state\<close>

text \<open>
  What the code does besides returning is recorded here: the store \<open>mem\<close> (the 8-byte
  slot at an address), the set \<open>pages\<close> of table pages handed out by the page allocator
  and not yet freed, the process-wide notifier list, and a trace of the calls that leave
  the file (callbacks, TLB flushes, frees of rmap records).  The last three fields never
  change: the two machine features the code asks for, and whether \<^verbatim>\<open>VM_BUG_ON\<close> is
  compiled in (\<^verbatim>\<open>CONFIG_DEBUG_VM\<close>).
\<close>

datatype event =
    Notifier_call nat u64 u64 u64
  | Tlb_flush_idte u64
  | Tlb_flush_global
  | Idte_one u64 u64
  | Pmdp_idte u64 u64
  | Pmdp_csp u64
  | Kfree_rmap u64
  | Ptep_unshadow_pte u64 u64
  | Gmap_put u64
  | Kfree_gmap u64

record kstate =
  mem :: "u64 \<Rightarrow> u64"
  pages :: "u64 set"
  gmap_notifier_list :: "nat list"
  trace :: "event list"
  cpu_has_idte :: bool
  machine_has_tlb_guest :: bool
  debug_vm :: bool

text \<open>
  \<^verbatim>\<open>struct gmap\<close>, with the fields the file uses.  \<open>ident\<close> stands for the address of
  the structure (what a callback receives), \<open>parent\<close> is the parent's address or 0, and
  \<open>allow_gmap_hpage_1m\<close> is \<^verbatim>\<open>gmap->mm->context.allow_gmap_hpage_1m\<close>.  An rmap list
  (\<^verbatim>\<open>struct gmap_rmap\<close> chained through \<^verbatim>\<open>next\<close>) is the list of its \<^verbatim>\<open>raddr\<close>.
\<close>

record gmap =
  ident :: u64
  table :: u64
  asce :: u64
  asce_end :: u64
  guest_to_host :: "u64 radix_tree"
  host_to_guest :: "u64 radix_tree"
  host_to_rmap :: "u64 list radix_tree"
  ref_count :: int
  parent :: u64
  removed :: bool
  edat_level :: int
  orig_asce :: u64
  children :: "u64 list"
  allow_gmap_hpage_1m :: bool

definition gmap_is_shadow :: "gmap \<Rightarrow> bool" where
  "gmap_is_shadow g = (parent g \<noteq> 0)"

text \<open>
  Modelled from the spec: \<^verbatim>\<open>__va\<close>, \<^verbatim>\<open>__pa\<close>, \<^verbatim>\<open>page_to_virt\<close>, \<^verbatim>\<open>page_to_phys\<close> and
  \<^verbatim>\<open>phys_to_page\<close> are not among the sources; a page is named by its physical address
  and the kernel mapping is the identity.  \<^verbatim>\<open>crst_table_init\<close> fills the 2048 slots of
  a region or segment table with one value.
\<close>

definition tbl_slot :: "u64 \<Rightarrow> u64 \<Rightarrow> u64" where
  "tbl_slot tbl i = tbl + 8 * i"

definition in_crst :: "u64 \<Rightarrow> u64 \<Rightarrow> bool" where
  "in_crst tbl a = ((a - tbl) AND 7 = 0 \<and> a - tbl < 0x4000)"

definition crst_table_init :: "kstate \<Rightarrow> u64 \<Rightarrow> u64 \<Rightarrow> kstate" where
  "crst_table_init s tbl entry = s\<lparr>mem := (\<lambda>a. if in_crst tbl a then entry else mem s a)\<rparr>"

definition store :: "kstate \<Rightarrow> u64 \<Rightarrow> u64 \<Rightarrow> kstate" where
  "store s a v = s\<lparr>mem := (mem s)(a := v)\<rparr>"

definition emit :: "event \<Rightarrow> kstate \<Rightarrow> kstate" where
  "emit e s = s\<lparr>trace := trace s @ [e]\<rparr>"

section \<open>Allocation of an address space\<close>

text \<open>
  \<^verbatim>\<open>gmap_alloc_crst\<close>: \<open>page\<close> is the answer of \<^verbatim>\<open>alloc_pages\<close> (\<open>None\<close> when it
  fails); \<^verbatim>\<open>__arch_set_page_dat\<close> does not touch anything modelled here.
\<close>

definition gmap_alloc_crst :: "u64 option \<Rightarrow> kstate \<Rightarrow> u64 option \<times> kstate" where
  "gmap_alloc_crst page s =
     (case page of
        None \<Rightarrow> (None, s)
      | Some p \<Rightarrow> (Some p, s\<lparr>pages := insert p (pages s)\<rparr>))"

definition free_pages :: "u64 \<Rightarrow> kstate \<Rightarrow> kstate" where
  "free_pages p s = s\<lparr>pages := pages s - {p}\<rparr>"

text \<open>
  \<^verbatim>\<open>gmap_alloc\<close>: \<open>kz\<close> is the answer of \<^verbatim>\<open>kzalloc\<close> (the address of the zeroed
  structure, \<open>None\<close> when it fails).  When the structure is there and the table page is
  not, the structure is handed back to \<^verbatim>\<open>kfree\<close> (label \<^verbatim>\<open>out_free\<close>).
\<close>

definition gmap_alloc :: "u64 option \<Rightarrow> u64 option \<Rightarrow> kstate \<Rightarrow> u64 \<Rightarrow> gmap option \<times> kstate" where
  "gmap_alloc kz page s limit =
     (let (limit', atype, etype) =
            (if limit < REGION3_SIZE then (REGION3_SIZE - 1, ASCE_TYPE_SEGMENT, SEGMENT_ENTRY_EMPTY)
             else if limit < REGION2_SIZE then (REGION2_SIZE - 1, ASCE_TYPE_REGION3, REGION3_ENTRY_EMPTY)
             else if limit < REGION1_SIZE then (REGION1_SIZE - 1, ASCE_TYPE_REGION2, REGION2_ENTRY_EMPTY)
             else (- 1, ASCE_TYPE_REGION1, REGION1_ENTRY_EMPTY))
      in case kz of
           None \<Rightarrow> (None, s)
         | Some gp \<Rightarrow>
             (case gmap_alloc_crst page s of
                (None, s1) \<Rightarrow> (None, emit (Kfree_gmap gp) s1)
              | (Some p, s1) \<Rightarrow>
                  (Some \<lparr>ident = gp, table = p,
                         asce = atype OR ASCE_TABLE_LENGTH OR ASCE_USER_BITS OR p,
                         asce_end = limit',
                         guest_to_host = [], host_to_guest = [], host_to_rmap = [],
                         ref_count = 1, parent = 0, removed = False, edat_level = 0,
                         orig_asce = 0, children = [], allow_gmap_hpage_1m = False\<rparr>,
                   crst_table_init s1 p etype)))"


section \<open>The table walker\<close>

text \<open>
  \<^verbatim>\<open>gmap_table_walk\<close>.  The \<^verbatim>\<open>switch\<close> enters at the case of the root's type and
  falls through; each case label is one function here, calling the next.  A returned
  pointer is the address of the slot, \<open>0\<close> is \<^verbatim>\<open>NULL\<close>.  The warning of
  \<^verbatim>\<open>WARN_ON_ONCE\<close> is not recorded.
\<close>

definition walk_case_segment :: "kstate \<Rightarrow> u64 \<Rightarrow> u64 \<Rightarrow> int \<Rightarrow> u64" where
  "walk_case_segment s tbl gaddr level =
     (let table = tbl_slot tbl (drop_bit SEGMENT_SHIFT (gaddr AND SEGMENT_INDEX)) in
      if level = 1 then table
      else if mem s table AND REGION_ENTRY_INVALID \<noteq> 0 then 0
      else tbl_slot (mem s table AND SEGMENT_ENTRY_ORIGIN)
             (drop_bit PAGE_SHIFT (gaddr AND PAGE_INDEX)))"

definition walk_case_region3 :: "kstate \<Rightarrow> u64 \<Rightarrow> u64 \<Rightarrow> int \<Rightarrow> u64" where
  "walk_case_region3 s tbl gaddr level =
     (let table = tbl_slot tbl (drop_bit REGION3_SHIFT (gaddr AND REGION3_INDEX)) in
      if level = 2 then table
      else if mem s table AND REGION_ENTRY_INVALID \<noteq> 0 then 0
      else walk_case_segment s (mem s table AND REGION_ENTRY_ORIGIN) gaddr level)"

definition walk_case_region2 :: "kstate \<Rightarrow> u64 \<Rightarrow> u64 \<Rightarrow> int \<Rightarrow> u64" where
  "walk_case_region2 s tbl gaddr level =
     (let table = tbl_slot tbl (drop_bit REGION2_SHIFT (gaddr AND REGION2_INDEX)) in
      if level = 3 then table
      else if mem s table AND REGION_ENTRY_INVALID \<noteq> 0 then 0
      else walk_case_region3 s (mem s table AND REGION_ENTRY_ORIGIN) gaddr level)"

definition walk_case_region1 :: "kstate \<Rightarrow> u64 \<Rightarrow> u64 \<Rightarrow> int \<Rightarrow> u64" where
  "walk_case_region1 s tbl gaddr level =
     (let table = tbl_slot tbl (drop_bit REGION1_SHIFT (gaddr AND REGION1_INDEX)) in
      if level = 4 then table
      else if mem s table AND REGION_ENTRY_INVALID \<noteq> 0 then 0
      else walk_case_region2 s (mem s table AND REGION_ENTRY_ORIGIN) gaddr level)"

definition asce_type_of :: "gmap \<Rightarrow> u64" where
  "asce_type_of g = asce g AND ASCE_TYPE_MASK"

definition gmap_table_walk :: "kstate \<Rightarrow> gmap \<Rightarrow> u64 \<Rightarrow> int \<Rightarrow> u64" where
  "gmap_table_walk s g gaddr level =
     (let asce_type = asce_type_of g in
      if gmap_is_shadow g \<and> removed g then 0
      else if level > uint (drop_bit 2 asce_type) + 1 then 0
      else if asce_type \<noteq> ASCE_TYPE_REGION1 \<and>
              gaddr AND push_bit (31 + unat (drop_bit 2 asce_type) * 11) (- 1) \<noteq> 0 then 0
      else if asce_type = ASCE_TYPE_REGION1 then walk_case_region1 s (table g) gaddr level
      else if asce_type = ASCE_TYPE_REGION2 then walk_case_region2 s (table g) gaddr level
      else if asce_type = ASCE_TYPE_REGION3 then walk_case_region3 s (table g) gaddr level
      else walk_case_segment s (table g) gaddr level)"

text \<open>
  The walker as the spec words it, for comparison with the code: start at the root and,
  for each level above the target, take the slot the address selects, give up when the
  entry is invalid, and follow its origin field.  \<open>n\<close> counts the table levels left
  (4 = region-1, 1 = segment, 0 = page table).
\<close>

definition level_index :: "nat \<Rightarrow> u64 \<Rightarrow> u64" where
  "level_index n gaddr =
     (if n = 0 then drop_bit PAGE_SHIFT (gaddr AND PAGE_INDEX)
      else drop_bit (20 + 11 * (n - 1)) (gaddr AND push_bit (20 + 11 * (n - 1)) 0x7ff))"

definition level_origin :: "nat \<Rightarrow> u64 \<Rightarrow> u64" where
  "level_origin n e = (if n = 1 then e AND SEGMENT_ENTRY_ORIGIN else e AND REGION_ENTRY_ORIGIN)"

fun spec_walk :: "(u64 \<Rightarrow> u64) \<Rightarrow> nat \<Rightarrow> u64 \<Rightarrow> u64 \<Rightarrow> int \<Rightarrow> u64" where
  "spec_walk m 0 tbl gaddr level = tbl_slot tbl (level_index 0 gaddr)"
| "spec_walk m (Suc n) tbl gaddr level =
     (let e = tbl_slot tbl (level_index (Suc n) gaddr) in
      if level = int (Suc n) then e
      else if m e AND REGION_ENTRY_INVALID \<noteq> 0 then 0
      else spec_walk m n (level_origin (Suc n) (m e)) gaddr level)"

definition asce_depth :: "gmap \<Rightarrow> nat" where
  "asce_depth g = unat (drop_bit 2 (asce_type_of g))"



section \<open>The notifier list\<close>

text \<open>
  A notifier block is named by a number.  \<^verbatim>\<open>list_add_rcu(&nb->list, &gmap_notifier_list)\<close>
  links the block directly behind the list head, \<^verbatim>\<open>list_for_each_entry\<close> runs from the
  head onwards.  What a callback does is outside the file: a call is an entry of the
  trace.

  The field \<open>gmap_notifier_list\<close> is the sequence of the blocks on the list, each block
  once.  The two list primitives keep the list a list only when they are used as meant:
  \<^verbatim>\<open>list_add_rcu\<close> of a block that is on the list already would leave a cycle behind the
  head (a dispatch would not end), and \<^verbatim>\<open>list_del_rcu\<close> of a block that is not on the
  list follows pointers that are not the list's.  Both are \<open>None\<close> here: there is no list
  any more that the field could stand for.
\<close>

definition gmap_register_pte_notifier :: "nat \<Rightarrow> kstate \<Rightarrow> kstate option" where
  "gmap_register_pte_notifier nb s =
     (if nb \<in> set (gmap_notifier_list s) then None
      else Some (s\<lparr>gmap_notifier_list := nb # gmap_notifier_list s\<rparr>))"

definition gmap_unregister_pte_notifier :: "nat \<Rightarrow> kstate \<Rightarrow> kstate option" where
  "gmap_unregister_pte_notifier nb s =
     (if nb \<notin> set (gmap_notifier_list s) then None
      else Some (s\<lparr>gmap_notifier_list := remove1 nb (gmap_notifier_list s)\<rparr>))"

definition gmap_call_notifier :: "gmap \<Rightarrow> u64 \<Rightarrow> u64 \<Rightarrow> kstate \<Rightarrow> kstate" where
  "gmap_call_notifier g start end s =
     fold (\<lambda>nb. emit (Notifier_call nb (ident g) start end)) (gmap_notifier_list s) s"

definition gmap_flush_tlb :: "gmap \<Rightarrow> kstate \<Rightarrow> kstate" where
  "gmap_flush_tlb g s =
     (if cpu_has_idte s then emit (Tlb_flush_idte (asce g)) s else emit Tlb_flush_global s)"

section \<open>Forward and reverse maps\<close>

text \<open>
  A function that can hit \<^verbatim>\<open>BUG_ON\<close> returns an option: \<open>None\<close> is the kernel
  stopping there.
\<close>

definition gmap_alloc_table :: "u64 option \<Rightarrow> kstate \<Rightarrow> gmap \<Rightarrow> u64 \<Rightarrow> u64 \<Rightarrow> u64 \<Rightarrow> int \<times> kstate" where
  "gmap_alloc_table page s g tablep init gaddr =
     (case gmap_alloc_crst page s of
        (None, s1) \<Rightarrow> (- ENOMEM, s1)
      | (Some new, s1) \<Rightarrow>
          (let s2 = crst_table_init s1 new init in
           if mem s2 tablep AND REGION_ENTRY_INVALID \<noteq> 0
           then (0, store s2 tablep
                      (new OR REGION_ENTRY_LENGTH OR (mem s2 tablep AND REGION_ENTRY_TYPE_MASK)))
           else (0, free_pages new s2)))"

definition host_to_guest_lookup :: "gmap \<Rightarrow> u64 \<Rightarrow> u64" where
  "host_to_guest_lookup g vmaddr =
     ulong_of (radix_tree_lookup (host_to_guest g) (drop_bit PMD_SHIFT vmaddr))"

definition host_to_guest_delete :: "gmap \<Rightarrow> u64 \<Rightarrow> u64 \<times> gmap" where
  "host_to_guest_delete g vmaddr =
     (let (item, t) = radix_tree_delete (host_to_guest g) (drop_bit PMD_SHIFT vmaddr)
      in (ulong_of item, g\<lparr>host_to_guest := t\<rparr>))"

text \<open>\<^verbatim>\<open>host_to_guest_pmd_delete\<close> returns the pmd pointer, \<^verbatim>\<open>*gaddr\<close> and the gmap.\<close>

definition host_to_guest_pmd_delete :: "kstate \<Rightarrow> gmap \<Rightarrow> u64 \<Rightarrow> u64 \<times> u64 \<times> gmap" where
  "host_to_guest_pmd_delete s g vmaddr =
     (let (gaddr, g') = host_to_guest_delete g vmaddr
      in if IS_GADDR_VALID gaddr then (gmap_table_walk s g' gaddr 1, gaddr, g')
         else (0, gaddr, g'))"

definition uu_gmap_unlink_by_vmaddr :: "kstate \<Rightarrow> gmap \<Rightarrow> u64 \<Rightarrow> (int \<times> kstate \<times> gmap) option" where
  "uu_gmap_unlink_by_vmaddr s g vmaddr =
     (if gmap_is_shadow g then None
      else
        (let (pmdp, gaddr, g') = host_to_guest_pmd_delete s g vmaddr
         in if pmdp \<noteq> 0
            then Some ((if mem s pmdp \<noteq> SEGMENT_ENTRY_EMPTY then 1 else 0),
                       store s pmdp SEGMENT_ENTRY_EMPTY, g')
            else Some (0, s, g')))"

definition uu_gmap_unmap_by_gaddr :: "kstate \<Rightarrow> gmap \<Rightarrow> u64 \<Rightarrow> (int \<times> kstate \<times> gmap) option" where
  "uu_gmap_unmap_by_gaddr s g gaddr =
     (let (item, t) = radix_tree_delete (guest_to_host g) (drop_bit PMD_SHIFT gaddr);
          vmaddr = ulong_of item;
          g1 = g\<lparr>guest_to_host := t\<rparr>
      in if vmaddr \<noteq> 0 then uu_gmap_unlink_by_vmaddr s g1 vmaddr else Some (0, s, g1))"

text \<open>
  The two \<^verbatim>\<open>for (off = 0; off < len; off += PMD_SIZE)\<close> loops run after \<open>len\<close> has been
  checked to be a multiple of \<^verbatim>\<open>PMD_SIZE\<close>, so the body runs \<open>len / PMD_SIZE\<close> times;
  \<open>n\<close> counts the rounds left.  The loop of \<^verbatim>\<open>gmap_map_segment\<close> also says whether it ran
  to the end (\<^verbatim>\<open>off >= len\<close>) or left through \<^verbatim>\<open>break\<close>.  \<open>nomem\<close> tells for which
  index \<^verbatim>\<open>radix_tree_insert\<close> finds no memory.
\<close>

fun unmap_segment_loop :: "kstate \<Rightarrow> gmap \<Rightarrow> u64 \<Rightarrow> nat \<Rightarrow> u64 \<Rightarrow> int \<Rightarrow> (int \<times> kstate \<times> gmap) option" where
  "unmap_segment_loop s g to 0 off flush = Some (flush, s, g)"
| "unmap_segment_loop s g to (Suc n) off flush =
     (case uu_gmap_unmap_by_gaddr s g (to + off) of
        None \<Rightarrow> None
      | Some (f, s1, g1) \<Rightarrow> unmap_segment_loop s1 g1 to n (off + PMD_SIZE) (flush OR f))"

definition gmap_unmap_segment :: "kstate \<Rightarrow> gmap \<Rightarrow> u64 \<Rightarrow> u64 \<Rightarrow> (int \<times> kstate \<times> gmap) option" where
  "gmap_unmap_segment s g to len =
     (if gmap_is_shadow g then None
      else if (to OR len) AND (PMD_SIZE - 1) \<noteq> 0 then Some (- EINVAL, s, g)
      else if len = 0 \<or> to + len < to then Some (- EINVAL, s, g)
      else
        (case unmap_segment_loop s g to (unat (drop_bit PMD_SHIFT len)) 0 0 of
           None \<Rightarrow> None
         | Some (flush, s1, g1) \<Rightarrow>
             Some (0, if flush \<noteq> 0 then gmap_flush_tlb g1 s1 else s1, g1)))"

fun map_segment_loop ::
  "(u64 \<Rightarrow> bool) \<Rightarrow> kstate \<Rightarrow> gmap \<Rightarrow> u64 \<Rightarrow> u64 \<Rightarrow> nat \<Rightarrow> u64 \<Rightarrow> int \<Rightarrow>
     (bool \<times> int \<times> kstate \<times> gmap) option" where
  "map_segment_loop nomem s g from to 0 off flush = Some (True, flush, s, g)"
| "map_segment_loop nomem s g from to (Suc n) off flush =
     (case uu_gmap_unmap_by_gaddr s g (to + off) of
        None \<Rightarrow> None
      | Some (f, s1, g1) \<Rightarrow>
          (let index = drop_bit PMD_SHIFT (to + off);
               (rc, t) = radix_tree_insert_ulong (nomem index) (guest_to_host g1) index (from + off)
           in if rc \<noteq> 0 then Some (False, flush OR f, s1, g1)
              else map_segment_loop nomem s1 (g1\<lparr>guest_to_host := t\<rparr>) from to n
                     (off + PMD_SIZE) (flush OR f)))"

definition gmap_map_segment ::
  "(u64 \<Rightarrow> bool) \<Rightarrow> kstate \<Rightarrow> gmap \<Rightarrow> u64 \<Rightarrow> u64 \<Rightarrow> u64 \<Rightarrow> (int \<times> kstate \<times> gmap) option" where
  "gmap_map_segment nomem s g from to len =
     (if gmap_is_shadow g then None
      else if (from OR to OR len) AND (PMD_SIZE - 1) \<noteq> 0 then Some (- EINVAL, s, g)
      else if len = 0 \<or> from + len < from \<or> to + len < to \<or>
              from + len - 1 > TASK_SIZE_MAX \<or> to + len - 1 > asce_end g
      then Some (- EINVAL, s, g)
      else
        (case map_segment_loop nomem s g from to (unat (drop_bit PMD_SHIFT len)) 0 0 of
           None \<Rightarrow> None
         | Some (done, flush, s1, g1) \<Rightarrow>
             (let s2 = (if flush \<noteq> 0 then gmap_flush_tlb g1 s1 else s1)
              in if done then Some (0, s2, g1)
                 else (case gmap_unmap_segment s2 g1 to len of
                         None \<Rightarrow> None
                       | Some (_, s3, g3) \<Rightarrow> Some (- ENOMEM, s3, g3)))))"

definition uu_gmap_translate :: "gmap \<Rightarrow> u64 \<Rightarrow> u64" where
  "uu_gmap_translate g gaddr =
     (let vmaddr = ulong_of (radix_tree_lookup (guest_to_host g) (drop_bit PMD_SHIFT gaddr))
      in if vmaddr \<noteq> 0 then vmaddr OR (gaddr AND NOT PMD_MASK) else err_ptr EFAULT)"

section \<open>Exchanging a segment entry\<close>

text \<open>
  Modelled from the spec: \<^verbatim>\<open>__pmdp_idte\<close> and \<^verbatim>\<open>__pmdp_csp\<close> (\<^verbatim>\<open>asm/pgtable.h\<close>) are
  not among the sources; the spec's "invalidate, broadcast-flush" step sets the invalid
  bit of the entry and flushes, which the trace records.  \<^verbatim>\<open>pmd_none\<close>, \<^verbatim>\<open>pmd_leaf\<close>,
  \<^verbatim>\<open>set_pmd_bit\<close> and \<^verbatim>\<open>clear_pmd_bit\<close> are the header's one-liners.
\<close>

definition pmd_none :: "u64 \<Rightarrow> bool" where
  "pmd_none pmd = (pmd = SEGMENT_ENTRY_EMPTY)"

definition pmd_leaf :: "u64 \<Rightarrow> bool" where
  "pmd_leaf pmd = (pmd AND SEGMENT_ENTRY_LARGE \<noteq> 0)"

definition set_pmd_bit :: "u64 \<Rightarrow> u64 \<Rightarrow> u64" where
  "set_pmd_bit pmd prot = pmd OR prot"

definition clear_pmd_bit :: "u64 \<Rightarrow> u64 \<Rightarrow> u64" where
  "clear_pmd_bit pmd prot = pmd AND NOT prot"

definition pmdp_idte :: "u64 \<Rightarrow> u64 \<Rightarrow> kstate \<Rightarrow> kstate" where
  "pmdp_idte gaddr pmdp s =
     emit (Pmdp_idte gaddr pmdp) (store s pmdp (mem s pmdp OR SEGMENT_ENTRY_INVALID))"

definition pmdp_csp :: "u64 \<Rightarrow> kstate \<Rightarrow> kstate" where
  "pmdp_csp pmdp s = emit (Pmdp_csp pmdp) (store s pmdp (mem s pmdp OR SEGMENT_ENTRY_INVALID))"

definition pmdp_notify_gmap :: "gmap \<Rightarrow> u64 \<Rightarrow> u64 \<Rightarrow> kstate \<Rightarrow> kstate" where
  "pmdp_notify_gmap g pmdp gaddr s =
     gmap_call_notifier g gaddr (gaddr + HPAGE_SIZE - 1)
       (store s pmdp (clear_pmd_bit (mem s pmdp) SEGMENT_ENTRY_GMAP_IN))"

definition gmap_pmdp_xchg :: "gmap \<Rightarrow> u64 \<Rightarrow> u64 \<Rightarrow> u64 \<Rightarrow> kstate \<Rightarrow> kstate" where
  "gmap_pmdp_xchg g pmdp new gaddr s =
     (let gaddr = gaddr AND HPAGE_MASK;
          s1 = pmdp_notify_gmap g pmdp gaddr s;
          new = clear_pmd_bit new SEGMENT_ENTRY_GMAP_IN;
          s2 = (if machine_has_tlb_guest s1 then pmdp_idte gaddr pmdp s1
                else if cpu_has_idte s1 then pmdp_idte gaddr pmdp s1
                else pmdp_csp pmdp s1)
      in store s2 pmdp new)"

section \<open>Linking a guest segment to the host\<close>

text \<open>
  What \<^verbatim>\<open>__gmap_link\<close> finds outside the file: the pages \<^verbatim>\<open>alloc_pages\<close> hands to the
  three calls of \<^verbatim>\<open>gmap_alloc_table\<close>, the host page-table walk at \<open>vmaddr\<close>
  (\<^verbatim>\<open>pgd_offset\<close> to \<^verbatim>\<open>pmd_offset\<close>), and the answer of \<^verbatim>\<open>radix_tree_preload\<close>.
\<close>

record link_env =
  r1_page :: "u64 option"
  r2_page :: "u64 option"
  r3_page :: "u64 option"
  pgd_is_none :: bool
  p4d_is_none :: bool
  pud_is_none :: bool
  pud_is_leaf :: bool
  host_pmd :: u64
  preload_rc :: int

text \<open>One "create higher level table" step: the slot, then the table behind it.\<close>

definition link_level :: "u64 option \<Rightarrow> kstate \<Rightarrow> gmap \<Rightarrow> u64 \<Rightarrow> u64 \<Rightarrow> u64 \<Rightarrow> int \<times> kstate \<times> u64" where
  "link_level page s g tablep init gaddr =
     (if mem s tablep AND REGION_ENTRY_INVALID \<noteq> 0
      then (case gmap_alloc_table page s g tablep init gaddr of
              (rc, s1) \<Rightarrow>
                if rc \<noteq> 0 then (- ENOMEM, s1, 0)
                else (0, s1, mem s1 tablep AND REGION_ENTRY_ORIGIN))
      else (0, s, mem s tablep AND REGION_ENTRY_ORIGIN))"

text \<open>
  The rest of \<^verbatim>\<open>__gmap_link\<close>, from "walk the parent mm page table" on; \<open>tablep\<close> is
  the segment slot.
\<close>

definition link_install :: "link_env \<Rightarrow> kstate \<Rightarrow> gmap \<Rightarrow> u64 \<Rightarrow> u64 \<Rightarrow> u64 \<Rightarrow> (int \<times> kstate \<times> gmap) option" where
  "link_install env s g tablep gaddr vmaddr =
     (let pmd = host_pmd env in
      if debug_vm s \<and> (pgd_is_none env \<or> p4d_is_none env \<or> pud_is_none env) then None
      else if pud_is_leaf env then Some (- EFAULT, s, g)
      else if debug_vm s \<and> pmd_none pmd then None
      else if pmd_leaf pmd \<and> \<not> allow_gmap_hpage_1m g then Some (- EFAULT, s, g)
      else if preload_rc env \<noteq> 0 then Some (preload_rc env, s, g)
      else if mem s tablep = SEGMENT_ENTRY_EMPTY then
        (let (rc, t) = radix_tree_insert_ulong False (host_to_guest g)
                         (drop_bit PMD_SHIFT vmaddr) (MAKE_VALID_GADDR gaddr)
         in if rc = 0
            then Some (rc,
                   store s tablep
                     (if pmd_leaf pmd
                      then (pmd AND SEGMENT_ENTRY_HARDWARE_BITS_LARGE) OR SEGMENT_ENTRY_GMAP_UC
                             OR SEGMENT_ENTRY
                      else pmd AND SEGMENT_ENTRY_HARDWARE_BITS),
                   g\<lparr>host_to_guest := t\<rparr>)
            else Some (rc, s, g))
      else if mem s tablep AND SEGMENT_ENTRY_PROTECT \<noteq> 0 \<and> \<not> (pmd AND SEGMENT_ENTRY_PROTECT \<noteq> 0)
      then Some (0, gmap_pmdp_xchg g tablep
                      ((mem s tablep AND NOT SEGMENT_ENTRY_PROTECT) OR SEGMENT_ENTRY_GMAP_UC)
                      gaddr s, g)
      else Some (0, s, g))"

text \<open>
  The first block of \<^verbatim>\<open>__gmap_link\<close>, "create higher level tables in the gmap page
  table": the return code, the state, and the origin of the segment table.
\<close>

definition link_tables :: "link_env \<Rightarrow> kstate \<Rightarrow> gmap \<Rightarrow> u64 \<Rightarrow> int \<times> kstate \<times> u64" where
  "link_tables env s g gaddr =
     (let (rc1, s1, t1) =
            (if asce_type_of g \<ge> ASCE_TYPE_REGION1
             then link_level (r1_page env) s g
                    (tbl_slot (table g) (drop_bit REGION1_SHIFT (gaddr AND REGION1_INDEX)))
                    REGION2_ENTRY_EMPTY (gaddr AND REGION1_MASK)
             else (0, s, table g))
      in if rc1 \<noteq> 0 then (- ENOMEM, s1, 0)
         else
     (let (rc2, s2, t2) =
            (if asce_type_of g \<ge> ASCE_TYPE_REGION2
             then link_level (r2_page env) s1 g
                    (tbl_slot t1 (drop_bit REGION2_SHIFT (gaddr AND REGION2_INDEX)))
                    REGION3_ENTRY_EMPTY (gaddr AND REGION2_MASK)
             else (0, s1, t1))
      in if rc2 \<noteq> 0 then (- ENOMEM, s2, 0)
         else
     (let (rc3, s3, t3) =
            (if asce_type_of g \<ge> ASCE_TYPE_REGION3
             then link_level (r3_page env) s2 g
                    (tbl_slot t2 (drop_bit REGION3_SHIFT (gaddr AND REGION3_INDEX)))
                    SEGMENT_ENTRY_EMPTY (gaddr AND REGION3_MASK)
             else (0, s2, t2))
      in if rc3 \<noteq> 0 then (- ENOMEM, s3, 0) else (0, s3, t3))))"

definition uu_gmap_link :: "link_env \<Rightarrow> kstate \<Rightarrow> gmap \<Rightarrow> u64 \<Rightarrow> u64 \<Rightarrow> (int \<times> kstate \<times> gmap) option" where
  "uu_gmap_link env s g gaddr vmaddr =
     (if gmap_is_shadow g then None
      else
        (case link_tables env s g gaddr of
           (rc, s3, t3) \<Rightarrow>
             if rc \<noteq> 0 then Some (- ENOMEM, s3, g)
             else link_install env s3 g
                    (tbl_slot t3 (drop_bit SEGMENT_SHIFT (gaddr AND SEGMENT_INDEX)))
                    gaddr vmaddr))"

section \<open>Protection of one translation unit\<close>

text \<open>
  Modelled from the spec: \<^verbatim>\<open>pte_alloc_map_lock\<close> and \<^verbatim>\<open>ptep_force_prot\<close> are not among
  the sources.  The first yields the locked page-table entry or fails for lack of memory;
  the second "downgrades/upgrades that single entry's rights" and answers 0 or
  \<^verbatim>\<open>-EAGAIN\<close>.  Both act on the host page table, which is outside the store modelled
  here, so only their answers appear.
\<close>

record pte_env =
  pte_alloc_ok :: bool
  force_prot_again :: bool

definition gmap_pmd_op_walk :: "kstate \<Rightarrow> gmap \<Rightarrow> u64 \<Rightarrow> u64 option" where
  "gmap_pmd_op_walk s g gaddr =
     (if gmap_is_shadow g then None
      else
        (let pmdp = gmap_table_walk s g gaddr 1 in
         if pmdp = 0 then Some 0
         else if \<not> allow_gmap_hpage_1m g then Some (if pmd_none (mem s pmdp) then 0 else pmdp)
         else if pmd_none (mem s pmdp) then Some 0
         else Some pmdp))"

definition gmap_protect_pmd :: "kstate \<Rightarrow> gmap \<Rightarrow> u64 \<Rightarrow> u64 \<Rightarrow> int \<Rightarrow> u64 \<Rightarrow> int \<times> kstate" where
  "gmap_protect_pmd s g gaddr pmdp prot bits =
     (let pmd_i = mem s pmdp AND SEGMENT_ENTRY_INVALID;
          pmd_p = mem s pmdp AND SEGMENT_ENTRY_PROTECT;
          new = mem s pmdp
      in if (pmd_i \<noteq> 0 \<and> prot \<noteq> PROT_NONE) \<or> (pmd_p \<noteq> 0 \<and> prot = PROT_WRITE)
         then (- EAGAIN, s)
         else
           (let (new, s1) =
                  (if prot = PROT_NONE \<and> pmd_i = 0
                   then (let new = set_pmd_bit new SEGMENT_ENTRY_INVALID
                         in (new, gmap_pmdp_xchg g pmdp new gaddr s))
                   else (new, s));
                (new, s2) =
                  (if prot = PROT_READ \<and> pmd_p = 0
                   then (let new = set_pmd_bit (clear_pmd_bit new SEGMENT_ENTRY_INVALID)
                                     SEGMENT_ENTRY_PROTECT
                         in (new, gmap_pmdp_xchg g pmdp new gaddr s1))
                   else (new, s1));
                s3 = (if bits AND GMAP_NOTIFY_MPROT \<noteq> 0
                      then store s2 pmdp (set_pmd_bit (mem s2 pmdp) SEGMENT_ENTRY_GMAP_IN)
                      else s2)
            in if bits AND GMAP_NOTIFY_SHADOW \<noteq> 0 then (- EINVAL, s3) else (0, s3)))"

definition gmap_protect_pte :: "pte_env \<Rightarrow> kstate \<Rightarrow> gmap \<Rightarrow> u64 \<Rightarrow> u64 \<Rightarrow> int \<Rightarrow> u64 \<Rightarrow> int" where
  "gmap_protect_pte env s g gaddr pmdp prot bits =
     (if mem s pmdp AND SEGMENT_ENTRY_INVALID \<noteq> 0 then - EAGAIN
      else if \<not> pte_alloc_ok env then - ENOMEM
      else if force_prot_again env then - EAGAIN else 0)"

definition gmap_protect_one :: "pte_env \<Rightarrow> kstate \<Rightarrow> gmap \<Rightarrow> u64 \<Rightarrow> int \<Rightarrow> u64 \<Rightarrow> (int \<times> kstate) option" where
  "gmap_protect_one env s g gaddr prot bits =
     (if gmap_is_shadow g then None
      else
        (case gmap_pmd_op_walk s g gaddr of
           None \<Rightarrow> None
         | Some pmdp \<Rightarrow>
             if pmdp = 0 then Some (- EAGAIN, s)
             else if \<not> pmd_leaf (mem s pmdp)
             then (let rc = gmap_protect_pte env s g gaddr pmdp prot bits
                   in Some (if rc = 0 then uint PAGE_SIZE else rc, s))
             else (let (rc, s1) = gmap_protect_pmd s g gaddr pmdp prot bits
                   in Some (if rc = 0 then uint HPAGE_SIZE else rc, s1))))"



section \<open>Reverse-mapping records\<close>

text \<open>
  \<^verbatim>\<open>gmap_insert_rmap\<close>: the new record goes to the head of the list found at the
  index, unless a record with the same \<^verbatim>\<open>raddr\<close> is there already, in which case the
  new record is freed.
\<close>

definition gmap_insert_rmap :: "kstate \<Rightarrow> gmap \<Rightarrow> u64 \<Rightarrow> u64 \<Rightarrow> (kstate \<times> gmap) option" where
  "gmap_insert_rmap s sg vmaddr rmap =
     (if \<not> gmap_is_shadow sg then None
      else
        (let index = drop_bit PAGE_SHIFT vmaddr in
         case radix_tree_lookup (host_to_rmap sg) index of
           Some head \<Rightarrow>
             if rmap \<in> set head then Some (emit (Kfree_rmap rmap) s, sg)
             else Some (s, sg\<lparr>host_to_rmap := radix_tree_place index (rmap # head) (host_to_rmap sg)\<rparr>)
         | None \<Rightarrow>
             Some (s, sg\<lparr>host_to_rmap := radix_tree_place index [rmap] (host_to_rmap sg)\<rparr>)))"

text \<open>
  \<^verbatim>\<open>gmap_pte_op_walk\<close> says whether a locked page-table entry was found (the entry
  itself lies in the host page table); \<^verbatim>\<open>gmap_pte_op_fixup\<close> faults the page in and
  links it.  Modelled from the spec: \<^verbatim>\<open>fixup_user_fault\<close> is not among the sources; it
  is "the host fault-in primitive", which fails or succeeds and may have dropped the
  \<^verbatim>\<open>mmap_lock\<close> on the way.
\<close>

definition gmap_pte_op_walk :: "pte_env \<Rightarrow> kstate \<Rightarrow> gmap \<Rightarrow> u64 \<Rightarrow> bool option" where
  "gmap_pte_op_walk env s g gaddr =
     (if gmap_is_shadow g then None
      else
        (let tablep = gmap_table_walk s g gaddr 1 in
         if tablep = 0 \<or> mem s tablep AND SEGMENT_ENTRY_INVALID \<noteq> 0 then Some False
         else Some (pte_alloc_ok env)))"

record fixup_env =
  fault_fails :: bool
  unlocked :: bool
  link :: link_env

definition gmap_pte_op_fixup ::
  "fixup_env \<Rightarrow> kstate \<Rightarrow> gmap \<Rightarrow> u64 \<Rightarrow> u64 \<Rightarrow> int \<Rightarrow> (int \<times> kstate \<times> gmap) option" where
  "gmap_pte_op_fixup env s g gaddr vmaddr prot =
     (if gmap_is_shadow g then None
      else if fault_fails env then Some (- EFAULT, s, g)
      else if unlocked env then Some (0, s, g)
      else uu_gmap_link (link env) s g gaddr vmaddr)"

text \<open>
  \<^verbatim>\<open>gmap_protect_rmap\<close>.  Each round of the \<^verbatim>\<open>while (len)\<close> loop meets the
  environment once: \<^verbatim>\<open>kzalloc\<close>, \<^verbatim>\<open>radix_tree_preload\<close>, the page-table lock and
  \<^verbatim>\<open>ptep_force_prot\<close>, and the fault-in of a retry.  The rounds are a list; a round that
  ends in \<^verbatim>\<open>continue\<close> needs a next one, and a list that ends before the loop does
  stands for a loop that has not returned (\<open>None\<close>, as for \<^verbatim>\<open>BUG_ON\<close>).

  The tables of the parent and the tables of the shadow are different allocations.  The
  model keeps them in different stores: \<open>pm\<close> is the store of the parent's tables, and
  the steps that act on the parent (\<^verbatim>\<open>gmap_pte_op_walk\<close>, \<^verbatim>\<open>gmap_pte_op_fixup\<close>) read
  and write \<open>pm\<close>, never the store of the shadow's tables.  The result is the return
  code, the state, the shadow, its parent and the parent's store.
\<close>

record rmap_round =
  kzalloc_ok :: bool
  round_preload_rc :: int
  pte :: pte_env
  fixup :: fixup_env

definition with_store :: "(u64 \<Rightarrow> u64) \<Rightarrow> kstate \<Rightarrow> kstate" where
  "with_store m s = s\<lparr>mem := m\<rparr>"

fun gmap_protect_rmap ::
  "rmap_round list \<Rightarrow> kstate \<Rightarrow> gmap \<Rightarrow> gmap \<Rightarrow> (u64 \<Rightarrow> u64) \<Rightarrow> u64 \<Rightarrow> u64 \<Rightarrow> u64 \<Rightarrow>
     (int \<times> kstate \<times> gmap \<times> gmap \<times> (u64 \<Rightarrow> u64)) option" where
  "gmap_protect_rmap rounds s sg par pm raddr paddr len =
     (if \<not> gmap_is_shadow sg then None
      else if len = 0 then Some (0, s, sg, par, pm)
      else
        (case rounds of
           [] \<Rightarrow>
             (let vmaddr = uu_gmap_translate par paddr in
              if IS_ERR_VALUE vmaddr then Some (long_to_int vmaddr, s, sg, par, pm) else None)
         | r # rest \<Rightarrow>
             (let vmaddr = uu_gmap_translate par paddr in
              if IS_ERR_VALUE vmaddr then Some (long_to_int vmaddr, s, sg, par, pm)
              else if \<not> kzalloc_ok r then Some (- ENOMEM, s, sg, par, pm)
              else if round_preload_rc r \<noteq> 0
              then Some (round_preload_rc r, emit (Kfree_rmap raddr) s, sg, par, pm)
              else
                (case gmap_pte_op_walk (pte r) (with_store pm s) par paddr of
                   None \<Rightarrow> None
                 | Some found \<Rightarrow>
                     if found \<and> \<not> force_prot_again (pte r)
                     then (case gmap_insert_rmap s sg vmaddr raddr of
                             None \<Rightarrow> None
                           | Some (s1, sg1) \<Rightarrow>
                               gmap_protect_rmap rest s1 sg1 par pm raddr (paddr + PAGE_SIZE)
                                 (len - PAGE_SIZE))
                     else (case gmap_pte_op_fixup (fixup r)
                                  (with_store pm (emit (Kfree_rmap raddr) s)) par
                                  paddr vmaddr PROT_READ of
                             None \<Rightarrow> None
                           | Some (rc, s1, par1) \<Rightarrow>
                               if rc \<noteq> 0 then Some (rc, with_store (mem s) s1, sg, par1, mem s1)
                               else gmap_protect_rmap rest (with_store (mem s) s1) sg par1 (mem s1)
                                      raddr paddr len)))))"

section \<open>Tearing down shadow tables\<close>

text \<open>
  Modelled from the spec: \<^verbatim>\<open>ptep_unshadow_pte\<close> and \<^verbatim>\<open>page_table_free_pgste\<close> are not
  among the sources; the first leaves the page-table entry invalid, the second returns
  the page of a page table to the allocator.  \<^verbatim>\<open>gmap_idte_one\<close> is the instruction that
  "issues the hardware broadcast-invalidate for the slot": it sets the invalid bit of
  the entry the address selects in the table of the given origin, and flushes.

  Every function of this section starts with \<^verbatim>\<open>BUG_ON(!gmap_is_shadow(sg))\<close>.  The
  check is made where a function is entered from outside; the loops below it are
  written for a shadow \<open>sg\<close>, for which the same check in a callee cannot fire.
\<close>

definition page_table_free_pgste :: "u64 \<Rightarrow> kstate \<Rightarrow> kstate" where
  "page_table_free_pgste pgt s = free_pages (pgt AND PAGE_MASK) s"

definition gmap_idte_one :: "u64 \<Rightarrow> u64 \<Rightarrow> u64 \<Rightarrow> kstate \<Rightarrow> kstate" where
  "gmap_idte_one asce_v vaddr entry s =
     emit (Idte_one asce_v vaddr) (store s entry (mem s entry OR REGION_ENTRY_INVALID))"

definition gmap_unshadow_page :: "kstate \<Rightarrow> gmap \<Rightarrow> u64 \<Rightarrow> kstate option" where
  "gmap_unshadow_page s sg raddr =
     (if \<not> gmap_is_shadow sg then None
      else
        (let tablep = gmap_table_walk s sg raddr 0 in
         if tablep = 0 \<or> mem s tablep AND PAGE_INVALID \<noteq> 0 then Some s
         else
           (let s1 = gmap_call_notifier sg raddr (raddr + PAGE_SIZE - 1) s
            in Some (emit (Ptep_unshadow_pte raddr tablep) (store s1 tablep PAGE_INVALID)))))"

text \<open>The five \<^verbatim>\<open>__gmap_unshadow_*\<close> loops, innermost first.\<close>

definition uu_gmap_unshadow_pgt :: "gmap \<Rightarrow> u64 \<Rightarrow> u64 \<Rightarrow> kstate \<Rightarrow> kstate" where
  "uu_gmap_unshadow_pgt sg raddr pgt s =
     fold (\<lambda>i s. store s (tbl_slot pgt (of_nat i)) PAGE_INVALID) [0..<PAGE_ENTRIES] s"

definition uu_gmap_unshadow_sgt :: "gmap \<Rightarrow> u64 \<Rightarrow> u64 \<Rightarrow> kstate \<Rightarrow> kstate" where
  "uu_gmap_unshadow_sgt sg raddr sgt s =
     fold (\<lambda>i s.
             if mem s (tbl_slot sgt (of_nat i)) AND SEGMENT_ENTRY_ORIGIN = 0 then s
             else
               (let pgt = mem s (tbl_slot sgt (of_nat i)) AND REGION_ENTRY_ORIGIN;
                    s1 = store s (tbl_slot sgt (of_nat i)) SEGMENT_ENTRY_EMPTY;
                    s2 = uu_gmap_unshadow_pgt sg (raddr + of_nat i * SEGMENT_SIZE) pgt s1
                in page_table_free_pgste pgt s2))
          [0..<CRST_ENTRIES] s"

definition uu_gmap_unshadow_r3t :: "gmap \<Rightarrow> u64 \<Rightarrow> u64 \<Rightarrow> kstate \<Rightarrow> kstate" where
  "uu_gmap_unshadow_r3t sg raddr r3t s =
     fold (\<lambda>i s.
             if mem s (tbl_slot r3t (of_nat i)) AND REGION_ENTRY_ORIGIN = 0 then s
             else
               (let sgt = mem s (tbl_slot r3t (of_nat i)) AND REGION_ENTRY_ORIGIN;
                    s1 = store s (tbl_slot r3t (of_nat i)) REGION3_ENTRY_EMPTY;
                    s2 = uu_gmap_unshadow_sgt sg (raddr + of_nat i * REGION3_SIZE) sgt s1
                in free_pages sgt s2))
          [0..<CRST_ENTRIES] s"

definition uu_gmap_unshadow_r2t :: "gmap \<Rightarrow> u64 \<Rightarrow> u64 \<Rightarrow> kstate \<Rightarrow> kstate" where
  "uu_gmap_unshadow_r2t sg raddr r2t s =
     fold (\<lambda>i s.
             if mem s (tbl_slot r2t (of_nat i)) AND REGION_ENTRY_ORIGIN = 0 then s
             else
               (let r3t = mem s (tbl_slot r2t (of_nat i)) AND REGION_ENTRY_ORIGIN;
                    s1 = store s (tbl_slot r2t (of_nat i)) REGION2_ENTRY_EMPTY;
                    s2 = uu_gmap_unshadow_r3t sg (raddr + of_nat i * REGION2_SIZE) r3t s1
                in free_pages r3t s2))
          [0..<CRST_ENTRIES] s"

definition uu_gmap_unshadow_r1t :: "gmap \<Rightarrow> u64 \<Rightarrow> u64 \<Rightarrow> kstate \<Rightarrow> kstate" where
  "uu_gmap_unshadow_r1t sg raddr r1t s =
     (let asce_v = r1t OR ASCE_TYPE_REGION1 in
      fold (\<lambda>i s.
              if mem s (tbl_slot r1t (of_nat i)) AND REGION_ENTRY_ORIGIN = 0 then s
              else
                (let r2t = mem s (tbl_slot r1t (of_nat i)) AND REGION_ENTRY_ORIGIN;
                     s1 = uu_gmap_unshadow_r2t sg (raddr + of_nat i * REGION1_SIZE) r2t s;
                     s2 = gmap_idte_one asce_v (raddr + of_nat i * REGION1_SIZE)
                            (tbl_slot r1t (of_nat i)) s1;
                     s3 = store s2 (tbl_slot r1t (of_nat i)) REGION1_ENTRY_EMPTY
                 in free_pages r2t s3))
           [0..<CRST_ENTRIES] s)"

text \<open>
  The four \<^verbatim>\<open>gmap_unshadow_*\<close> functions that remove one table from the entry of its
  parent.  \<^verbatim>\<open>ste - index\<close> is the origin of the table the entry lies in.
\<close>

definition gmap_unshadow_pgt :: "kstate \<Rightarrow> gmap \<Rightarrow> u64 \<Rightarrow> kstate option" where
  "gmap_unshadow_pgt s sg raddr =
     (if \<not> gmap_is_shadow sg then None
      else
        (let ste = gmap_table_walk s sg raddr 1 in
         if ste = 0 \<or> mem s ste AND SEGMENT_ENTRY_ORIGIN = 0 then Some s
         else
           (let s1 = gmap_call_notifier sg raddr (raddr + SEGMENT_SIZE - 1) s;
                sto = ste - 8 * drop_bit SEGMENT_SHIFT (raddr AND SEGMENT_INDEX);
                s2 = gmap_idte_one (sto OR ASCE_TYPE_SEGMENT) raddr ste s1;
                pgt = mem s2 ste AND SEGMENT_ENTRY_ORIGIN;
                s3 = store s2 ste SEGMENT_ENTRY_EMPTY;
                s4 = uu_gmap_unshadow_pgt sg raddr pgt s3
            in Some (page_table_free_pgste pgt s4))))"

definition gmap_unshadow_sgt :: "kstate \<Rightarrow> gmap \<Rightarrow> u64 \<Rightarrow> kstate option" where
  "gmap_unshadow_sgt s sg raddr =
     (if \<not> gmap_is_shadow sg then None
      else
        (let r3e = gmap_table_walk s sg raddr 2 in
         if r3e = 0 \<or> mem s r3e AND REGION_ENTRY_ORIGIN = 0 then Some s
         else
           (let s1 = gmap_call_notifier sg raddr (raddr + REGION3_SIZE - 1) s;
                r3o = r3e - 8 * drop_bit REGION3_SHIFT (raddr AND REGION3_INDEX);
                s2 = gmap_idte_one (r3o OR ASCE_TYPE_REGION3) raddr r3e s1;
                sgt = mem s2 r3e AND REGION_ENTRY_ORIGIN;
                s3 = store s2 r3e REGION3_ENTRY_EMPTY;
                s4 = uu_gmap_unshadow_sgt sg raddr sgt s3
            in Some (free_pages sgt s4))))"

definition gmap_unshadow_r3t :: "kstate \<Rightarrow> gmap \<Rightarrow> u64 \<Rightarrow> kstate option" where
  "gmap_unshadow_r3t s sg raddr =
     (if \<not> gmap_is_shadow sg then None
      else
        (let r2e = gmap_table_walk s sg raddr 3 in
         if r2e = 0 \<or> mem s r2e AND REGION_ENTRY_ORIGIN = 0 then Some s
         else
           (let s1 = gmap_call_notifier sg raddr (raddr + REGION2_SIZE - 1) s;
                r2o = r2e - 8 * drop_bit REGION2_SHIFT (raddr AND REGION2_INDEX);
                s2 = gmap_idte_one (r2o OR ASCE_TYPE_REGION2) raddr r2e s1;
                r3t = mem s2 r2e AND REGION_ENTRY_ORIGIN;
                s3 = store s2 r2e REGION2_ENTRY_EMPTY;
                s4 = uu_gmap_unshadow_r3t sg raddr r3t s3
            in Some (free_pages r3t s4))))"

definition gmap_unshadow_r2t :: "kstate \<Rightarrow> gmap \<Rightarrow> u64 \<Rightarrow> kstate option" where
  "gmap_unshadow_r2t s sg raddr =
     (if \<not> gmap_is_shadow sg then None
      else
        (let r1e = gmap_table_walk s sg raddr 4 in
         if r1e = 0 \<or> mem s r1e AND REGION_ENTRY_ORIGIN = 0 then Some s
         else
           (let s1 = gmap_call_notifier sg raddr (raddr + REGION1_SIZE - 1) s;
                r1o = r1e - 8 * drop_bit REGION1_SHIFT (raddr AND REGION1_INDEX);
                s2 = gmap_idte_one (r1o OR ASCE_TYPE_REGION1) raddr r1e s1;
                r2t = mem s2 r1e AND REGION_ENTRY_ORIGIN;
                s3 = store s2 r1e REGION1_ENTRY_EMPTY;
                s4 = uu_gmap_unshadow_r2t sg raddr r2t s3
            in Some (free_pages r2t s4))))"

text \<open>\<^verbatim>\<open>gmap_unshadow\<close>: the whole shadow goes, once.\<close>

definition gmap_unshadow :: "kstate \<Rightarrow> gmap \<Rightarrow> (kstate \<times> gmap) option" where
  "gmap_unshadow s sg =
     (if \<not> gmap_is_shadow sg then None
      else if removed sg then Some (s, sg)
      else
        (let sg1 = sg\<lparr>removed := True\<rparr>;
             s1 = gmap_call_notifier sg1 0 (- 1) s;
             s2 = gmap_flush_tlb sg1 s1;
             tablep = asce sg1 AND ASCE_ORIGIN;
             asce_type = asce sg1 AND ASCE_TYPE_MASK
         in Some
              (if asce_type = ASCE_TYPE_REGION1 then uu_gmap_unshadow_r1t sg1 0 tablep s2
               else if asce_type = ASCE_TYPE_REGION2 then uu_gmap_unshadow_r2t sg1 0 tablep s2
               else if asce_type = ASCE_TYPE_REGION3 then uu_gmap_unshadow_r3t sg1 0 tablep s2
               else uu_gmap_unshadow_sgt sg1 0 tablep s2,
               sg1)))"

section \<open>Building shadow tables\<close>

text \<open>
  The four shadow-level creation operations.  \<open>page\<close> is the answer of the page
  allocator, \<open>rounds\<close> what \<^verbatim>\<open>gmap_protect_rmap\<close> meets; the spinlock is not modelled,
  the calls run one after the other.  The result is the return code, the state, the
  shadow, its parent and the parent's store.
\<close>

definition gmap_shadow_r2t ::
  "rmap_round list \<Rightarrow> u64 option \<Rightarrow> kstate \<Rightarrow> gmap \<Rightarrow> gmap \<Rightarrow> (u64 \<Rightarrow> u64) \<Rightarrow>
     u64 \<Rightarrow> u64 \<Rightarrow> int \<Rightarrow> (int \<times> kstate \<times> gmap \<times> gmap \<times> (u64 \<Rightarrow> u64)) option" where
  "gmap_shadow_r2t rounds page s sg par pm saddr r2t fake =
     (if \<not> gmap_is_shadow sg then None
      else
        (case gmap_alloc_crst page s of
           (None, s0) \<Rightarrow> Some (- ENOMEM, s0, sg, par, pm)
         | (Some s_r2t, s0) \<Rightarrow>
             (let tablep = gmap_table_walk s0 sg saddr 4 in
              if tablep = 0 then Some (- EAGAIN, free_pages s_r2t s0, sg, par, pm)
              else if mem s0 tablep AND REGION_ENTRY_INVALID = 0
              then Some (0, free_pages s_r2t s0, sg, par, pm)
              else if mem s0 tablep AND REGION_ENTRY_ORIGIN \<noteq> 0
              then Some (- EAGAIN, free_pages s_r2t s0, sg, par, pm)
              else
                (let s1 = crst_table_init s0 s_r2t REGION2_ENTRY_EMPTY;
                     s2 = store s1 tablep
                            (s_r2t OR REGION_ENTRY_LENGTH OR REGION_ENTRY_TYPE_R1 OR REGION_ENTRY_INVALID);
                     s3 = (if edat_level sg \<ge> 1
                           then store s2 tablep (mem s2 tablep OR (r2t AND REGION_ENTRY_PROTECT))
                           else s2)
                 in if fake \<noteq> 0
                    then Some (0, store s3 tablep (mem s3 tablep AND NOT REGION_ENTRY_INVALID), sg, par, pm)
                    else
                      (let raddr = (saddr AND REGION1_MASK) OR SHADOW_RMAP_REGION1;
                           origin = r2t AND REGION_ENTRY_ORIGIN;
                           offset = drop_bit 6 (r2t AND REGION_ENTRY_OFFSET) * PAGE_SIZE;
                           len = ((r2t AND REGION_ENTRY_LENGTH) + 1) * PAGE_SIZE - offset
                       in case gmap_protect_rmap rounds s3 sg par pm raddr (origin + offset) len of
                            None \<Rightarrow> None
                          | Some (rc, s4, sg4, par4, pm4) \<Rightarrow>
                              if rc = 0
                              then (let tablep = gmap_table_walk s4 sg4 saddr 4 in
                                    if tablep = 0 \<or> mem s4 tablep AND REGION_ENTRY_ORIGIN \<noteq> s_r2t
                                    then Some (- EAGAIN, s4, sg4, par4, pm4)
                                    else Some (rc, store s4 tablep
                                                 (mem s4 tablep AND NOT REGION_ENTRY_INVALID),
                                               sg4, par4, pm4))
                              else (case gmap_unshadow_r2t s4 sg4 raddr of
                                      None \<Rightarrow> None
                                    | Some s5 \<Rightarrow> Some (rc, s5, sg4, par4, pm4)))))))"

definition gmap_shadow_r3t ::
  "rmap_round list \<Rightarrow> u64 option \<Rightarrow> kstate \<Rightarrow> gmap \<Rightarrow> gmap \<Rightarrow> (u64 \<Rightarrow> u64) \<Rightarrow>
     u64 \<Rightarrow> u64 \<Rightarrow> int \<Rightarrow> (int \<times> kstate \<times> gmap \<times> gmap \<times> (u64 \<Rightarrow> u64)) option" where
  "gmap_shadow_r3t rounds page s sg par pm saddr r3t fake =
     (if \<not> gmap_is_shadow sg then None
      else
        (case gmap_alloc_crst page s of
           (None, s0) \<Rightarrow> Some (- ENOMEM, s0, sg, par, pm)
         | (Some s_r3t, s0) \<Rightarrow>
             (let tablep = gmap_table_walk s0 sg saddr 3 in
              if tablep = 0 then Some (- EAGAIN, free_pages s_r3t s0, sg, par, pm)
              else if mem s0 tablep AND REGION_ENTRY_INVALID = 0
              then Some (0, free_pages s_r3t s0, sg, par, pm)
              else if mem s0 tablep AND REGION_ENTRY_ORIGIN \<noteq> 0
              then Some (- EAGAIN, free_pages s_r3t s0, sg, par, pm)
              else
                (let s1 = crst_table_init s0 s_r3t REGION3_ENTRY_EMPTY;
                     s2 = store s1 tablep
                            (s_r3t OR REGION_ENTRY_LENGTH OR REGION_ENTRY_TYPE_R2 OR REGION_ENTRY_INVALID);
                     s3 = (if edat_level sg \<ge> 1
                           then store s2 tablep (mem s2 tablep OR (r3t AND REGION_ENTRY_PROTECT))
                           else s2)
                 in if fake \<noteq> 0
                    then Some (0, store s3 tablep (mem s3 tablep AND NOT REGION_ENTRY_INVALID), sg, par, pm)
                    else
                      (let raddr = (saddr AND REGION2_MASK) OR SHADOW_RMAP_REGION2;
                           origin = r3t AND REGION_ENTRY_ORIGIN;
                           offset = drop_bit 6 (r3t AND REGION_ENTRY_OFFSET) * PAGE_SIZE;
                           len = ((r3t AND REGION_ENTRY_LENGTH) + 1) * PAGE_SIZE - offset
                       in case gmap_protect_rmap rounds s3 sg par pm raddr (origin + offset) len of
                            None \<Rightarrow> None
                          | Some (rc, s4, sg4, par4, pm4) \<Rightarrow>
                              if rc = 0
                              then (let tablep = gmap_table_walk s4 sg4 saddr 3 in
                                    if tablep = 0 \<or> mem s4 tablep AND REGION_ENTRY_ORIGIN \<noteq> s_r3t
                                    then Some (- EAGAIN, s4, sg4, par4, pm4)
                                    else Some (rc, store s4 tablep
                                                 (mem s4 tablep AND NOT REGION_ENTRY_INVALID),
                                               sg4, par4, pm4))
                              else (case gmap_unshadow_r3t s4 sg4 raddr of
                                      None \<Rightarrow> None
                                    | Some s5 \<Rightarrow> Some (rc, s5, sg4, par4, pm4)))))))"

definition gmap_shadow_sgt ::
  "rmap_round list \<Rightarrow> u64 option \<Rightarrow> kstate \<Rightarrow> gmap \<Rightarrow> gmap \<Rightarrow> (u64 \<Rightarrow> u64) \<Rightarrow>
     u64 \<Rightarrow> u64 \<Rightarrow> int \<Rightarrow> (int \<times> kstate \<times> gmap \<times> gmap \<times> (u64 \<Rightarrow> u64)) option" where
  "gmap_shadow_sgt rounds page s sg par pm saddr sgt fake =
     (if \<not> gmap_is_shadow sg \<or> sgt AND REGION3_ENTRY_LARGE \<noteq> 0 then None
      else
        (case gmap_alloc_crst page s of
           (None, s0) \<Rightarrow> Some (- ENOMEM, s0, sg, par, pm)
         | (Some s_sgt, s0) \<Rightarrow>
             (let tablep = gmap_table_walk s0 sg saddr 2 in
              if tablep = 0 then Some (- EAGAIN, free_pages s_sgt s0, sg, par, pm)
              else if mem s0 tablep AND REGION_ENTRY_INVALID = 0
              then Some (0, free_pages s_sgt s0, sg, par, pm)
              else if mem s0 tablep AND REGION_ENTRY_ORIGIN \<noteq> 0
              then Some (- EAGAIN, free_pages s_sgt s0, sg, par, pm)
              else
                (let s1 = crst_table_init s0 s_sgt SEGMENT_ENTRY_EMPTY;
                     s2 = store s1 tablep
                            (s_sgt OR REGION_ENTRY_LENGTH OR REGION_ENTRY_TYPE_R3 OR REGION_ENTRY_INVALID);
                     s3 = (if edat_level sg \<ge> 1
                           then store s2 tablep (mem s2 tablep OR (sgt AND REGION_ENTRY_PROTECT))
                           else s2)
                 in if fake \<noteq> 0
                    then Some (0, store s3 tablep (mem s3 tablep AND NOT REGION_ENTRY_INVALID), sg, par, pm)
                    else
                      (let raddr = (saddr AND REGION3_MASK) OR SHADOW_RMAP_REGION3;
                           origin = sgt AND REGION_ENTRY_ORIGIN;
                           offset = drop_bit 6 (sgt AND REGION_ENTRY_OFFSET) * PAGE_SIZE;
                           len = ((sgt AND REGION_ENTRY_LENGTH) + 1) * PAGE_SIZE - offset
                       in case gmap_protect_rmap rounds s3 sg par pm raddr (origin + offset) len of
                            None \<Rightarrow> None
                          | Some (rc, s4, sg4, par4, pm4) \<Rightarrow>
                              if rc = 0
                              then (let tablep = gmap_table_walk s4 sg4 saddr 2 in
                                    if tablep = 0 \<or> mem s4 tablep AND REGION_ENTRY_ORIGIN \<noteq> s_sgt
                                    then Some (- EAGAIN, s4, sg4, par4, pm4)
                                    else Some (rc, store s4 tablep
                                                 (mem s4 tablep AND NOT REGION_ENTRY_INVALID),
                                               sg4, par4, pm4))
                              else (case gmap_unshadow_sgt s4 sg4 raddr of
                                      None \<Rightarrow> None
                                    | Some s5 \<Rightarrow> Some (rc, s5, sg4, par4, pm4)))))))"

text \<open>
  \<^verbatim>\<open>gmap_pgste_set_pgt_addr\<close> spreads the origin over the first four pgstes, which
  follow the 256 entries of the page table in its page.  Modelled from the spec:
  \<^verbatim>\<open>page_table_alloc_pgste\<close> and \<^verbatim>\<open>PGSTE_ST2_MASK\<close> are not among the sources; the
  first hands out the page of a page table "alongside" which the origin is recorded.
\<close>

definition PGSTE_ST2_MASK :: u64 where "PGSTE_ST2_MASK = 0x0000ffff00000000"

definition page_table_alloc_pgste :: "u64 option \<Rightarrow> kstate \<Rightarrow> u64 option \<times> kstate" where
  "page_table_alloc_pgste page s =
     (case page of
        None \<Rightarrow> (None, s)
      | Some p \<Rightarrow> (Some p, s\<lparr>pages := insert p (pages s)\<rparr>))"

definition gmap_pgste_set_pgt_addr :: "u64 \<Rightarrow> u64 \<Rightarrow> kstate \<Rightarrow> kstate" where
  "gmap_pgste_set_pgt_addr ptdesc pgt_addr s =
     (let pgstes = tbl_slot ptdesc (of_nat PAGE_ENTRIES);
          s1 = store s (tbl_slot pgstes 0) (mem s (tbl_slot pgstes 0) AND NOT PGSTE_ST2_MASK);
          s2 = store s1 (tbl_slot pgstes 1) (mem s1 (tbl_slot pgstes 1) AND NOT PGSTE_ST2_MASK);
          s3 = store s2 (tbl_slot pgstes 2) (mem s2 (tbl_slot pgstes 2) AND NOT PGSTE_ST2_MASK);
          s4 = store s3 (tbl_slot pgstes 3) (mem s3 (tbl_slot pgstes 3) AND NOT PGSTE_ST2_MASK);
          s5 = store s4 (tbl_slot pgstes 0)
                 (mem s4 (tbl_slot pgstes 0) OR (drop_bit 16 pgt_addr AND PGSTE_ST2_MASK));
          s6 = store s5 (tbl_slot pgstes 1)
                 (mem s5 (tbl_slot pgstes 1) OR (pgt_addr AND PGSTE_ST2_MASK));
          s7 = store s6 (tbl_slot pgstes 2)
                 (mem s6 (tbl_slot pgstes 2) OR (push_bit 16 pgt_addr AND PGSTE_ST2_MASK))
      in store s7 (tbl_slot pgstes 3)
           (mem s7 (tbl_slot pgstes 3) OR (push_bit 32 pgt_addr AND PGSTE_ST2_MASK)))"

definition gmap_shadow_pgt ::
  "rmap_round list \<Rightarrow> u64 option \<Rightarrow> kstate \<Rightarrow> gmap \<Rightarrow> gmap \<Rightarrow> (u64 \<Rightarrow> u64) \<Rightarrow>
     u64 \<Rightarrow> u64 \<Rightarrow> int \<Rightarrow> (int \<times> kstate \<times> gmap \<times> gmap \<times> (u64 \<Rightarrow> u64)) option" where
  "gmap_shadow_pgt rounds page s sg par pm saddr pgt fake =
     (if \<not> gmap_is_shadow sg \<or> pgt AND SEGMENT_ENTRY_LARGE \<noteq> 0 then None
      else
        (case page_table_alloc_pgste page s of
           (None, s0) \<Rightarrow> Some (- ENOMEM, s0, sg, par, pm)
         | (Some s_pgt, s0) \<Rightarrow>
             (let origin = pgt AND SEGMENT_ENTRY_ORIGIN;
                  origin = (if fake \<noteq> 0 then origin OR GMAP_SHADOW_FAKE_TABLE else origin);
                  s0 = gmap_pgste_set_pgt_addr s_pgt origin s0;
                  tablep = gmap_table_walk s0 sg saddr 1
              in if tablep = 0 then Some (- EAGAIN, page_table_free_pgste s_pgt s0, sg, par, pm)
                 else if mem s0 tablep AND SEGMENT_ENTRY_INVALID = 0
                 then Some (0, page_table_free_pgste s_pgt s0, sg, par, pm)
                 else if mem s0 tablep AND SEGMENT_ENTRY_ORIGIN \<noteq> 0
                 then Some (- EAGAIN, page_table_free_pgste s_pgt s0, sg, par, pm)
                 else
                   (let s3 = store s0 tablep
                               (s_pgt OR SEGMENT_ENTRY OR (pgt AND SEGMENT_ENTRY_PROTECT)
                                  OR SEGMENT_ENTRY_INVALID)
                    in if fake \<noteq> 0
                       then Some (0, store s3 tablep (mem s3 tablep AND NOT SEGMENT_ENTRY_INVALID),
                                  sg, par, pm)
                       else
                         (let raddr = (saddr AND SEGMENT_MASK) OR SHADOW_RMAP_SEGMENT;
                              origin = pgt AND SEGMENT_ENTRY_ORIGIN AND PAGE_MASK
                          in case gmap_protect_rmap rounds s3 sg par pm raddr origin PAGE_SIZE of
                               None \<Rightarrow> None
                             | Some (rc, s4, sg4, par4, pm4) \<Rightarrow>
                                 if rc = 0
                                 then (let tablep = gmap_table_walk s4 sg4 saddr 1 in
                                       if tablep = 0 \<or> mem s4 tablep AND SEGMENT_ENTRY_ORIGIN \<noteq> s_pgt
                                       then Some (- EAGAIN, s4, sg4, par4, pm4)
                                       else Some (rc, store s4 tablep
                                                    (mem s4 tablep AND NOT SEGMENT_ENTRY_INVALID),
                                                  sg4, par4, pm4))
                                 else (case gmap_unshadow_pgt s4 sg4 raddr of
                                         None \<Rightarrow> None
                                       | Some s5 \<Rightarrow> Some (rc, s5, sg4, par4, pm4)))))))"

section \<open>Freeing an address space\<close>

text \<open>
  \<^verbatim>\<open>gmap_radix_tree_free\<close> and \<^verbatim>\<open>gmap_rmap_radix_tree_free\<close> share one loop: collect up
  to 16 indices from \<open>index\<close> upwards, delete them, go on from the last one, and stop
  when a pass collects nothing.  \<open>release\<close> is what is done with a deleted item:
  nothing for the two address maps, \<^verbatim>\<open>kfree\<close> of every record of the list for the rmap
  store.
\<close>

fun radix_tree_delete_all ::
  "('v \<Rightarrow> kstate \<Rightarrow> kstate) \<Rightarrow> u64 list \<Rightarrow> 'v radix_tree \<Rightarrow> kstate \<Rightarrow> 'v radix_tree \<times> kstate" where
  "radix_tree_delete_all release [] root s = (root, s)"
| "radix_tree_delete_all release (index # indices) root s =
     (case radix_tree_delete root index of
        (None, root') \<Rightarrow> radix_tree_delete_all release indices root' s
      | (Some item, root') \<Rightarrow> radix_tree_delete_all release indices root' (release item s))"

function radix_tree_free_loop ::
  "('v \<Rightarrow> kstate \<Rightarrow> kstate) \<Rightarrow> u64 \<Rightarrow> 'v radix_tree \<Rightarrow> kstate \<Rightarrow> 'v radix_tree \<times> kstate" where
  "radix_tree_free_loop release index root s =
     (let indices = take 16 (map fst (filter (\<lambda>kv. index \<le> fst kv) root)) in
      if indices = [] then (root, s)
      else (case radix_tree_delete_all release indices root s of
              (root', s') \<Rightarrow> radix_tree_free_loop release (last indices) root' s'))"
  by pat_completeness auto
termination
proof (relation "measure (\<lambda>(release, index, root, s). length root)")
  show "wf (measure (\<lambda>(release, index, root, s). length root))" by simp
next
  fix release :: "'v \<Rightarrow> kstate \<Rightarrow> kstate" and index :: u64 and root :: "'v radix_tree"
    and s :: kstate and indices y z
  assume ind: "indices = take 16 (map fst (filter (\<lambda>kv. index \<le> fst kv) root))"
    and ne: "indices \<noteq> []"
    and xy: "(y, z) = radix_tree_delete_all release indices root s"
  have le: "length (fst (radix_tree_delete_all release l r t)) \<le> length r"
    for l and r :: "'v radix_tree" and t
  proof (induction l arbitrary: r t)
    case Nil
    then show ?case by simp
  next
    case (Cons i l)
    have "length (fst (radix_tree_delete_all release l (filter (\<lambda>kv. fst kv \<noteq> i) r) t'))
            \<le> length r" for t'
      by (rule le_trans [OF Cons]) simp
    then show ?case
      by (simp add: radix_tree_delete_def split: option.splits)
  qed
  obtain i rest where ir: "indices = i # rest" using ne by (cases indices) auto
  have "i \<in> set indices" using ir by simp
  then have "i \<in> set (map fst (filter (\<lambda>kv. index \<le> fst kv) root))"
    unfolding ind by (rule in_set_takeD)
  then obtain v where "(i, v) \<in> set root" by auto
  then have less: "length (filter (\<lambda>kv. fst kv \<noteq> i) root) < length root"
    by (intro length_filter_less [of "(i, v)"]) auto
  have "length (fst (radix_tree_delete_all release rest (filter (\<lambda>kv. fst kv \<noteq> i) root) t'))
          < length root" for t'
    by (rule le_less_trans [OF le less])
  then have "length (fst (radix_tree_delete_all release (i # rest) root s)) < length root"
    by (simp add: radix_tree_delete_def split: option.splits)
  then have "length y < length root"
    using xy ir by (metis fst_conv)
  then show "((release, last indices, y, z), release, index, root, s)
        \<in> measure (\<lambda>(release, index, root, s). length root)"
    by simp
qed

definition gmap_radix_tree_free :: "u64 radix_tree \<Rightarrow> kstate \<Rightarrow> u64 radix_tree \<times> kstate" where
  "gmap_radix_tree_free root s = radix_tree_free_loop (\<lambda>item s. s) 0 root s"

definition gmap_rmap_radix_tree_free :: "u64 list radix_tree \<Rightarrow> kstate \<Rightarrow> u64 list radix_tree \<times> kstate" where
  "gmap_rmap_radix_tree_free root s =
     radix_tree_free_loop (\<lambda>head s. fold (\<lambda>rmap. emit (Kfree_rmap rmap)) head s) 0 root s"

text \<open>
  \<^verbatim>\<open>gmap_free_crst\<close> recurses through the region tables it finds in the store.  The
  depth of the recursion is \<open>fuel\<close>; running out of it is \<open>None\<close>.  Freeing pages does
  not change the store.
\<close>

fun gmap_free_crst :: "nat \<Rightarrow> u64 \<Rightarrow> bool \<Rightarrow> kstate \<Rightarrow> kstate option" where
  "gmap_free_crst 0 tbl free_ptes s = None"
| "gmap_free_crst (Suc fuel) tbl free_ptes s =
     (let is_segment = (mem s tbl AND SEGMENT_ENTRY_TYPE_MASK = 0) in
      if is_segment then
        (if \<not> free_ptes then Some (free_pages tbl s)
         else Some (free_pages tbl
                (fold (\<lambda>i s. if mem s (tbl_slot tbl (of_nat i)) AND SEGMENT_ENTRY_INVALID = 0
                              then page_table_free_pgste (mem s (tbl_slot tbl (of_nat i))) s
                              else s)
                   [0..<CRST_ENTRIES] s)))
      else
        (case fold (\<lambda>i r. case r of
                          None \<Rightarrow> None
                        | Some s \<Rightarrow>
                            if mem s (tbl_slot tbl (of_nat i)) AND REGION_ENTRY_INVALID = 0
                            then gmap_free_crst fuel (mem s (tbl_slot tbl (of_nat i)) AND PAGE_MASK)
                                   free_ptes s
                            else Some s)
                [0..<CRST_ENTRIES] (Some s) of
           None \<Rightarrow> None
         | Some s' \<Rightarrow> Some (free_pages tbl s')))"

text \<open>
  \<^verbatim>\<open>gmap_free\<close>.  The final \<^verbatim>\<open>gmap_put(gmap->parent)\<close> and \<^verbatim>\<open>kfree(gmap)\<close> are
  entries of the trace; the gmap is returned as it was when it was handed to
  \<^verbatim>\<open>kfree\<close>.  \<^verbatim>\<open>gmap_put\<close> says whether the structure is still alive.
\<close>

definition gmap_free :: "nat \<Rightarrow> kstate \<Rightarrow> gmap \<Rightarrow> (kstate \<times> gmap) option" where
  "gmap_free fuel s g =
     (let s1 = (if \<not> (gmap_is_shadow g \<and> removed g) then gmap_flush_tlb g s else s) in
      case gmap_free_crst fuel (table g) (gmap_is_shadow g) s1 of
        None \<Rightarrow> None
      | Some s2 \<Rightarrow>
          (let (g2h, s3) = gmap_radix_tree_free (guest_to_host g) s2;
               (h2g, s4) = gmap_radix_tree_free (host_to_guest g) s3;
               g1 = g\<lparr>guest_to_host := g2h, host_to_guest := h2g\<rparr>
           in if gmap_is_shadow g1
              then (let (h2r, s5) = gmap_rmap_radix_tree_free (host_to_rmap g1) s4;
                        g2 = g1\<lparr>host_to_rmap := h2r\<rparr>
                    in Some (emit (Kfree_gmap (ident g2)) (emit (Gmap_put (parent g2)) s5), g2))
              else Some (emit (Kfree_gmap (ident g1)) s4, g1)))"

definition gmap_put :: "nat \<Rightarrow> kstate \<Rightarrow> gmap \<Rightarrow> (kstate \<times> gmap \<times> bool) option" where
  "gmap_put fuel s g =
     (if ref_count g - 1 = 0
      then (case gmap_free fuel s (g\<lparr>ref_count := 0\<rparr>) of
              None \<Rightarrow> None
            | Some (s', g') \<Rightarrow> Some (s', g', False))
      else Some (s, g\<lparr>ref_count := ref_count g - 1\<rparr>, True))"

section \<open>Notifications from the host\<close>

text \<open>
  \<^verbatim>\<open>gmap_shadow_notify\<close> for one shadow: the result says whether the shadow is still
  on its parent's list of children (\<^verbatim>\<open>list_del\<close> takes it off).
\<close>

fun shadow_notify_rmaps :: "u64 list \<Rightarrow> kstate \<Rightarrow> gmap \<Rightarrow> kstate option" where
  "shadow_notify_rmaps [] s sg = Some s"
| "shadow_notify_rmaps (rmap # rnext) s sg =
     (let bits = rmap AND SHADOW_RMAP_MASK;
          raddr = rmap XOR bits;
          r = (if bits = SHADOW_RMAP_REGION1 then gmap_unshadow_r2t s sg raddr
               else if bits = SHADOW_RMAP_REGION2 then gmap_unshadow_r3t s sg raddr
               else if bits = SHADOW_RMAP_REGION3 then gmap_unshadow_sgt s sg raddr
               else if bits = SHADOW_RMAP_SEGMENT then gmap_unshadow_pgt s sg raddr
               else if bits = SHADOW_RMAP_PGTABLE then gmap_unshadow_page s sg raddr
               else Some s)
      in case r of
           None \<Rightarrow> None
         | Some s1 \<Rightarrow> shadow_notify_rmaps rnext (emit (Kfree_rmap rmap) s1) sg)"

definition gmap_shadow_notify ::
  "nat \<Rightarrow> kstate \<Rightarrow> gmap \<Rightarrow> u64 \<Rightarrow> u64 \<Rightarrow> (kstate \<times> gmap \<times> bool) option" where
  "gmap_shadow_notify fuel s sg vmaddr gaddr =
     (if \<not> gmap_is_shadow sg then None
      else if removed sg then Some (s, sg, True)
      else
        (let start = orig_asce sg AND ASCE_ORIGIN;
             end = start + ((orig_asce sg AND ASCE_TABLE_LENGTH) + 1) * PAGE_SIZE
         in if orig_asce sg AND ASCE_REAL_SPACE = 0 \<and> gaddr \<ge> start \<and> gaddr < end
            then (case gmap_unshadow s sg of
                    None \<Rightarrow> None
                  | Some (s1, sg1) \<Rightarrow>
                      (case gmap_put fuel s1 sg1 of
                         None \<Rightarrow> None
                       | Some (s2, sg2, alive) \<Rightarrow> Some (s2, sg2, False)))
            else
              (case radix_tree_delete (host_to_rmap sg) (drop_bit PAGE_SHIFT vmaddr) of
                 (head, h2r) \<Rightarrow>
                   (case shadow_notify_rmaps (case head of None \<Rightarrow> [] | Some l \<Rightarrow> l) s
                           (sg\<lparr>host_to_rmap := h2r\<rparr>) of
                      None \<Rightarrow> None
                    | Some s1 \<Rightarrow> Some (s1, sg\<lparr>host_to_rmap := h2r\<rparr>, True)))))"

text \<open>
  \<^verbatim>\<open>ptep_notify\<close>.  \<open>ptep\<close> is the address of the page-table entry, of which only the
  index within its page table matters.  The body of the loop over the address spaces of
  the mm is \<open>ptep_notify_gmap\<close>, for one address space and the shadows on its list of
  children; the shadows a notification removes from the list are dropped from it.
\<close>

fun shadow_notify_children ::
  "nat \<Rightarrow> kstate \<Rightarrow> gmap list \<Rightarrow> u64 \<Rightarrow> u64 \<Rightarrow> (kstate \<times> gmap list) option" where
  "shadow_notify_children fuel s [] vmaddr gaddr = Some (s, [])"
| "shadow_notify_children fuel s (sg # next) vmaddr gaddr =
     (case gmap_shadow_notify fuel s sg vmaddr gaddr of
        None \<Rightarrow> None
      | Some (s1, sg1, listed) \<Rightarrow>
          (case shadow_notify_children fuel s1 next vmaddr gaddr of
             None \<Rightarrow> None
           | Some (s2, rest) \<Rightarrow> Some (s2, if listed then sg1 # rest else rest)))"

definition ptep_notify_gmap ::
  "nat \<Rightarrow> kstate \<Rightarrow> gmap \<times> gmap list \<Rightarrow> u64 \<Rightarrow> u64 \<Rightarrow> u64 \<Rightarrow> (kstate \<times> gmap \<times> gmap list) option" where
  "ptep_notify_gmap fuel s gc vmaddr ptep bits =
     (let (g, shadows) = gc;
          offset = (ptep AND (255 * 8)) * (PAGE_SIZE div 8);
          gaddr = host_to_guest_lookup g vmaddr + offset
      in if \<not> IS_GADDR_VALID gaddr then Some (s, g, shadows)
         else
           (case (if shadows \<noteq> [] \<and> bits AND PGSTE_VSIE_BIT \<noteq> 0
                  then shadow_notify_children fuel s shadows vmaddr gaddr
                  else Some (s, shadows)) of
              None \<Rightarrow> None
            | Some (s1, shadows1) \<Rightarrow>
                Some (if bits AND PGSTE_IN_BIT \<noteq> 0
                      then gmap_call_notifier g gaddr (gaddr + PAGE_SIZE - 1) s1 else s1,
                      g, shadows1)))"

fun ptep_notify ::
  "nat \<Rightarrow> kstate \<Rightarrow> (gmap \<times> gmap list) list \<Rightarrow> u64 \<Rightarrow> u64 \<Rightarrow> u64 \<Rightarrow>
     (kstate \<times> (gmap \<times> gmap list) list) option" where
  "ptep_notify fuel s [] vmaddr ptep bits = Some (s, [])"
| "ptep_notify fuel s (gc # gmap_list) vmaddr ptep bits =
     (case ptep_notify_gmap fuel s gc vmaddr ptep bits of
        None \<Rightarrow> None
      | Some (s1, g1, shadows1) \<Rightarrow>
          (case ptep_notify fuel s1 gmap_list vmaddr ptep bits of
             None \<Rightarrow> None
           | Some (s2, rest) \<Rightarrow> Some (s2, (g1, shadows1) # rest)))"

section \<open>Histories and sample states used in the statements\<close>

datatype notifier_op = Register nat | Unregister nat

fun run_notifier_ops :: "notifier_op list \<Rightarrow> kstate \<Rightarrow> kstate option" where
  "run_notifier_ops [] s = Some s"
| "run_notifier_ops (Register nb # ops) s =
     (case gmap_register_pte_notifier nb s of None \<Rightarrow> None | Some s1 \<Rightarrow> run_notifier_ops ops s1)"
| "run_notifier_ops (Unregister nb # ops) s =
     (case gmap_unregister_pte_notifier nb s of None \<Rightarrow> None | Some s1 \<Rightarrow> run_notifier_ops ops s1)"

text \<open>
  A history uses the list as meant, from the blocks \<open>l\<close> on: it registers only blocks
  that are not on the list and unregisters only blocks that are.
\<close>

fun notifier_ops_ok :: "notifier_op list \<Rightarrow> nat list \<Rightarrow> bool" where
  "notifier_ops_ok [] l = True"
| "notifier_ops_ok (Register nb # ops) l = (nb \<notin> set l \<and> notifier_ops_ok ops (nb # l))"
| "notifier_ops_ok (Unregister nb # ops) l = (nb \<in> set l \<and> notifier_ops_ok ops (remove1 nb l))"

text \<open>A state with an all-zero store, nothing allocated, nothing registered.\<close>

definition boot_state :: kstate where
  "boot_state = \<lparr>mem = (\<lambda>a. 0), pages = {}, gmap_notifier_list = [], trace = [],
                  cpu_has_idte = True, machine_has_tlb_guest = False, debug_vm = False\<rparr>"



text \<open>A structure as \<^verbatim>\<open>kzalloc\<close> returns it, and the gmap of a root table.\<close>

definition zeroed_gmap :: gmap where
  "zeroed_gmap = \<lparr>ident = 0, table = 0, asce = 0, asce_end = 0, guest_to_host = [],
                   host_to_guest = [], host_to_rmap = [], ref_count = 0, parent = 0,
                   removed = False, edat_level = 0, orig_asce = 0, children = [],
                   allow_gmap_hpage_1m = False\<rparr>"

text \<open>
  A two-level space as \<^verbatim>\<open>gmap_alloc\<close> returns it for a limit below \<^verbatim>\<open>_REGION3_SIZE\<close>
  (structure at \<open>0x2000\<close>, segment table at \<open>0x10000\<close>), and a host walk that finds a
  present, small-page segment entry.
\<close>

definition sample_state :: kstate where
  "sample_state = crst_table_init (boot_state\<lparr>pages := {0x10000}\<rparr>) 0x10000 SEGMENT_ENTRY_EMPTY"

definition sample_gmap :: gmap where
  "sample_gmap = zeroed_gmap\<lparr>ident := 0x2000, table := 0x10000, asce := 0x101c3,
                              asce_end := 0x7fffffff, ref_count := 1\<rparr>"

definition sample_env :: link_env where
  "sample_env = \<lparr>r1_page = None, r2_page = None, r3_page = None, pgd_is_none = False,
                  p4d_is_none = False, pud_is_none = False, pud_is_leaf = False,
                  host_pmd = 0x30000, preload_rc = 0\<rparr>"

text \<open>Every value stored in \<^verbatim>\<open>host_to_guest\<close> has \<^verbatim>\<open>VALID_GADDR_FLAG\<close>.\<close>

definition host_to_guest_valid :: "gmap \<Rightarrow> bool" where
  "host_to_guest_valid g = list_all (\<lambda>kv. IS_GADDR_VALID (snd kv)) (host_to_guest g)"



text \<open>
  The operations of the file that change the maps of an address space, for histories:
  \<^verbatim>\<open>__gmap_link\<close>, \<^verbatim>\<open>__gmap_unlink_by_vmaddr\<close> (the invalidation that comes from the
  host side), \<^verbatim>\<open>__gmap_unmap_by_gaddr\<close>, \<^verbatim>\<open>gmap_map_segment\<close> and
  \<^verbatim>\<open>gmap_unmap_segment\<close>, each with its arguments and what it meets of the environment.
  A history runs as long as no operation stops the kernel; return codes are dropped.
\<close>

datatype gmap_op =
    Op_link link_env u64 u64
  | Op_unlink_by_vmaddr u64
  | Op_unmap_by_gaddr u64
  | Op_map_segment "u64 \<Rightarrow> bool" u64 u64 u64
  | Op_unmap_segment u64 u64

fun run_gmap_op :: "gmap_op \<Rightarrow> kstate \<times> gmap \<Rightarrow> (kstate \<times> gmap) option" where
  "run_gmap_op (Op_link env gaddr vmaddr) (s, g) = map_option snd (uu_gmap_link env s g gaddr vmaddr)"
| "run_gmap_op (Op_unlink_by_vmaddr vmaddr) (s, g) = map_option snd (uu_gmap_unlink_by_vmaddr s g vmaddr)"
| "run_gmap_op (Op_unmap_by_gaddr gaddr) (s, g) = map_option snd (uu_gmap_unmap_by_gaddr s g gaddr)"
| "run_gmap_op (Op_map_segment nomem from to len) (s, g) =
     map_option snd (gmap_map_segment nomem s g from to len)"
| "run_gmap_op (Op_unmap_segment to len) (s, g) = map_option snd (gmap_unmap_segment s g to len)"

fun run_gmap_ops :: "gmap_op list \<Rightarrow> kstate \<times> gmap \<Rightarrow> (kstate \<times> gmap) option" where
  "run_gmap_ops [] sg = Some sg"
| "run_gmap_ops (op # ops) sg =
     (case run_gmap_op op sg of None \<Rightarrow> None | Some sg1 \<Rightarrow> run_gmap_ops ops sg1)"

text \<open>
  The operation is no unlink of the guest segment with index \<open>k\<close>: it is not
  \<^verbatim>\<open>__gmap_unmap_by_gaddr\<close> of an address in the segment, and not
  \<^verbatim>\<open>gmap_unmap_segment\<close> or \<^verbatim>\<open>gmap_map_segment\<close> (which unlinks what it maps anew) of
  a range with the segment in it.
\<close>

fun op_keeps :: "u64 \<Rightarrow> gmap_op \<Rightarrow> bool" where
  "op_keeps k (Op_link env gaddr vmaddr) = True"
| "op_keeps k (Op_unlink_by_vmaddr vmaddr) = True"
| "op_keeps k (Op_unmap_by_gaddr gaddr) = (drop_bit PMD_SHIFT gaddr \<noteq> k)"
| "op_keeps k (Op_map_segment nomem from to len) =
     (\<forall>i < unat (drop_bit PMD_SHIFT len). drop_bit PMD_SHIFT (to + of_nat i * PMD_SIZE) \<noteq> k)"
| "op_keeps k (Op_unmap_segment to len) =
     (\<forall>i < unat (drop_bit PMD_SHIFT len). drop_bit PMD_SHIFT (to + of_nat i * PMD_SIZE) \<noteq> k)"

text \<open>Every slot of the root table of \<open>g\<close> holds \<open>v\<close>.\<close>

definition root_filled :: "kstate \<Rightarrow> gmap \<Rightarrow> u64 \<Rightarrow> bool" where
  "root_filled s g v = (\<forall>i < CRST_ENTRIES. mem s (tbl_slot (table g) (of_nat i)) = v)"



section \<open>Word facts\<close>

lemma and_not_mask_zero_iff: "(x :: 'a::len word) AND NOT (mask k) = 0 \<longleftrightarrow> x AND mask k = x"
  by (auto simp add: bit_eq_iff bit_simps)

lemma range_check_iff:
  "k < 64 \<Longrightarrow> ((x :: u64) AND push_bit k (- 1) \<noteq> 0) \<longleftrightarrow> 2 ^ k \<le> x"
  by (simp add: and_not_mask_zero_iff mask_eq_iff_w2p word_size not_less)

lemma twelve: "(12::u64) = push_bit 2 (mask 2)"
  by (simp add: mask_eq_exp_minus_1)

lemma and12: "(x::u64) AND 12 = push_bit 2 (take_bit 2 (drop_bit 2 x))"
proof -
  have *: "\<And>n::nat. 2 \<le> n \<Longrightarrow> Suc (Suc (n - 2)) = n" by arith
  show ?thesis unfolding twelve by (auto simp add: bit_eq_iff bit_simps *)
qed

lemma tb2: "take_bit 2 (y::u64) = 0 \<or> take_bit 2 y = 1 \<or> take_bit 2 y = 2 \<or> take_bit 2 y = 3"
proof -
  have "unat (take_bit 2 y) < 4"
    using take_bit_nat_less_exp[of 2 "unat y"] by (simp add: unsigned_take_bit_eq)
  then have "unat (take_bit 2 y) = 0 \<or> unat (take_bit 2 y) = 1 \<or> unat (take_bit 2 y) = 2 \<or> unat (take_bit 2 y) = 3"
    by arith
  then show ?thesis
    by (auto simp add: word_unat_eq_iff)
qed

lemma asce_type_cases: "asce_type_of g = 0 \<or> asce_type_of g = 4 \<or> asce_type_of g = 8 \<or> asce_type_of g = 12"
  using tb2[of "drop_bit 2 (asce g)"]
  unfolding asce_type_of_def ASCE_TYPE_MASK_def and12
  by auto

section \<open>The table walker against the spec's descent\<close>

lemma numeral_depths: "unat (drop_bit 2 (0::u64)) = 0" "unat (drop_bit 2 (4::u64)) = 1"
  "unat (drop_bit 2 (8::u64)) = 2" "unat (drop_bit 2 (12::u64)) = 3"
  by (simp_all add: drop_bit_eq_div)

lemma spec_walk_pos:
  "0 < n \<Longrightarrow> spec_walk m n tbl gaddr level =
     (let e = tbl_slot tbl (level_index n gaddr) in
      if level = int n then e
      else if m e AND REGION_ENTRY_INVALID \<noteq> 0 then 0
      else spec_walk m (n - 1) (level_origin n (m e)) gaddr level)"
  by (cases n) (auto simp add: Let_def)

lemma walk_case_segment_spec:
  "walk_case_segment s tbl gaddr level = spec_walk (mem s) (Suc 0) tbl gaddr level"
  by (simp add: walk_case_segment_def level_index_def level_origin_def Let_def
      SEGMENT_SHIFT_def SEGMENT_INDEX_def)

lemma walk_case_region3_spec:
  "walk_case_region3 s tbl gaddr level = spec_walk (mem s) 2 tbl gaddr level"
  by (simp add: spec_walk_pos [of 2] walk_case_region3_def walk_case_segment_spec level_index_def level_origin_def Let_def
      REGION3_SHIFT_def REGION3_INDEX_def del: spec_walk.simps)

lemma walk_case_region2_spec:
  "walk_case_region2 s tbl gaddr level = spec_walk (mem s) 3 tbl gaddr level"
  by (simp add: spec_walk_pos [of 3] walk_case_region2_def walk_case_region3_spec level_index_def level_origin_def Let_def
      REGION2_SHIFT_def REGION2_INDEX_def del: spec_walk.simps)

lemma walk_case_region1_spec:
  "walk_case_region1 s tbl gaddr level = spec_walk (mem s) 4 tbl gaddr level"
  by (simp add: spec_walk_pos [of 4] walk_case_region1_def walk_case_region2_spec level_index_def level_origin_def Let_def
      REGION1_SHIFT_def REGION1_INDEX_def del: spec_walk.simps)

lemma asce_depth_cases:
  "asce_type_of g = 0 \<and> asce_depth g = 0 \<or> asce_type_of g = 4 \<and> asce_depth g = 1 \<or>
   asce_type_of g = 8 \<and> asce_depth g = 2 \<or> asce_type_of g = 12 \<and> asce_depth g = 3"
  using asce_type_cases [of g] unfolding asce_depth_def
  by (auto simp only: numeral_depths)

lemma uint_drop_asce: "uint (drop_bit 2 (asce_type_of g)) = int (asce_depth g)"
  by (simp add: asce_depth_def)

text \<open>
  C7 (amended).  For every space, guest address and target level, \<^verbatim>\<open>gmap_table_walk\<close>
  returns \<^verbatim>\<open>NULL\<close> for a removed shadow space, for a level above the root's, and for
  an address beyond what the configured depth can represent; otherwise it is the descent
  the spec describes: from the root, one slot per level above the target, \<^verbatim>\<open>NULL\<close> as
  soon as a traversed entry has its invalid bit set, else on through the entry's origin
  field, down to the slot of the requested level.  The descent tests the invalid bit
  only: it does not look at the large-leaf bit of an entry it passes.
\<close>

theorem gmap_table_walk_spec:
  "gmap_table_walk s g gaddr level =
     (if gmap_is_shadow g \<and> removed g then 0
      else if int (asce_depth g) + 1 < level then 0
      else if asce_depth g < 3 \<and> 2 ^ (31 + 11 * asce_depth g) \<le> gaddr then 0
      else spec_walk (mem s) (asce_depth g + 1) (table g) gaddr level)"
proof -
  have unf: "gmap_table_walk s g gaddr level =
     (if gmap_is_shadow g \<and> removed g then 0
      else if level > int (asce_depth g) + 1 then 0
      else if asce_type_of g \<noteq> ASCE_TYPE_REGION1 \<and>
              gaddr AND push_bit (31 + asce_depth g * 11) (- 1) \<noteq> 0 then 0
      else if asce_type_of g = ASCE_TYPE_REGION1 then walk_case_region1 s (table g) gaddr level
      else if asce_type_of g = ASCE_TYPE_REGION2 then walk_case_region2 s (table g) gaddr level
      else if asce_type_of g = ASCE_TYPE_REGION3 then walk_case_region3 s (table g) gaddr level
      else walk_case_segment s (table g) gaddr level)"
    unfolding gmap_table_walk_def Let_def uint_drop_asce asce_depth_def [symmetric] ..
  have rc: "\<And>k. k < 64 \<Longrightarrow> (gaddr AND push_bit k (- 1) \<noteq> 0) = (2 ^ k \<le> gaddr)"
    by (rule range_check_iff)
  consider (seg) "asce_type_of g = 0" "asce_depth g = 0"
    | (r3) "asce_type_of g = 4" "asce_depth g = 1"
    | (r2) "asce_type_of g = 8" "asce_depth g = 2"
    | (r1) "asce_type_of g = 12" "asce_depth g = 3"
    using asce_depth_cases [of g] by auto
  then show ?thesis
  proof cases
    case seg
    have "asce_depth g + 1 = Suc 0" using seg by simp
    then show ?thesis
      unfolding unf using seg rc [of 31]
      by (simp add: ASCE_TYPE_REGION1_def ASCE_TYPE_REGION2_def ASCE_TYPE_REGION3_def
          walk_case_segment_spec del: spec_walk.simps)
  next
    case r3
    have "asce_depth g + 1 = 2" using r3 by simp
    then show ?thesis
      unfolding unf using r3 rc [of 42]
      by (simp add: ASCE_TYPE_REGION1_def ASCE_TYPE_REGION2_def ASCE_TYPE_REGION3_def
          walk_case_region3_spec numeral_2_eq_2 [symmetric] del: spec_walk.simps)
  next
    case r2
    have "asce_depth g + 1 = 3" using r2 by simp
    then show ?thesis
      unfolding unf using r2 rc [of 53]
      by (simp add: ASCE_TYPE_REGION1_def ASCE_TYPE_REGION2_def ASCE_TYPE_REGION3_def
          walk_case_region2_spec del: spec_walk.simps)
  next
    case r1
    have "asce_depth g + 1 = 4" using r1 by simp
    then show ?thesis
      unfolding unf using r1
      by (simp add: ASCE_TYPE_REGION1_def ASCE_TYPE_REGION2_def ASCE_TYPE_REGION3_def
          walk_case_region1_spec del: spec_walk.simps)
  qed
qed

theorem gmap_table_walk_spec_witness:
  "gmap_table_walk (store boot_state 0x10000 0x20000)
     (zeroed_gmap\<lparr>table := 0x10000, asce := 0x10000\<rparr>) 0x1000 0 = 0x20008"
  using gmap_table_walk_spec [of "store boot_state 0x10000 0x20000"
      "zeroed_gmap\<lparr>table := 0x10000, asce := 0x10000\<rparr>" "0x1000" 0]
  by (simp add: store_def boot_state_def zeroed_gmap_def gmap_is_shadow_def asce_depth_def
      asce_type_of_def ASCE_TYPE_MASK_def level_index_def level_origin_def tbl_slot_def
      REGION_ENTRY_INVALID_def SEGMENT_ENTRY_ORIGIN_def PAGE_INDEX_def PAGE_SHIFT_def)

text \<open>
  C7 as stated fails where it says the walk stops at a large leaf: with a valid
  large-leaf segment entry, the walk to the page level neither returns \<^verbatim>\<open>NULL\<close> nor
  the leaf's slot, but a slot computed from the leaf's frame address.
\<close>

theorem gmap_table_walk_leaf_counterexample:
  "\<not> (\<forall>s g gaddr. gmap_table_walk s g gaddr 1 \<noteq> 0 \<and>
         pmd_leaf (mem s (gmap_table_walk s g gaddr 1)) \<longrightarrow>
         gmap_table_walk s g gaddr 0 = 0 \<or>
         gmap_table_walk s g gaddr 0 = gmap_table_walk s g gaddr 1)"
proof
  assume h: "\<forall>s g gaddr. gmap_table_walk s g gaddr 1 \<noteq> 0 \<and>
         pmd_leaf (mem s (gmap_table_walk s g gaddr 1)) \<longrightarrow>
         gmap_table_walk s g gaddr 0 = 0 \<or>
         gmap_table_walk s g gaddr 0 = gmap_table_walk s g gaddr 1"
  let ?s = "store boot_state 0x10000 0x80000400"
  let ?g = "zeroed_gmap\<lparr>table := 0x10000, asce := 0x10000\<rparr>"
  have w1: "gmap_table_walk ?s ?g 0x1000 1 = 0x10000"
    by (simp add: gmap_table_walk_def walk_case_segment_def store_def boot_state_def
        zeroed_gmap_def gmap_is_shadow_def asce_type_of_def ASCE_TYPE_MASK_def
        ASCE_TYPE_REGION1_def ASCE_TYPE_REGION2_def ASCE_TYPE_REGION3_def tbl_slot_def
        SEGMENT_INDEX_def SEGMENT_SHIFT_def Let_def mask_eq_exp_minus_1)
  have w0: "gmap_table_walk ?s ?g 0x1000 0 = 0x80000008"
    by (simp add: gmap_table_walk_def walk_case_segment_def store_def boot_state_def
        zeroed_gmap_def gmap_is_shadow_def asce_type_of_def ASCE_TYPE_MASK_def
        ASCE_TYPE_REGION1_def ASCE_TYPE_REGION2_def ASCE_TYPE_REGION3_def tbl_slot_def
        SEGMENT_INDEX_def SEGMENT_SHIFT_def Let_def REGION_ENTRY_INVALID_def mask_eq_exp_minus_1
        SEGMENT_ENTRY_ORIGIN_def PAGE_INDEX_def PAGE_SHIFT_def)
  have lf: "pmd_leaf (mem ?s 0x10000)"
    by (simp add: pmd_leaf_def store_def SEGMENT_ENTRY_LARGE_def)
  from h [rule_format, of ?s ?g "0x1000"] w1 w0 lf show False
    by simp
qed

section \<open>Allocation\<close>

lemma in_crst_slot: "i < 2048 \<Longrightarrow> in_crst p (tbl_slot p (of_nat i))"
proof -
  assume i: "i < 2048"
  have e: "tbl_slot p (of_nat i) - p = (of_nat (8 * i) :: u64)"
    by (simp add: tbl_slot_def)
  have u: "unat (of_nat (8 * i) :: u64) = 8 * i"
    using i by (simp add: unat_word_ariths unat_of_nat)
  have "2 ^ 3 dvd unat (of_nat (8 * i) :: u64)"
    unfolding u by simp
  then have a: "(of_nat (8 * i) :: u64) AND mask 3 = 0"
    by (simp only: and_mask_dvd_nat)
  have b: "(of_nat (8 * i) :: u64) < 0x4000"
    using i u by (simp add: word_less_nat_alt)
  show ?thesis
    unfolding in_crst_def e using a b by (simp add: mask_eq_exp_minus_1)
qed

lemma crst_table_init_slot:
  "i < 2048 \<Longrightarrow> mem (crst_table_init s p v) (tbl_slot p (of_nat i)) = v"
  by (simp add: crst_table_init_def in_crst_slot)

lemma aligned_and12: "(p :: u64) AND 0xfff = 0 \<Longrightarrow> p AND 12 = 0"
proof -
  assume "p AND 0xfff = 0"
  then have "(p AND 0xfff) AND 12 = 0" by simp
  then show ?thesis by (simp add: and.assoc)
qed

lemma asce_type_of_alloc:
  "p AND 0xfff = 0 \<Longrightarrow> atype AND 12 = atype \<Longrightarrow>
   (atype OR (ASCE_TABLE_LENGTH OR (ASCE_USER_BITS OR p))) AND ASCE_TYPE_MASK = atype"
  by (simp add: ASCE_TABLE_LENGTH_def ASCE_USER_BITS_def ASCE_TYPE_MASK_def word_ao_dist aligned_and12)

text \<open>
  C8.  For every requested limit, \<^verbatim>\<open>gmap_alloc\<close> (when both allocations succeed and the
  table page is page aligned) picks one of four depths by the limit and rounds the
  maximum address up to that depth's coverage: a segment-table root and
  \<^verbatim>\<open>_REGION3_SIZE - 1\<close> below \<^verbatim>\<open>_REGION3_SIZE\<close>, a region-3 root and
  \<^verbatim>\<open>_REGION2_SIZE - 1\<close> below \<^verbatim>\<open>_REGION2_SIZE\<close>, a region-2 root and
  \<^verbatim>\<open>_REGION1_SIZE - 1\<close> below \<^verbatim>\<open>_REGION1_SIZE\<close>, a region-1 root and \<open>2^64 - 1\<close>
  otherwise; every slot of the root table holds the matching empty entry and the
  reference count is one.
\<close>

theorem gmap_alloc_depth:
  assumes "p AND 0xfff = 0"
  shows "\<exists>g s'. gmap_alloc (Some gp) (Some p) s limit = (Some g, s') \<and>
           ref_count g = 1 \<and> table g = p \<and>
           (limit < REGION3_SIZE \<longrightarrow>
              asce_type_of g = ASCE_TYPE_SEGMENT \<and> asce_end g = REGION3_SIZE - 1 \<and>
              root_filled s' g SEGMENT_ENTRY_EMPTY) \<and>
           (REGION3_SIZE \<le> limit \<and> limit < REGION2_SIZE \<longrightarrow>
              asce_type_of g = ASCE_TYPE_REGION3 \<and> asce_end g = REGION2_SIZE - 1 \<and>
              root_filled s' g REGION3_ENTRY_EMPTY) \<and>
           (REGION2_SIZE \<le> limit \<and> limit < REGION1_SIZE \<longrightarrow>
              asce_type_of g = ASCE_TYPE_REGION2 \<and> asce_end g = REGION1_SIZE - 1 \<and>
              root_filled s' g REGION2_ENTRY_EMPTY) \<and>
           (REGION1_SIZE \<le> limit \<longrightarrow>
              asce_type_of g = ASCE_TYPE_REGION1 \<and> unat (asce_end g) = 2 ^ 64 - 1 \<and>
              root_filled s' g REGION1_ENTRY_EMPTY)"
proof -
  have t: "\<And>atype. atype AND 12 = atype \<Longrightarrow>
      (atype OR (ASCE_TABLE_LENGTH OR (ASCE_USER_BITS OR p))) AND ASCE_TYPE_MASK = atype"
    using assms by (rule asce_type_of_alloc)
  have t0: "(ASCE_TABLE_LENGTH OR (ASCE_USER_BITS OR p)) AND ASCE_TYPE_MASK = 0"
    using t [of 0] by simp
  have f: "\<And>s v. \<forall>i<2048. mem (crst_table_init s p v) (tbl_slot p (of_nat i)) = v"
    by (simp add: crst_table_init_slot)
  have lt: "REGION3_SIZE < REGION2_SIZE" "REGION2_SIZE < REGION1_SIZE"
    by (simp_all add: REGION1_SIZE_def REGION2_SIZE_def REGION3_SIZE_def)
  show ?thesis
    using lt
    by (auto simp add: gmap_alloc_def gmap_alloc_crst_def Let_def asce_type_of_def root_filled_def
        CRST_ENTRIES_def t f ASCE_TYPE_SEGMENT_def ASCE_TYPE_REGION3_def ASCE_TYPE_REGION2_def
        ASCE_TYPE_REGION1_def not_less t0 or.assoc unsigned_minus_1_eq_mask mask_eq_exp_minus_1)
qed

theorem gmap_alloc_depth_witness:
  "\<exists>g s'. gmap_alloc (Some 0x2000) (Some 0x10000) boot_state (push_bit 42 1) = (Some g, s') \<and>
     ref_count g = 1 \<and> table g = 0x10000 \<and> asce_type_of g = ASCE_TYPE_REGION2 \<and>
     asce_end g = REGION1_SIZE - 1 \<and> root_filled s' g REGION2_ENTRY_EMPTY"
  using gmap_alloc_depth [of "0x10000" "0x2000" boot_state "push_bit 42 1"]
  by (simp add: REGION1_SIZE_def REGION2_SIZE_def REGION3_SIZE_def)


section \<open>Notifier dispatch\<close>

lemma gmap_call_notifier_trace:
  "trace (gmap_call_notifier g st en s) =
     trace s @ map (\<lambda>nb. Notifier_call nb (ident g) st en) (gmap_notifier_list s)"
proof -
  have "\<And>s. trace (fold (\<lambda>nb. emit (Notifier_call nb (ident g) st en)) xs s) =
          trace s @ map (\<lambda>nb. Notifier_call nb (ident g) st en) xs" for xs
    by (induction xs) (simp_all add: emit_def)
  then show ?thesis by (simp add: gmap_call_notifier_def)
qed

lemma filter_remove1_other: "\<not> P c \<Longrightarrow> filter P (remove1 c xs) = filter P xs"
  by (induction xs) auto

lemma run_notifier_ops_ok:
  "notifier_ops_ok ops (gmap_notifier_list s) \<Longrightarrow>
   \<forall>op \<in> set ops. op \<noteq> Register a \<and> op \<noteq> Unregister a \<and> op \<noteq> Register b \<and> op \<noteq> Unregister b \<Longrightarrow>
   \<exists>s'. run_notifier_ops ops s = Some s' \<and> trace s' = trace s \<and>
        filter (\<lambda>x. x = a \<or> x = b) (gmap_notifier_list s') =
        filter (\<lambda>x. x = a \<or> x = b) (gmap_notifier_list s)"
proof (induction ops s rule: run_notifier_ops.induct)
  case (1 s)
  then show ?case by simp
next
  case (2 nb ops s)
  let ?s1 = "s\<lparr>gmap_notifier_list := nb # gmap_notifier_list s\<rparr>"
  have r: "gmap_register_pte_notifier nb s = Some ?s1"
    using 2(2) by (simp add: gmap_register_pte_notifier_def)
  obtain s' where "run_notifier_ops ops ?s1 = Some s'" "trace s' = trace ?s1"
    "filter (\<lambda>x. x = a \<or> x = b) (gmap_notifier_list s') =
     filter (\<lambda>x. x = a \<or> x = b) (gmap_notifier_list ?s1)"
    using 2(1) [OF r] 2(2,3) by auto
  then show ?case using r 2(3) by auto
next
  case (3 nb ops s)
  let ?s1 = "s\<lparr>gmap_notifier_list := remove1 nb (gmap_notifier_list s)\<rparr>"
  have r: "gmap_unregister_pte_notifier nb s = Some ?s1"
    using 3(2) by (simp add: gmap_unregister_pte_notifier_def)
  obtain s' where "run_notifier_ops ops ?s1 = Some s'" "trace s' = trace ?s1"
    "filter (\<lambda>x. x = a \<or> x = b) (gmap_notifier_list s') =
     filter (\<lambda>x. x = a \<or> x = b) (gmap_notifier_list ?s1)"
    using 3(1) [OF r] 3(2,3) by auto
  then show ?case using r 3(3) by (auto simp add: filter_remove1_other)
qed

lemma run_notifier_ops_append:
  "run_notifier_ops (ops1 @ ops2) s =
     (case run_notifier_ops ops1 s of None \<Rightarrow> None | Some s1 \<Rightarrow> run_notifier_ops ops2 s1)"
  by (induction ops1 s rule: run_notifier_ops.induct) (simp_all split: option.splits)

lemma notifier_ops_ok_append:
  "notifier_ops_ok (ops1 @ ops2) (gmap_notifier_list s) \<Longrightarrow> run_notifier_ops ops1 s = Some s1 \<Longrightarrow>
   notifier_ops_ok ops1 (gmap_notifier_list s) \<and> notifier_ops_ok ops2 (gmap_notifier_list s1)"
proof (induction ops1 s rule: run_notifier_ops.induct)
  case (1 s)
  then show ?case by simp
next
  case (2 nb ops s)
  then show ?case
    by (auto simp add: gmap_register_pte_notifier_def split: if_splits)
next
  case (3 nb ops s)
  then show ?case
    by (auto simp add: gmap_unregister_pte_notifier_def split: if_splits)
qed

lemma notifier_ops_ok_prefix:
  "notifier_ops_ok (ops1 @ ops2) l \<Longrightarrow> notifier_ops_ok ops1 l"
  by (induction ops1 l rule: notifier_ops_ok.induct) auto

text \<open>
  C9 (amended).  Let the list be used as meant: a history that registers only blocks
  that are not on the list and unregisters only blocks that are.  When in such a history
  \<open>a\<close> is registered before \<open>b\<close> and neither is registered or unregistered otherwise,
  the history runs through, and \<^verbatim>\<open>gmap_call_notifier\<close> then calls, within the call,
  \<open>b\<close>'s callback before \<open>a\<close>'s and each once: most recently registered first.
\<close>

theorem notifier_dispatch_order:
  assumes "a \<noteq> b"
    and "notifier_ops_ok (Register a # ops1 @ Register b # ops2) (gmap_notifier_list s)"
    and "\<forall>op \<in> set (ops1 @ ops2).
           op \<noteq> Register a \<and> op \<noteq> Unregister a \<and> op \<noteq> Register b \<and> op \<noteq> Unregister b"
  shows "\<exists>s'. run_notifier_ops (Register a # ops1 @ Register b # ops2) s = Some s' \<and>
           filter (\<lambda>e. e = Notifier_call a (ident g) st en \<or> e = Notifier_call b (ident g) st en)
             (drop (length (trace s')) (trace (gmap_call_notifier g st en s')))
           = [Notifier_call b (ident g) st en, Notifier_call a (ident g) st en]"
proof -
  let ?P = "\<lambda>x. x = a \<or> x = b"
  let ?sa = "s\<lparr>gmap_notifier_list := a # gmap_notifier_list s\<rparr>"
  have o1: "\<forall>op \<in> set ops1. op \<noteq> Register a \<and> op \<noteq> Unregister a \<and> op \<noteq> Register b \<and> op \<noteq> Unregister b"
    and o2: "\<forall>op \<in> set ops2. op \<noteq> Register a \<and> op \<noteq> Unregister a \<and> op \<noteq> Register b \<and> op \<noteq> Unregister b"
    using assms(3) by auto
  have na: "a \<notin> set (gmap_notifier_list s)"
    and ok1: "notifier_ops_ok (ops1 @ Register b # ops2) (gmap_notifier_list ?sa)"
    using assms(2) by simp_all
  have ra: "gmap_register_pte_notifier a s = Some ?sa"
    using na by (simp add: gmap_register_pte_notifier_def)
  have "notifier_ops_ok ops1 (gmap_notifier_list ?sa)"
    using ok1 by (rule notifier_ops_ok_prefix)
  then obtain s1 where r1: "run_notifier_ops ops1 ?sa = Some s1"
    and f1: "filter ?P (gmap_notifier_list s1) = filter ?P (gmap_notifier_list ?sa)"
    using run_notifier_ops_ok [OF _ o1, of ?sa] by blast
  have ok2: "notifier_ops_ok (Register b # ops2) (gmap_notifier_list s1)"
    using notifier_ops_ok_append [OF ok1 r1] by simp
  let ?sb = "s1\<lparr>gmap_notifier_list := b # gmap_notifier_list s1\<rparr>"
  have nb: "b \<notin> set (gmap_notifier_list s1)" and ok3: "notifier_ops_ok ops2 (gmap_notifier_list ?sb)"
    using ok2 by simp_all
  have rb: "gmap_register_pte_notifier b s1 = Some ?sb"
    using nb by (simp add: gmap_register_pte_notifier_def)
  obtain s' where r2: "run_notifier_ops ops2 ?sb = Some s'"
    and f2: "filter ?P (gmap_notifier_list s') = filter ?P (gmap_notifier_list ?sb)"
    using run_notifier_ops_ok [OF ok3 o2] by blast
  have "filter ?P (gmap_notifier_list s1) = [a]"
  proof -
    have "filter ?P (gmap_notifier_list s1) = a # filter ?P (gmap_notifier_list s)"
      using f1 by simp
    moreover have "b \<notin> set (gmap_notifier_list s)"
    proof
      assume "b \<in> set (gmap_notifier_list s)"
      then have "b \<in> set (filter ?P (gmap_notifier_list ?sa))" by simp
      then have "b \<in> set (filter ?P (gmap_notifier_list s1))" by (simp only: f1)
      then show False using nb by simp
    qed
    ultimately show ?thesis using na by (auto simp add: filter_empty_conv)
  qed
  then have fl: "filter ?P (gmap_notifier_list s') = [b, a]"
    using f2 by simp
  have run: "run_notifier_ops (Register a # ops1 @ Register b # ops2) s = Some s'"
    using ra r1 rb r2 by (simp add: run_notifier_ops_append)
  have "filter (\<lambda>e. e = Notifier_call a (ident g) st en \<or> e = Notifier_call b (ident g) st en)
          (map (\<lambda>nb. Notifier_call nb (ident g) st en) xs)
        = map (\<lambda>nb. Notifier_call nb (ident g) st en) (filter ?P xs)" for xs
    by (induction xs) auto
  then show ?thesis
    using run by (simp add: gmap_call_notifier_trace fl)
qed

theorem notifier_dispatch_order_witness:
  "\<exists>s'. run_notifier_ops [Register 1, Register 4, Register 2, Register 3, Unregister 3] boot_state
           = Some s' \<and>
     filter (\<lambda>e. e = Notifier_call 1 0 0 4095 \<or> e = Notifier_call 2 0 0 4095)
       (drop (length (trace s')) (trace (gmap_call_notifier zeroed_gmap 0 4095 s')))
     = [Notifier_call 2 0 0 4095, Notifier_call 1 0 0 4095]"
  using notifier_dispatch_order [of 1 2 "[Register 4]" "[Register 3, Unregister 3]" boot_state
      zeroed_gmap 0 4095]
  by (simp add: boot_state_def zeroed_gmap_def)

text \<open>
  C9 as stated (registration order) fails: after registering block 1 and then block 2,
  a notification calls block 2 first.
\<close>

theorem notifier_order_counterexample:
  "run_notifier_ops [Register 1, Register 2] boot_state
     = Some (boot_state\<lparr>gmap_notifier_list := [2, 1]\<rparr>) \<and>
   trace (gmap_call_notifier zeroed_gmap 0 4095 (boot_state\<lparr>gmap_notifier_list := [2, 1]\<rparr>))
     = [Notifier_call 2 0 0 4095, Notifier_call 1 0 0 4095]"
  by (simp add: gmap_register_pte_notifier_def gmap_call_notifier_def boot_state_def
      zeroed_gmap_def emit_def)


section \<open>Forward map: translate after map and unmap\<close>

lemma map_of_radix_tree_place:
  "map_of (radix_tree_place k v t) = (map_of t)(k \<mapsto> v)"
  by (induction t) (auto simp add: fun_eq_iff)

lemma map_of_filter_key:
  "map_of (filter (\<lambda>kv. fst kv \<noteq> k) t) = (map_of t)(k := None)"
  by (induction t) (auto simp add: fun_eq_iff)

lemma radix_tree_insert_ulong_lookup:
  "radix_tree_insert_ulong nomem t k v = (0, t') \<Longrightarrow>
     ulong_of (map_of t k) = 0 \<Longrightarrow>
     ulong_of (map_of t' k') = (if k' = k then v else ulong_of (map_of t k'))"
  by (auto simp add: radix_tree_insert_ulong_def ulong_of_def map_of_radix_tree_place ENOMEM_def EEXIST_def
      split: if_splits option.splits)

lemma unlink_by_vmaddr_g2h:
  "uu_gmap_unlink_by_vmaddr s g vmaddr = Some (f, s1, g1) \<Longrightarrow>
     guest_to_host g1 = guest_to_host g \<and> parent g1 = parent g \<and> asce_end g1 = asce_end g"
  by (auto simp add: uu_gmap_unlink_by_vmaddr_def host_to_guest_pmd_delete_def
      host_to_guest_delete_def radix_tree_delete_def Let_def split: if_splits prod.splits)

lemma unmap_by_gaddr_g2h:
  "uu_gmap_unmap_by_gaddr s g gaddr = Some (f, s1, g1) \<Longrightarrow>
     map_of (guest_to_host g1) = (map_of (guest_to_host g))(drop_bit PMD_SHIFT gaddr := None) \<and>
     parent g1 = parent g \<and> asce_end g1 = asce_end g"
  by (auto simp add: uu_gmap_unmap_by_gaddr_def radix_tree_delete_def Let_def map_of_filter_key
      dest!: unlink_by_vmaddr_g2h split: if_splits prod.splits)

lemma unmap_by_gaddr_returns:
  "\<not> gmap_is_shadow g \<Longrightarrow> \<exists>f s1 g1. uu_gmap_unmap_by_gaddr s g gaddr = Some (f, s1, g1)"
  by (auto simp add: uu_gmap_unmap_by_gaddr_def uu_gmap_unlink_by_vmaddr_def radix_tree_delete_def
      gmap_is_shadow_def Let_def split: if_splits prod.splits)

text \<open>Keys outside the loop's range keep their values.\<close>

lemma map_segment_loop_other:
  "map_segment_loop nomem s g from to n off flush = Some (d, fl, s', g') \<Longrightarrow>
   \<forall>i<n. k \<noteq> drop_bit PMD_SHIFT (to + (off + of_nat i * PMD_SIZE)) \<Longrightarrow>
   map_of (guest_to_host g') k = map_of (guest_to_host g) k"
proof (induction n arbitrary: s g off flush)
  case 0
  then show ?case by simp
next
  case (Suc n)
  from Suc.prems(1) obtain f s1 g1 where
    u: "uu_gmap_unmap_by_gaddr s g (to + off) = Some (f, s1, g1)"
    by (auto split: option.splits)
  have k0: "k \<noteq> drop_bit PMD_SHIFT (to + off)"
    using Suc.prems(2) [rule_format, of 0] by simp
  have kr: "\<forall>i<n. k \<noteq> drop_bit PMD_SHIFT (to + (off + PMD_SIZE + of_nat i * PMD_SIZE))"
  proof (intro allI impI)
    fix i assume "i < n"
    then have "k \<noteq> drop_bit PMD_SHIFT (to + (off + of_nat (Suc i) * PMD_SIZE))"
      using Suc.prems(2) by auto
    then show "k \<noteq> drop_bit PMD_SHIFT (to + (off + PMD_SIZE + of_nat i * PMD_SIZE))"
      by (simp add: algebra_simps)
  qed
  obtain rc t where
    ins: "radix_tree_insert_ulong (nomem (drop_bit PMD_SHIFT (to + off))) (guest_to_host g1)
            (drop_bit PMD_SHIFT (to + off)) (from + off) = (rc, t)"
    by (cases "radix_tree_insert_ulong (nomem (drop_bit PMD_SHIFT (to + off))) (guest_to_host g1)
            (drop_bit PMD_SHIFT (to + off)) (from + off)") auto
  have g1k: "map_of (guest_to_host g1) k = map_of (guest_to_host g) k"
    using unmap_by_gaddr_g2h [OF u] k0 by simp
  show ?case
  proof (cases "rc = 0")
    case True
    have tk: "map_of t k = map_of (guest_to_host g1) k"
      using ins True k0
      by (auto simp add: radix_tree_insert_ulong_def map_of_radix_tree_place split: if_splits)
    from Suc.prems(1) u ins True have
      "map_segment_loop nomem s1 (g1\<lparr>guest_to_host := t\<rparr>) from to n (off + PMD_SIZE) (flush OR f)
         = Some (d, fl, s', g')"
      by (simp add: Let_def)
    from Suc.IH [OF this kr] tk g1k show ?thesis by simp
  next
    case False
    with Suc.prems(1) u ins have "g' = g1" by (simp add: Let_def)
    with g1k show ?thesis by simp
  qed
qed

lemma unat_seg_off:
  assumes "unat to + i * 2 ^ 20 < 2 ^ 64"
  shows "unat (to + of_nat i * PMD_SIZE) = unat to + i * 2 ^ 20"
proof -
  have e: "(of_nat i * PMD_SIZE :: u64) = of_nat (i * 2 ^ 20)"
    by (simp add: PMD_SIZE_def)
  have "unat (of_nat (i * 2 ^ 20) :: u64) = (i * 2 ^ 20) mod 2 ^ LENGTH(64)"
    by (rule unat_of_nat)
  moreover have "(i * 2 ^ 20) mod 2 ^ LENGTH(64) = i * (2 ^ 20 :: nat)"
    using assms by (intro mod_less) simp
  ultimately have u: "unat (of_nat (i * 2 ^ 20) :: u64) = i * 2 ^ 20"
    by (simp only:)
  have "unat to + unat (of_nat (i * 2 ^ 20) :: u64) < 2 ^ LENGTH(64)"
    using assms u by simp
  then have "unat (to + of_nat (i * 2 ^ 20)) = unat to + unat (of_nat (i * 2 ^ 20) :: u64)"
    by (simp only: unat_add_lem)
  then show ?thesis by (simp only: e u)
qed

lemma unat_seg_index:
  assumes "unat to + i * 2 ^ 20 < 2 ^ 64"
  shows "unat (drop_bit PMD_SHIFT (to + of_nat i * PMD_SIZE)) = unat to div 2 ^ 20 + i"
proof -
  have "unat (drop_bit PMD_SHIFT (to + of_nat i * PMD_SIZE))
        = drop_bit PMD_SHIFT (unat (to + of_nat i * PMD_SIZE))"
    by (rule unat_drop_bit_eq)
  also have "\<dots> = (unat to + i * 2 ^ 20) div 2 ^ 20"
    by (simp only: unat_seg_off [OF assms] PMD_SHIFT_def drop_bit_eq_div)
  also have "\<dots> = unat to div 2 ^ 20 + i"
    by simp
  finally show ?thesis .
qed

lemma seg_index_distinct:
  assumes "unat to + n * 2 ^ 20 \<le> 2 ^ 64" "i < n" "j < n" "i \<noteq> j"
  shows "drop_bit PMD_SHIFT (to + of_nat i * PMD_SIZE) \<noteq> drop_bit PMD_SHIFT (to + of_nat j * PMD_SIZE)"
proof -
  have "i * 2 ^ 20 < n * (2 ^ 20 :: nat)" "j * 2 ^ 20 < n * (2 ^ 20 :: nat)"
    using assms(2,3) by simp_all
  then have a: "unat to + i * 2 ^ 20 < 2 ^ 64" and b: "unat to + j * 2 ^ 20 < 2 ^ 64"
    using assms(1) by linarith+
  show ?thesis
    using unat_seg_index [OF a] unat_seg_index [OF b] assms(4) by auto
qed

lemma map_segment_loop_maps:
  "map_segment_loop nomem s g from to n off flush = Some (True, fl, s', g') \<Longrightarrow>
   i < n \<Longrightarrow>
   \<forall>j<n. j \<noteq> i \<longrightarrow> drop_bit PMD_SHIFT (to + (off + of_nat j * PMD_SIZE))
                    \<noteq> drop_bit PMD_SHIFT (to + (off + of_nat i * PMD_SIZE)) \<Longrightarrow>
   ulong_of (map_of (guest_to_host g') (drop_bit PMD_SHIFT (to + (off + of_nat i * PMD_SIZE))))
     = from + (off + of_nat i * PMD_SIZE)"
proof (induction n arbitrary: s g off flush i)
  case 0
  then show ?case by simp
next
  case (Suc n)
  from Suc.prems(1) obtain f s1 g1 where
    u: "uu_gmap_unmap_by_gaddr s g (to + off) = Some (f, s1, g1)"
    by (auto split: option.splits)
  obtain rc t where
    ins: "radix_tree_insert_ulong (nomem (drop_bit PMD_SHIFT (to + off))) (guest_to_host g1)
            (drop_bit PMD_SHIFT (to + off)) (from + off) = (rc, t)"
    by (cases "radix_tree_insert_ulong (nomem (drop_bit PMD_SHIFT (to + off))) (guest_to_host g1)
            (drop_bit PMD_SHIFT (to + off)) (from + off)") auto
  have rc0: "rc = 0"
    using Suc.prems(1) u ins by (auto simp add: Let_def split: if_splits)
  have rest: "map_segment_loop nomem s1 (g1\<lparr>guest_to_host := t\<rparr>) from to n (off + PMD_SIZE) (flush OR f)
         = Some (True, fl, s', g')"
    using Suc.prems(1) u ins rc0 by (simp add: Let_def)
  have absent: "ulong_of (map_of (guest_to_host g1) (drop_bit PMD_SHIFT (to + off))) = 0"
    using unmap_by_gaddr_g2h [OF u] by (simp add: ulong_of_def)
  show ?case
  proof (cases i)
    case 0
    have other: "\<forall>j<n. drop_bit PMD_SHIFT (to + off) \<noteq>
        drop_bit PMD_SHIFT (to + (off + PMD_SIZE + of_nat j * PMD_SIZE))"
    proof (intro allI impI)
      fix j assume "j < n"
      then have "drop_bit PMD_SHIFT (to + (off + of_nat (Suc j) * PMD_SIZE))
                    \<noteq> drop_bit PMD_SHIFT (to + (off + of_nat i * PMD_SIZE))"
        using Suc.prems(3) 0 by auto
      then show "drop_bit PMD_SHIFT (to + off) \<noteq>
        drop_bit PMD_SHIFT (to + (off + PMD_SIZE + of_nat j * PMD_SIZE))"
        using 0 by (simp add: algebra_simps)
    qed
    have "map_of (guest_to_host g') (drop_bit PMD_SHIFT (to + off))
          = map_of t (drop_bit PMD_SHIFT (to + off))"
      using map_segment_loop_other [OF rest other] by simp
    moreover have "ulong_of (map_of t (drop_bit PMD_SHIFT (to + off))) = from + off"
      using radix_tree_insert_ulong_lookup [OF ins [unfolded rc0] absent] by simp
    ultimately show ?thesis using 0 by simp
  next
    case (Suc i')
    have d: "\<forall>j<n. j \<noteq> i' \<longrightarrow> drop_bit PMD_SHIFT (to + (off + PMD_SIZE + of_nat j * PMD_SIZE))
                    \<noteq> drop_bit PMD_SHIFT (to + (off + PMD_SIZE + of_nat i' * PMD_SIZE))"
    proof (intro allI impI)
      fix j assume "j < n" "j \<noteq> i'"
      then have "drop_bit PMD_SHIFT (to + (off + of_nat (Suc j) * PMD_SIZE))
                    \<noteq> drop_bit PMD_SHIFT (to + (off + of_nat i * PMD_SIZE))"
        using Suc.prems(3) Suc by auto
      then show "drop_bit PMD_SHIFT (to + (off + PMD_SIZE + of_nat j * PMD_SIZE))
                    \<noteq> drop_bit PMD_SHIFT (to + (off + PMD_SIZE + of_nat i' * PMD_SIZE))"
        using Suc by (simp add: algebra_simps)
    qed
    have "i' < n" using Suc.prems(2) Suc by simp
    from Suc.IH [OF rest this d] show ?thesis
      using Suc by (simp add: algebra_simps)
  qed
qed

lemma or_and_zero_split: "((a :: u64) OR b) AND m = 0 \<longleftrightarrow> a AND m = 0 \<and> b AND m = 0"
  by (simp add: word_ao_dist or_eq_0_iff)

lemma unat_drop_pmd: "unat (drop_bit PMD_SHIFT (x :: u64)) = unat x div 2 ^ 20"
proof -
  have "unat (drop_bit 20 x) = drop_bit 20 (unat x)" by (rule unat_drop_bit_eq)
  also have "\<dots> = unat x div 2 ^ 20" by (rule drop_bit_eq_div)
  finally show ?thesis unfolding PMD_SHIFT_def .
qed

lemma pmd_aligned_unat: "(x :: u64) AND (PMD_SIZE - 1) = 0 \<Longrightarrow> unat (drop_bit PMD_SHIFT x) * 2 ^ 20 = unat x"
proof -
  assume "x AND (PMD_SIZE - 1) = 0"
  then have "x AND mask 20 = 0" by (simp add: PMD_SIZE_def mask_eq_exp_minus_1)
  then have "2 ^ 20 dvd unat x" by (simp only: and_mask_dvd_nat)
  then show ?thesis
    by (simp add: unat_drop_pmd)
qed

lemma and_pmd_mask: "of_nat (unat (drop_bit PMD_SHIFT (x :: u64))) * PMD_SIZE = x AND PMD_MASK"
proof -
  have "push_bit 20 (drop_bit 20 x) = x AND NOT (mask 20)"
    by (auto simp add: bit_eq_iff bit_simps)
  then show ?thesis
    by (simp add: PMD_SHIFT_def PMD_SIZE_def PMD_MASK_def push_bit_eq_mult mask_eq_exp_minus_1)
qed

lemma seg_index_of_gaddr:
  assumes al: "to AND (PMD_SIZE - 1) = 0" and le: "to \<le> gaddr"
  shows "drop_bit PMD_SHIFT gaddr = drop_bit PMD_SHIFT (to + ((gaddr - to) AND PMD_MASK))"
proof -
  let ?d = "gaddr - to"
  have ug: "unat gaddr = unat to + unat ?d"
    using le by (simp add: unat_sub word_le_nat_alt)
  have ut: "unat (drop_bit PMD_SHIFT to) * 2 ^ 20 = unat to"
    by (rule pmd_aligned_unat [OF al])
  let ?i = "unat (drop_bit PMD_SHIFT ?d)"
  have i: "?i = unat ?d div 2 ^ 20"
    by (rule unat_drop_pmd)
  have "?i * 2 ^ 20 \<le> unat ?d" unfolding i by simp
  moreover have "unat gaddr < 2 ^ LENGTH(64)" by (rule unsigned_less)
  ultimately have b: "unat to + ?i * 2 ^ 20 < 2 ^ 64"
    using ug by simp
  have "unat (drop_bit PMD_SHIFT (to + of_nat ?i * PMD_SIZE)) = unat to div 2 ^ 20 + ?i"
    by (rule unat_seg_index [OF b])
  also have "\<dots> = unat (drop_bit PMD_SHIFT to) + unat ?d div 2 ^ 20"
    by (simp only: i unat_drop_pmd)
  also have "\<dots> = (unat (drop_bit PMD_SHIFT to) * 2 ^ 20 + unat ?d) div 2 ^ 20"
    by simp
  also have "\<dots> = (unat to + unat ?d) div 2 ^ 20"
    by (simp only: ut)
  also have "\<dots> = unat (drop_bit PMD_SHIFT gaddr)"
    by (simp add: unat_drop_pmd ug)
  finally have "drop_bit PMD_SHIFT (to + of_nat ?i * PMD_SIZE) = drop_bit PMD_SHIFT gaddr"
    by (simp only: word_unat_eq_iff)
  then show ?thesis by (simp only: and_pmd_mask)
qed

lemma seg_count_less:
  assumes al: "len AND (PMD_SIZE - 1) = 0" and lt: "(d :: u64) < len"
  shows "unat (drop_bit PMD_SHIFT d) < unat (drop_bit PMD_SHIFT len)"
proof -
  have ul: "unat (drop_bit PMD_SHIFT len) * 2 ^ 20 = unat len"
    by (rule pmd_aligned_unat [OF al])
  have "unat d < unat len" using lt by (simp add: word_less_nat_alt)
  then have "unat d div 2 ^ 20 < unat (drop_bit PMD_SHIFT len)"
    using ul by (simp add: less_mult_imp_div_less)
  then show ?thesis
    by (simp add: unat_drop_pmd)
qed

lemma map_segment_loop_parent:
  "map_segment_loop nomem s g from to n off flush = Some (d, fl, s', g') \<Longrightarrow> parent g' = parent g"
proof (induction n arbitrary: s g off flush)
  case 0
  then show ?case by simp
next
  case (Suc n)
  from Suc.prems obtain f s1 g1 where
    u: "uu_gmap_unmap_by_gaddr s g (to + off) = Some (f, s1, g1)"
    by (auto split: option.splits)
  have p1: "parent g1 = parent g" using unmap_by_gaddr_g2h [OF u] by simp
  obtain rc t where
    ins: "radix_tree_insert_ulong (nomem (drop_bit PMD_SHIFT (to + off))) (guest_to_host g1)
            (drop_bit PMD_SHIFT (to + off)) (from + off) = (rc, t)"
    by (cases "radix_tree_insert_ulong (nomem (drop_bit PMD_SHIFT (to + off))) (guest_to_host g1)
            (drop_bit PMD_SHIFT (to + off)) (from + off)") auto
  show ?case
  proof (cases "rc = 0")
    case True
    from Suc.prems u ins True have
      "map_segment_loop nomem s1 (g1\<lparr>guest_to_host := t\<rparr>) from to n (off + PMD_SIZE) (flush OR f)
         = Some (d, fl, s', g')"
      by (simp add: Let_def)
    from Suc.IH [OF this] p1 show ?thesis by simp
  next
    case False
    with Suc.prems u ins have "g' = g1" by (simp add: Let_def)
    with p1 show ?thesis by simp
  qed
qed

lemma unmap_segment_loop_deletes:
  "unmap_segment_loop s g to n off flush = Some (fl, s', g') \<Longrightarrow>
   map_of (guest_to_host g') k =
     (if \<exists>i<n. k = drop_bit PMD_SHIFT (to + (off + of_nat i * PMD_SIZE)) then None
      else map_of (guest_to_host g) k)"
proof (induction n arbitrary: s g off flush)
  case 0
  then show ?case by simp
next
  case (Suc n)
  from Suc.prems obtain f s1 g1 where
    u: "uu_gmap_unmap_by_gaddr s g (to + off) = Some (f, s1, g1)"
    and r: "unmap_segment_loop s1 g1 to n (off + PMD_SIZE) (flush OR f) = Some (fl, s', g')"
    by (auto split: option.splits)
  have ex: "(\<exists>i<Suc n. k = drop_bit PMD_SHIFT (to + (off + of_nat i * PMD_SIZE))) \<longleftrightarrow>
        k = drop_bit PMD_SHIFT (to + off) \<or>
        (\<exists>i<n. k = drop_bit PMD_SHIFT (to + (off + PMD_SIZE + of_nat i * PMD_SIZE)))"
    (is "?L \<longleftrightarrow> ?A \<or> ?B")
  proof
    assume ?L
    then obtain i where i: "i < Suc n" "k = drop_bit PMD_SHIFT (to + (off + of_nat i * PMD_SIZE))"
      by blast
    show "?A \<or> ?B"
    proof (cases i)
      case 0
      with i show ?thesis by simp
    next
      case (Suc j)
      with i have "j < n" "k = drop_bit PMD_SHIFT (to + (off + PMD_SIZE + of_nat j * PMD_SIZE))"
        by (simp_all add: algebra_simps)
      then show ?thesis by blast
    qed
  next
    assume "?A \<or> ?B"
    then show ?L
    proof
      assume ?A
      then have "k = drop_bit PMD_SHIFT (to + (off + of_nat 0 * PMD_SIZE))" by simp
      then show ?L by blast
    next
      assume ?B
      then obtain j where "j < n" "k = drop_bit PMD_SHIFT (to + (off + PMD_SIZE + of_nat j * PMD_SIZE))"
        by blast
      then have "Suc j < Suc n" "k = drop_bit PMD_SHIFT (to + (off + of_nat (Suc j) * PMD_SIZE))"
        by (simp_all add: algebra_simps)
      then show ?L by blast
    qed
  qed
  show ?case
    unfolding ex Suc.IH [OF r] using unmap_by_gaddr_g2h [OF u] by auto
qed

lemma unmap_segment_loop_returns:
  "\<not> gmap_is_shadow g \<Longrightarrow> \<exists>fl s' g'. unmap_segment_loop s g to n off flush = Some (fl, s', g')"
proof (induction n arbitrary: s g off flush)
  case 0
  then show ?case by simp
next
  case (Suc n)
  obtain f s1 g1 where u: "uu_gmap_unmap_by_gaddr s g (to + off) = Some (f, s1, g1)"
    using unmap_by_gaddr_returns [OF Suc.prems] by blast
  have "\<not> gmap_is_shadow g1"
    using unmap_by_gaddr_g2h [OF u] Suc.prems by (simp add: gmap_is_shadow_def)
  from Suc.IH [OF this] u show ?case by simp
qed

lemma link_install_g2h:
  "link_install env s g tablep gaddr vmaddr = Some (rc, s', g') \<Longrightarrow> guest_to_host g' = guest_to_host g"
  unfolding link_install_def Let_def
  by (simp split: if_splits prod.splits) auto

lemma uu_gmap_link_g2h:
  "uu_gmap_link env s g gaddr vmaddr = Some (rc, s', g') \<Longrightarrow> guest_to_host g' = guest_to_host g"
  unfolding uu_gmap_link_def
  by (auto split: if_splits prod.splits dest: link_install_g2h)

lemma map_segment_checks:
  assumes "gmap_map_segment nomem s g from to len = Some (0, s', g')"
  shows "\<not> gmap_is_shadow g" "from AND (PMD_SIZE - 1) = 0" "to AND (PMD_SIZE - 1) = 0"
    "len AND (PMD_SIZE - 1) = 0" "to \<le> to + len"
    "\<exists>fl s1. map_segment_loop nomem s g from to (unat (drop_bit PMD_SHIFT len)) 0 0 = Some (True, fl, s1, g')"
  using assms
  by (auto simp add: gmap_map_segment_def or_and_zero_split EINVAL_def ENOMEM_def Let_def not_less
      split: if_splits option.splits prod.splits)

lemma translate_lookup:
  "ulong_of (map_of (guest_to_host g) (drop_bit PMD_SHIFT gaddr)) = v \<Longrightarrow>
   uu_gmap_translate g gaddr = (if v \<noteq> 0 then v OR (gaddr AND NOT PMD_MASK) else err_ptr EFAULT)"
  by (simp add: uu_gmap_translate_def radix_tree_lookup_def Let_def)

section \<open>Results of protecting one unit\<close>

lemma leaf_not_none: "pmd_leaf v \<Longrightarrow> \<not> pmd_none v"
  by (auto simp add: pmd_leaf_def pmd_none_def SEGMENT_ENTRY_LARGE_def SEGMENT_ENTRY_EMPTY_def)

lemma pmd_op_walk_found:
  "\<not> gmap_is_shadow g \<Longrightarrow> gmap_table_walk s g gaddr 1 \<noteq> 0 \<Longrightarrow>
   \<not> pmd_none (mem s (gmap_table_walk s g gaddr 1)) \<Longrightarrow>
   gmap_pmd_op_walk s g gaddr = Some (gmap_table_walk s g gaddr 1)"
  by (simp add: gmap_pmd_op_walk_def Let_def)

lemma protect_pmd_rc:
  "fst (gmap_protect_pmd s g gaddr pmdp prot bits) =
     (if (mem s pmdp AND SEGMENT_ENTRY_INVALID \<noteq> 0 \<and> prot \<noteq> PROT_NONE) \<or>
         (mem s pmdp AND SEGMENT_ENTRY_PROTECT \<noteq> 0 \<and> prot = PROT_WRITE) then - EAGAIN
      else if bits AND GMAP_NOTIFY_SHADOW \<noteq> 0 then - EINVAL else 0)"
  by (simp add: gmap_protect_pmd_def Let_def split: prod.splits)

text \<open>
  C5.  For a non-shadow space whose walk finds the segment entry of the address:
  on a large leaf, with notification bits that do not ask for shadow notification,
  \<^verbatim>\<open>gmap_protect_one\<close> returns \<^verbatim>\<open>-EAGAIN\<close> exactly when the leaf is invalid and the
  requested protection is not \<^verbatim>\<open>PROT_NONE\<close>, or the leaf is write-protected and the
  requested protection is \<^verbatim>\<open>PROT_WRITE\<close>, and otherwise returns \<^verbatim>\<open>HPAGE_SIZE\<close>; on a
  present entry that is not a leaf it returns \<^verbatim>\<open>PAGE_SIZE\<close> exactly when the page-level
  protection succeeds, and \<^verbatim>\<open>-EAGAIN\<close> or \<^verbatim>\<open>-ENOMEM\<close> otherwise.
\<close>

theorem gmap_protect_one_result:
  assumes ns: "\<not> gmap_is_shadow g"
    and w: "pmdp = gmap_table_walk s g gaddr 1" and nz: "pmdp \<noteq> 0"
  shows "(pmd_leaf (mem s pmdp) \<and> bits AND GMAP_NOTIFY_SHADOW = 0 \<longrightarrow>
           (\<exists>rc s'. gmap_protect_one env s g gaddr prot bits = Some (rc, s') \<and>
              (rc = - EAGAIN \<longleftrightarrow>
                 (mem s pmdp AND SEGMENT_ENTRY_INVALID \<noteq> 0 \<and> prot \<noteq> PROT_NONE) \<or>
                 (mem s pmdp AND SEGMENT_ENTRY_PROTECT \<noteq> 0 \<and> prot = PROT_WRITE)) \<and>
              (rc \<noteq> - EAGAIN \<longrightarrow> rc = uint HPAGE_SIZE))) \<and>
         (\<not> pmd_leaf (mem s pmdp) \<and> \<not> pmd_none (mem s pmdp) \<longrightarrow>
           (\<exists>rc. gmap_protect_one env s g gaddr prot bits = Some (rc, s) \<and>
              (rc = - EAGAIN \<or> rc = - ENOMEM \<or> rc = uint PAGE_SIZE) \<and>
              (rc = uint PAGE_SIZE \<longleftrightarrow>
                 mem s pmdp AND SEGMENT_ENTRY_INVALID = 0 \<and> pte_alloc_ok env \<and>
                 \<not> force_prot_again env)))"
proof (intro conjI impI)
  assume a: "pmd_leaf (mem s pmdp) \<and> bits AND GMAP_NOTIFY_SHADOW = 0"
  then have nn: "\<not> pmd_none (mem s pmdp)" by (simp add: leaf_not_none)
  have ow: "gmap_pmd_op_walk s g gaddr = Some pmdp"
    using pmd_op_walk_found [OF ns] nz nn w by simp
  obtain rc s1 where p: "gmap_protect_pmd s g gaddr pmdp prot bits = (rc, s1)"
    by (cases "gmap_protect_pmd s g gaddr pmdp prot bits") auto
  have rc: "rc = (if (mem s pmdp AND SEGMENT_ENTRY_INVALID \<noteq> 0 \<and> prot \<noteq> PROT_NONE) \<or>
         (mem s pmdp AND SEGMENT_ENTRY_PROTECT \<noteq> 0 \<and> prot = PROT_WRITE) then - EAGAIN else 0)"
    using protect_pmd_rc [of s g gaddr pmdp prot bits] p a by simp
  have "gmap_protect_one env s g gaddr prot bits = Some (if rc = 0 then uint HPAGE_SIZE else rc, s1)"
    using ns ow nz a p by (simp add: gmap_protect_one_def)
  then show "\<exists>rc s'. gmap_protect_one env s g gaddr prot bits = Some (rc, s') \<and>
              (rc = - EAGAIN \<longleftrightarrow>
                 (mem s pmdp AND SEGMENT_ENTRY_INVALID \<noteq> 0 \<and> prot \<noteq> PROT_NONE) \<or>
                 (mem s pmdp AND SEGMENT_ENTRY_PROTECT \<noteq> 0 \<and> prot = PROT_WRITE)) \<and>
              (rc \<noteq> - EAGAIN \<longrightarrow> rc = uint HPAGE_SIZE)"
    using rc by (auto simp add: EAGAIN_def HPAGE_SIZE_def)
next
  assume a: "\<not> pmd_leaf (mem s pmdp) \<and> \<not> pmd_none (mem s pmdp)"
  have ow: "gmap_pmd_op_walk s g gaddr = Some pmdp"
    using pmd_op_walk_found [OF ns] nz a w by simp
  have "gmap_protect_one env s g gaddr prot bits =
          Some (if gmap_protect_pte env s g gaddr pmdp prot bits = 0 then uint PAGE_SIZE
                else gmap_protect_pte env s g gaddr pmdp prot bits, s)"
    using ns ow nz a by (simp add: gmap_protect_one_def Let_def)
  then show "\<exists>rc. gmap_protect_one env s g gaddr prot bits = Some (rc, s) \<and>
              (rc = - EAGAIN \<or> rc = - ENOMEM \<or> rc = uint PAGE_SIZE) \<and>
              (rc = uint PAGE_SIZE \<longleftrightarrow>
                 mem s pmdp AND SEGMENT_ENTRY_INVALID = 0 \<and> pte_alloc_ok env \<and>
                 \<not> force_prot_again env)"
    by (auto simp add: gmap_protect_pte_def EAGAIN_def ENOMEM_def PAGE_SIZE_def)
qed

theorem gmap_protect_one_result_witness:
  "\<exists>s'. gmap_protect_one \<lparr>pte_alloc_ok = True, force_prot_again = False\<rparr>
      (store boot_state 0x10000 0x80000400)
      (zeroed_gmap\<lparr>table := 0x10000, asce := 0x10000, allow_gmap_hpage_1m := True\<rparr>)
      0x1000 PROT_READ 0 = Some (uint HPAGE_SIZE, s') \<and>
    gmap_protect_one \<lparr>pte_alloc_ok = True, force_prot_again = False\<rparr>
      (store boot_state 0x10000 0x80000420)
      (zeroed_gmap\<lparr>table := 0x10000, asce := 0x10000, allow_gmap_hpage_1m := True\<rparr>)
      0x1000 PROT_READ 0 = Some (- EAGAIN, store boot_state 0x10000 0x80000420)"
proof -
  let ?g = "zeroed_gmap\<lparr>table := 0x10000, asce := 0x10000, allow_gmap_hpage_1m := True\<rparr>"
  have ns: "\<not> gmap_is_shadow ?g" by (simp add: gmap_is_shadow_def zeroed_gmap_def)
  have w: "\<And>s. gmap_table_walk s ?g 0x1000 1 = 0x10000"
    by (simp add: gmap_table_walk_def walk_case_segment_def
        zeroed_gmap_def gmap_is_shadow_def asce_type_of_def ASCE_TYPE_MASK_def
        ASCE_TYPE_REGION1_def ASCE_TYPE_REGION2_def ASCE_TYPE_REGION3_def tbl_slot_def
        SEGMENT_INDEX_def SEGMENT_SHIFT_def Let_def mask_eq_exp_minus_1)
  have a: "\<exists>s'. gmap_protect_one \<lparr>pte_alloc_ok = True, force_prot_again = False\<rparr>
      (store boot_state 0x10000 0x80000400) ?g 0x1000 PROT_READ 0 = Some (uint HPAGE_SIZE, s')"
    using gmap_protect_one_result [OF ns w [symmetric], of "store boot_state 0x10000 0x80000400" 0
        "\<lparr>pte_alloc_ok = True, force_prot_again = False\<rparr>" PROT_READ]
    by (auto simp add: store_def pmd_leaf_def SEGMENT_ENTRY_LARGE_def GMAP_NOTIFY_SHADOW_def
        SEGMENT_ENTRY_INVALID_def SEGMENT_ENTRY_PROTECT_def PROT_READ_def PROT_WRITE_def PROT_NONE_def)
  have b: "gmap_protect_one \<lparr>pte_alloc_ok = True, force_prot_again = False\<rparr>
      (store boot_state 0x10000 0x80000420) ?g 0x1000 PROT_READ 0
        = Some (- EAGAIN, store boot_state 0x10000 0x80000420)"
    using w [of "store boot_state 0x10000 0x80000420"] ns
    by (simp add: gmap_protect_one_def gmap_pmd_op_walk_def gmap_protect_pmd_def store_def
        pmd_leaf_def pmd_none_def SEGMENT_ENTRY_LARGE_def SEGMENT_ENTRY_EMPTY_def
        SEGMENT_ENTRY_INVALID_def SEGMENT_ENTRY_PROTECT_def PROT_READ_def PROT_WRITE_def PROT_NONE_def
        zeroed_gmap_def Let_def EAGAIN_def)
  from a b show ?thesis by blast
qed

section \<open>The sample space and its first link\<close>

lemma sample_alloc:
  "gmap_alloc (Some 0x2000) (Some 0x10000) boot_state 0x7fffffff = (Some sample_gmap, sample_state)"
  by (simp add: gmap_alloc_def gmap_alloc_crst_def sample_gmap_def sample_state_def zeroed_gmap_def
      boot_state_def REGION3_SIZE_def ASCE_TYPE_SEGMENT_def ASCE_TABLE_LENGTH_def ASCE_USER_BITS_def
      SEGMENT_ENTRY_EMPTY_def)

lemma sample_not_shadow: "\<not> gmap_is_shadow (sample_gmap\<lparr>host_to_guest := h\<rparr>)"
  by (simp add: gmap_is_shadow_def sample_gmap_def zeroed_gmap_def)

lemma sample_link_tables:
  "link_tables env s (sample_gmap\<lparr>host_to_guest := h\<rparr>) gaddr = (0, s, 0x10000)"
  by (simp add: link_tables_def asce_type_of_def sample_gmap_def zeroed_gmap_def ASCE_TYPE_MASK_def
      ASCE_TYPE_REGION1_def ASCE_TYPE_REGION2_def ASCE_TYPE_REGION3_def)

lemma sample_mem:
  "mem sample_state 0x10008 = 0x20" "mem sample_state 0x10010 = 0x20"
  by (simp_all add: sample_state_def crst_table_init_def in_crst_def SEGMENT_ENTRY_EMPTY_def)

lemma sample_gmap_fields:
  "table sample_gmap = 0x10000" "host_to_guest sample_gmap = []" "guest_to_host sample_gmap = []"
  "allow_gmap_hpage_1m sample_gmap = False" "parent sample_gmap = 0" "asce sample_gmap = 0x101c3"
  "ident sample_gmap = 0x2000" "removed sample_gmap = False"
  by (simp_all add: sample_gmap_def zeroed_gmap_def)

lemma sample_state_fields:
  "debug_vm sample_state = False" "cpu_has_idte sample_state = True"
  "machine_has_tlb_guest sample_state = False" "gmap_notifier_list sample_state = []"
  "trace sample_state = []" "pages sample_state = {0x10000}"
  by (simp_all add: sample_state_def crst_table_init_def boot_state_def)

lemma sample_first_link:
  "uu_gmap_link sample_env sample_state sample_gmap 0x100000 0x200000
     = Some (0, store sample_state 0x10008 0x30000, sample_gmap\<lparr>host_to_guest := [(2, 0x100001)]\<rparr>)"
proof -
  have lt: "link_tables sample_env sample_state sample_gmap 0x100000 = (0, sample_state, 0x10000)"
    using sample_link_tables [of sample_env sample_state "[]" "0x100000"]
    by (simp add: sample_gmap_def zeroed_gmap_def)
  have ns: "\<not> gmap_is_shadow sample_gmap"
    by (simp add: gmap_is_shadow_def sample_gmap_fields)
  have sl: "tbl_slot 0x10000 (drop_bit SEGMENT_SHIFT (0x100000 AND SEGMENT_INDEX)) = 0x10008"
    by (simp add: tbl_slot_def SEGMENT_SHIFT_def SEGMENT_INDEX_def)
  have li: "link_install sample_env sample_state sample_gmap 0x10008 0x100000 0x200000
     = Some (0, store sample_state 0x10008 0x30000, sample_gmap\<lparr>host_to_guest := [(2, 0x100001)]\<rparr>)"
    by (simp add: link_install_def sample_env_def sample_mem sample_gmap_fields sample_state_fields
      SEGMENT_ENTRY_EMPTY_def pmd_none_def pmd_leaf_def
      SEGMENT_ENTRY_LARGE_def radix_tree_insert_ulong_def MAKE_VALID_GADDR_def HPAGE_MASK_def
      VALID_GADDR_FLAG_def PMD_SHIFT_def SEGMENT_ENTRY_HARDWARE_BITS_def)
  show ?thesis
    unfolding uu_gmap_link_def
    by (simp only: ns lt sl li if_False prod.case simp_thms)
qed


lemma sample_linked_mem: "mem (store sample_state 0x10008 0x30000) 0x10008 = 0x30000"
  "mem (store sample_state 0x10008 0x30000) 0x10010 = 0x20"
  by (simp_all add: store_def sample_mem)

lemma sample_linked_fields:
  "debug_vm (store sample_state 0x10008 0x30000) = False"
  by (simp_all add: store_def sample_state_fields)

section \<open>The valid-address flag of the host-to-guest store\<close>

lemma radix_tree_place_set: "set (radix_tree_place k v t) \<subseteq> insert (k, v) (set t)"
  by (induction t) (auto split: if_splits)

lemma valid_gaddr_odd: "IS_GADDR_VALID v \<longleftrightarrow> odd v"
  by (simp add: IS_GADDR_VALID_def VALID_GADDR_FLAG_def and_one_eq odd_iff_mod_2_eq_one)

lemma make_valid_gaddr:
  "IS_GADDR_VALID (MAKE_VALID_GADDR gaddr)"
  "MAKE_VALID_GADDR gaddr AND HPAGE_MASK = gaddr AND HPAGE_MASK"
  "MAKE_VALID_GADDR gaddr \<noteq> 0"
proof -
  show a: "IS_GADDR_VALID (MAKE_VALID_GADDR gaddr)"
    by (simp add: valid_gaddr_odd MAKE_VALID_GADDR_def VALID_GADDR_FLAG_def even_or_iff)
  show "MAKE_VALID_GADDR gaddr AND HPAGE_MASK = gaddr AND HPAGE_MASK"
    by (simp add: MAKE_VALID_GADDR_def VALID_GADDR_FLAG_def HPAGE_MASK_def HPAGE_SIZE_def word_ao_dist)
  show "MAKE_VALID_GADDR gaddr \<noteq> 0"
    using a by (auto simp add: IS_GADDR_VALID_def)
qed

lemma host_to_guest_valid_lookup:
  assumes "host_to_guest_valid g"
  shows "IS_GADDR_VALID (host_to_guest_lookup g vmaddr) \<longleftrightarrow>
         radix_tree_lookup (host_to_guest g) (drop_bit PMD_SHIFT vmaddr) \<noteq> None"
proof (cases "map_of (host_to_guest g) (drop_bit PMD_SHIFT vmaddr)")
  case None
  then show ?thesis
    by (simp add: host_to_guest_lookup_def radix_tree_lookup_def ulong_of_def IS_GADDR_VALID_def)
next
  case (Some v)
  then have "(drop_bit PMD_SHIFT vmaddr, v) \<in> set (host_to_guest g)" by (rule map_of_SomeD)
  then have "IS_GADDR_VALID v"
    using assms by (auto simp add: host_to_guest_valid_def list_all_iff)
  then show ?thesis
    using Some by (simp add: host_to_guest_lookup_def radix_tree_lookup_def ulong_of_def)
qed

lemma filter_absent_key: "map_of t k = None \<Longrightarrow> filter (\<lambda>kv. fst kv \<noteq> k) t = t"
  by (induction t) (auto split: if_splits)

lemma link_install_valid:
  assumes "host_to_guest_valid g" and "link_install env s g tablep gaddr vmaddr = Some (rc, s', g')"
  shows "host_to_guest_valid g' \<and>
         (host_to_guest g' = host_to_guest g \<or>
          (rc = 0 \<and> radix_tree_lookup (host_to_guest g) (drop_bit PMD_SHIFT vmaddr) = None \<and>
           host_to_guest_lookup g' vmaddr = MAKE_VALID_GADDR gaddr))"
proof -
  have v: "host_to_guest_valid (g\<lparr>host_to_guest :=
             radix_tree_place (drop_bit PMD_SHIFT vmaddr) (MAKE_VALID_GADDR gaddr) (host_to_guest g)\<rparr>)"
    using assms(1) radix_tree_place_set [of "drop_bit PMD_SHIFT vmaddr" "MAKE_VALID_GADDR gaddr" "host_to_guest g"]
    by (auto simp add: host_to_guest_valid_def list_all_iff make_valid_gaddr)
  have l: "host_to_guest_lookup (g\<lparr>host_to_guest :=
             radix_tree_place (drop_bit PMD_SHIFT vmaddr) (MAKE_VALID_GADDR gaddr) (host_to_guest g)\<rparr>) vmaddr
           = MAKE_VALID_GADDR gaddr"
    by (simp add: host_to_guest_lookup_def radix_tree_lookup_def map_of_radix_tree_place ulong_of_def)
  show ?thesis
    using assms v l
    by (auto simp add: link_install_def Let_def radix_tree_insert_ulong_def radix_tree_lookup_def
        make_valid_gaddr split: if_splits)
qed

lemma ptep_offset_even: "even ((ptep AND (255 * 8)) * (PAGE_SIZE div 8) :: u64)"
  by (simp add: PAGE_SIZE_def)

lemma ptep_gaddr_valid:
  "IS_GADDR_VALID (x + y * (PAGE_SIZE div 8)) \<longleftrightarrow> IS_GADDR_VALID x"
  by (simp add: valid_gaddr_odd PAGE_SIZE_def)

lemma pmd_delete_absent:
  assumes "host_to_guest_valid g" and "\<not> IS_GADDR_VALID (host_to_guest_lookup g vmaddr)"
  shows "host_to_guest_pmd_delete s g vmaddr = (0, 0, g)"
proof -
  have n: "map_of (host_to_guest g) (drop_bit PMD_SHIFT vmaddr) = None"
    using assms host_to_guest_valid_lookup [of g vmaddr] by (simp add: radix_tree_lookup_def)
  then have "filter (\<lambda>kv. fst kv \<noteq> drop_bit PMD_SHIFT vmaddr) (host_to_guest g) = host_to_guest g"
    by (rule filter_absent_key)
  then show ?thesis
    using n
    by (simp add: host_to_guest_pmd_delete_def host_to_guest_delete_def radix_tree_delete_def
        ulong_of_def IS_GADDR_VALID_def)
qed

lemma pmd_delete_valid:
  assumes "host_to_guest_valid g"
  shows "host_to_guest_valid (snd (snd (host_to_guest_pmd_delete s g vmaddr)))"
  using assms
  by (auto simp add: host_to_guest_pmd_delete_def host_to_guest_delete_def radix_tree_delete_def
      host_to_guest_valid_def list_all_iff Let_def)

section \<open>Teardown of a whole shadow and the free path\<close>

declare radix_tree_free_loop.simps [simp del]







lemma kfree_rmap_mem:
  "mem (fold (\<lambda>rmap. emit (Kfree_rmap rmap)) head s) = mem s"
  by (induction head arbitrary: s) (simp_all add: emit_def)













section \<open>What a link stores in the host-to-guest store\<close>

lemma filter_place_absent:
  "map_of t k = None \<Longrightarrow> filter (\<lambda>kv. fst kv \<noteq> k) (radix_tree_place k v t) = t"
  by (induction t) (auto simp add: filter_absent_key split: if_splits)

lemma link_install_inserts:
  assumes w: "\<not> (debug_vm s \<and> (pgd_is_none env \<or> p4d_is_none env \<or> pud_is_none env))"
    "\<not> pud_is_leaf env" "\<not> (debug_vm s \<and> pmd_none (host_pmd env))"
    "\<not> (pmd_leaf (host_pmd env) \<and> \<not> allow_gmap_hpage_1m g)" "preload_rc env = 0"
    and e: "mem s tablep = SEGMENT_ENTRY_EMPTY"
    and a: "radix_tree_lookup (host_to_guest g) (drop_bit PMD_SHIFT vmaddr) = None"
  shows "\<exists>s'. link_install env s g tablep gaddr vmaddr
           = Some (0, s', g\<lparr>host_to_guest := radix_tree_place (drop_bit PMD_SHIFT vmaddr)
                                               (MAKE_VALID_GADDR gaddr) (host_to_guest g)\<rparr>)"
  using w e a make_valid_gaddr(3) [of gaddr]
  by (auto simp add: link_install_def Let_def radix_tree_insert_ulong_def radix_tree_lookup_def)

lemma link_install_changes:
  assumes "link_install env s g tablep gaddr vmaddr = Some (rc, s', g')"
  shows "host_to_guest g' = host_to_guest g \<or>
         (rc = 0 \<and> radix_tree_lookup (host_to_guest g) (drop_bit PMD_SHIFT vmaddr) = None \<and>
          host_to_guest g' = radix_tree_place (drop_bit PMD_SHIFT vmaddr) (MAKE_VALID_GADDR gaddr)
                               (host_to_guest g))"
  using assms
  by (auto simp add: link_install_def Let_def radix_tree_insert_ulong_def radix_tree_lookup_def
      split: if_splits)

lemma placed_valid:
  assumes "host_to_guest_valid g"
  shows "host_to_guest_valid (g\<lparr>host_to_guest :=
             radix_tree_place k (MAKE_VALID_GADDR gaddr) (host_to_guest g)\<rparr>)"
  using assms radix_tree_place_set [of k "MAKE_VALID_GADDR gaddr" "host_to_guest g"]
  by (auto simp add: host_to_guest_valid_def list_all_iff make_valid_gaddr)

lemma placed_lookup:
  "host_to_guest_lookup (g\<lparr>host_to_guest := radix_tree_place (drop_bit PMD_SHIFT vmaddr) v
                             (host_to_guest g)\<rparr>) va
     = (if drop_bit PMD_SHIFT va = drop_bit PMD_SHIFT vmaddr then v else host_to_guest_lookup g va)"
  by (simp add: host_to_guest_lookup_def radix_tree_lookup_def map_of_radix_tree_place ulong_of_def)

lemma placed_pmd_delete:
  assumes "radix_tree_lookup (host_to_guest g) (drop_bit PMD_SHIFT vmaddr) = None"
  shows "host_to_guest_pmd_delete s
           (g\<lparr>host_to_guest := radix_tree_place (drop_bit PMD_SHIFT vmaddr) (MAKE_VALID_GADDR gaddr)
                                  (host_to_guest g)\<rparr>) vmaddr
         = (gmap_table_walk s g (MAKE_VALID_GADDR gaddr) 1, MAKE_VALID_GADDR gaddr, g)"
proof -
  have f: "filter (\<lambda>kv. fst kv \<noteq> drop_bit PMD_SHIFT vmaddr)
             (radix_tree_place (drop_bit PMD_SHIFT vmaddr) (MAKE_VALID_GADDR gaddr) (host_to_guest g))
           = host_to_guest g"
    using assms by (intro filter_place_absent) (simp add: radix_tree_lookup_def)
  have w: "gmap_table_walk s (g\<lparr>host_to_guest := h\<rparr>) a l = gmap_table_walk s g a l" for h a l
    by (simp add: gmap_table_walk_def asce_type_of_def gmap_is_shadow_def Let_def)
  show ?thesis
    by (simp add: host_to_guest_pmd_delete_def host_to_guest_delete_def radix_tree_delete_def
        map_of_radix_tree_place ulong_of_def f make_valid_gaddr w)
qed

text \<open>
  C10.  Let every value stored in \<^verbatim>\<open>host_to_guest\<close> carry \<^verbatim>\<open>VALID_GADDR_FLAG\<close>; an
  address space fresh from \<^verbatim>\<open>gmap_alloc\<close> is such a space.

  \<^verbatim>\<open>__gmap_link\<close> keeps it so, and what it stores is the flagged address: whenever it
  returns, it has either left the store alone or, returning 0, put
  \<^verbatim>\<open>MAKE_VALID_GADDR(gaddr)\<close> at the host segment of \<open>vmaddr\<close>, which had no entry; and it
  does store it, returning 0, whenever the higher-level tables exist, the host walk
  passes, the preload succeeds, the guest slot is empty and the host segment has no entry.

  The pair then round-trips through the store: the lookup at \<open>vmaddr\<close> returns the stored
  value, which has the flag, is not the 0 an absent entry reads as (also for
  \<open>gaddr = 0\<close>) and without the flag is the segment-aligned guest address; other host
  segments read as before; and \<^verbatim>\<open>host_to_guest_pmd_delete\<close> finds the entry: it returns
  the segment slot of the stored address and the stored value, and takes the entry out
  again.

  A lookup has the flag exactly when the host segment has an entry.  A value without the
  flag is "not found": \<^verbatim>\<open>host_to_guest_pmd_delete\<close> returns \<^verbatim>\<open>NULL\<close> and changes
  nothing, and the round of \<^verbatim>\<open>ptep_notify\<close> for the address space does nothing, while
  with the flag (and no shadows) it calls the notifiers when \<^verbatim>\<open>PGSTE_IN_BIT\<close> is set.
  The delete keeps the flag on what stays.
\<close>

theorem host_to_guest_valid_flag:
  assumes inv: "host_to_guest_valid g"
  shows "(\<forall>kz page s0 limit g0 s1.
            gmap_alloc kz page s0 limit = (Some g0, s1) \<longrightarrow> host_to_guest_valid g0) \<and>
         (\<forall>rc s' g'. uu_gmap_link env s g gaddr vmaddr = Some (rc, s', g') \<longrightarrow>
            host_to_guest_valid g' \<and>
            (host_to_guest g' = host_to_guest g \<or>
             (rc = 0 \<and>
              radix_tree_lookup (host_to_guest g) (drop_bit PMD_SHIFT vmaddr) = None \<and>
              host_to_guest g' = radix_tree_place (drop_bit PMD_SHIFT vmaddr)
                                   (MAKE_VALID_GADDR gaddr) (host_to_guest g)))) \<and>
         (\<forall>s3 t3. \<not> gmap_is_shadow g \<and> link_tables env s g gaddr = (0, s3, t3) \<and>
            \<not> (debug_vm s3 \<and> (pgd_is_none env \<or> p4d_is_none env \<or> pud_is_none env)) \<and>
            \<not> pud_is_leaf env \<and> \<not> (debug_vm s3 \<and> pmd_none (host_pmd env)) \<and>
            \<not> (pmd_leaf (host_pmd env) \<and> \<not> allow_gmap_hpage_1m g) \<and> preload_rc env = 0 \<and>
            mem s3 (tbl_slot t3 (drop_bit SEGMENT_SHIFT (gaddr AND SEGMENT_INDEX)))
              = SEGMENT_ENTRY_EMPTY \<and>
            radix_tree_lookup (host_to_guest g) (drop_bit PMD_SHIFT vmaddr) = None \<longrightarrow>
            (\<exists>s'. uu_gmap_link env s g gaddr vmaddr
                = Some (0, s', g\<lparr>host_to_guest := radix_tree_place (drop_bit PMD_SHIFT vmaddr)
                                     (MAKE_VALID_GADDR gaddr) (host_to_guest g)\<rparr>))) \<and>
         (radix_tree_lookup (host_to_guest g) (drop_bit PMD_SHIFT vmaddr) = None \<longrightarrow>
            (\<forall>g'. g' = g\<lparr>host_to_guest := radix_tree_place (drop_bit PMD_SHIFT vmaddr)
                                     (MAKE_VALID_GADDR gaddr) (host_to_guest g)\<rparr> \<longrightarrow>
               host_to_guest_lookup g' vmaddr = MAKE_VALID_GADDR gaddr \<and>
               IS_GADDR_VALID (host_to_guest_lookup g' vmaddr) \<and>
               host_to_guest_lookup g' vmaddr \<noteq> 0 \<and>
               host_to_guest_lookup g' vmaddr AND HPAGE_MASK = gaddr AND HPAGE_MASK \<and>
               (\<forall>va. drop_bit PMD_SHIFT va \<noteq> drop_bit PMD_SHIFT vmaddr \<longrightarrow>
                  host_to_guest_lookup g' va = host_to_guest_lookup g va) \<and>
               (\<forall>s'. host_to_guest_pmd_delete s' g' vmaddr
                  = (gmap_table_walk s' g (MAKE_VALID_GADDR gaddr) 1, MAKE_VALID_GADDR gaddr, g)))) \<and>
         (IS_GADDR_VALID (host_to_guest_lookup g vmaddr) \<longleftrightarrow>
            radix_tree_lookup (host_to_guest g) (drop_bit PMD_SHIFT vmaddr) \<noteq> None) \<and>
         (\<not> IS_GADDR_VALID (host_to_guest_lookup g vmaddr) \<longrightarrow>
            host_to_guest_pmd_delete s g vmaddr = (0, 0, g) \<and>
            ptep_notify_gmap fuel s (g, shadows) vmaddr ptep bits = Some (s, g, shadows)) \<and>
         (IS_GADDR_VALID (host_to_guest_lookup g vmaddr) \<longrightarrow>
            ptep_notify_gmap fuel s (g, []) vmaddr ptep bits
              = Some (if bits AND PGSTE_IN_BIT \<noteq> 0
                      then gmap_call_notifier g
                             (host_to_guest_lookup g vmaddr + (ptep AND (255 * 8)) * (PAGE_SIZE div 8))
                             (host_to_guest_lookup g vmaddr + (ptep AND (255 * 8)) * (PAGE_SIZE div 8)
                                + PAGE_SIZE - 1) s
                      else s, g, [])) \<and>
         host_to_guest_valid (snd (snd (host_to_guest_pmd_delete s g vmaddr)))"
proof -
  let ?k = "drop_bit PMD_SHIFT vmaddr"
  let ?g' = "g\<lparr>host_to_guest := radix_tree_place ?k (MAKE_VALID_GADDR gaddr) (host_to_guest g)\<rparr>"
  have a: "gmap_alloc kz page s0 limit = (Some g0, s1) \<Longrightarrow> host_to_guest_valid g0"
    for kz page s0 limit g0 s1
    by (auto simp add: gmap_alloc_def host_to_guest_valid_def Let_def
        split: option.splits prod.splits if_splits)
  have b: "uu_gmap_link env s g gaddr vmaddr = Some (rc, s', g') \<Longrightarrow>
            host_to_guest_valid g' \<and>
            (host_to_guest g' = host_to_guest g \<or>
             (rc = 0 \<and> radix_tree_lookup (host_to_guest g) ?k = None \<and>
              host_to_guest g' = radix_tree_place ?k (MAKE_VALID_GADDR gaddr) (host_to_guest g)))"
    for rc s' g'
  proof -
    assume l: "uu_gmap_link env s g gaddr vmaddr = Some (rc, s', g')"
    obtain rc3 s3 t3 where lt: "link_tables env s g gaddr = (rc3, s3, t3)"
      by (cases "link_tables env s g gaddr") auto
    show ?thesis
    proof (cases "rc3 = 0")
      case True
      then have li: "link_install env s3 g (tbl_slot t3 (drop_bit SEGMENT_SHIFT (gaddr AND SEGMENT_INDEX)))
                   gaddr vmaddr = Some (rc, s', g')"
        using l lt by (simp add: uu_gmap_link_def split: if_splits)
      show ?thesis
        using link_install_valid [OF inv li] link_install_changes [OF li] by blast
    next
      case False
      then have "g' = g"
        using l lt by (simp add: uu_gmap_link_def split: if_splits)
      then show ?thesis using inv by simp
    qed
  qed
  have c: "\<not> gmap_is_shadow g \<and> link_tables env s g gaddr = (0, s3, t3) \<and>
            \<not> (debug_vm s3 \<and> (pgd_is_none env \<or> p4d_is_none env \<or> pud_is_none env)) \<and>
            \<not> pud_is_leaf env \<and> \<not> (debug_vm s3 \<and> pmd_none (host_pmd env)) \<and>
            \<not> (pmd_leaf (host_pmd env) \<and> \<not> allow_gmap_hpage_1m g) \<and> preload_rc env = 0 \<and>
            mem s3 (tbl_slot t3 (drop_bit SEGMENT_SHIFT (gaddr AND SEGMENT_INDEX)))
              = SEGMENT_ENTRY_EMPTY \<and>
            radix_tree_lookup (host_to_guest g) ?k = None \<Longrightarrow>
            \<exists>s'. uu_gmap_link env s g gaddr vmaddr = Some (0, s', ?g')" for s3 t3
  proof -
    assume h: "\<not> gmap_is_shadow g \<and> link_tables env s g gaddr = (0, s3, t3) \<and>
            \<not> (debug_vm s3 \<and> (pgd_is_none env \<or> p4d_is_none env \<or> pud_is_none env)) \<and>
            \<not> pud_is_leaf env \<and> \<not> (debug_vm s3 \<and> pmd_none (host_pmd env)) \<and>
            \<not> (pmd_leaf (host_pmd env) \<and> \<not> allow_gmap_hpage_1m g) \<and> preload_rc env = 0 \<and>
            mem s3 (tbl_slot t3 (drop_bit SEGMENT_SHIFT (gaddr AND SEGMENT_INDEX)))
              = SEGMENT_ENTRY_EMPTY \<and>
            radix_tree_lookup (host_to_guest g) ?k = None"
    then have u: "uu_gmap_link env s g gaddr vmaddr
                = link_install env s3 g (tbl_slot t3 (drop_bit SEGMENT_SHIFT (gaddr AND SEGMENT_INDEX)))
                    gaddr vmaddr"
      by (simp add: uu_gmap_link_def)
    show ?thesis
      unfolding u using h by (intro link_install_inserts) simp_all
  qed
  have d: "radix_tree_lookup (host_to_guest g) ?k = None \<Longrightarrow>
               host_to_guest_lookup ?g' vmaddr = MAKE_VALID_GADDR gaddr \<and>
               IS_GADDR_VALID (host_to_guest_lookup ?g' vmaddr) \<and>
               host_to_guest_lookup ?g' vmaddr \<noteq> 0 \<and>
               host_to_guest_lookup ?g' vmaddr AND HPAGE_MASK = gaddr AND HPAGE_MASK \<and>
               (\<forall>va. drop_bit PMD_SHIFT va \<noteq> ?k \<longrightarrow>
                  host_to_guest_lookup ?g' va = host_to_guest_lookup g va) \<and>
               (\<forall>s'. host_to_guest_pmd_delete s' ?g' vmaddr
                  = (gmap_table_walk s' g (MAKE_VALID_GADDR gaddr) 1, MAKE_VALID_GADDR gaddr, g))"
    using placed_pmd_delete [of g vmaddr _ gaddr]
    by (simp add: placed_lookup make_valid_gaddr)
  have e: "\<not> IS_GADDR_VALID (host_to_guest_lookup g vmaddr) \<Longrightarrow>
            ptep_notify_gmap fuel s (g, shadows) vmaddr ptep bits = Some (s, g, shadows)"
    by (simp add: ptep_notify_gmap_def Let_def ptep_gaddr_valid)
  have f: "IS_GADDR_VALID (host_to_guest_lookup g vmaddr) \<Longrightarrow>
            ptep_notify_gmap fuel s (g, []) vmaddr ptep bits
              = Some (if bits AND PGSTE_IN_BIT \<noteq> 0
                      then gmap_call_notifier g
                             (host_to_guest_lookup g vmaddr + (ptep AND (255 * 8)) * (PAGE_SIZE div 8))
                             (host_to_guest_lookup g vmaddr + (ptep AND (255 * 8)) * (PAGE_SIZE div 8)
                                + PAGE_SIZE - 1) s
                      else s, g, [])"
    by (simp add: ptep_notify_gmap_def Let_def ptep_gaddr_valid)
  show ?thesis
    using a b c d e f make_valid_gaddr [of gaddr] host_to_guest_valid_lookup [OF inv, of vmaddr]
      pmd_delete_absent [OF inv, of vmaddr s] pmd_delete_valid [OF inv, of s vmaddr]
    by (intro conjI allI impI) (blast | simp)+
qed

theorem host_to_guest_valid_flag_witness:
  "host_to_guest_valid (sample_gmap\<lparr>host_to_guest := [(2, 0x100001)]\<rparr>) \<and>
   \<not> IS_GADDR_VALID (host_to_guest_lookup (sample_gmap\<lparr>host_to_guest := [(2, 0x100001)]\<rparr>) 0x400000) \<and>
   host_to_guest_pmd_delete (store sample_state 0x10008 0x30000)
       (sample_gmap\<lparr>host_to_guest := [(2, 0x100001)]\<rparr>) 0x400000
     = (0, 0, sample_gmap\<lparr>host_to_guest := [(2, 0x100001)]\<rparr>) \<and>
   ptep_notify_gmap 0 (store sample_state 0x10008 0x30000)
       (sample_gmap\<lparr>host_to_guest := [(2, 0x100001)]\<rparr>, []) 0x400000 0x7008 PGSTE_IN_BIT
     = Some (store sample_state 0x10008 0x30000, sample_gmap\<lparr>host_to_guest := [(2, 0x100001)]\<rparr>, []) \<and>
   (\<exists>s'. uu_gmap_link sample_env (store sample_state 0x10008 0x30000)
       (sample_gmap\<lparr>host_to_guest := [(2, 0x100001)]\<rparr>) 0x200000 0x400000
     = Some (0, s', sample_gmap\<lparr>host_to_guest := [(2, 0x100001), (4, 0x200001)]\<rparr>)) \<and>
   host_to_guest_lookup (sample_gmap\<lparr>host_to_guest := [(2, 0x100001), (4, 0x200001)]\<rparr>) 0x400000
     = 0x200001 \<and>
   host_to_guest_lookup (sample_gmap\<lparr>host_to_guest := [(2, 0x100001), (4, 0x200001)]\<rparr>) 0x400000
       AND HPAGE_MASK = 0x200000 \<and>
   host_to_guest_pmd_delete (store sample_state 0x10008 0x30000)
       (sample_gmap\<lparr>host_to_guest := [(2, 0x100001), (4, 0x200001)]\<rparr>) 0x400000
     = (0x10010, 0x200001, sample_gmap\<lparr>host_to_guest := [(2, 0x100001)]\<rparr>)"
proof -
  let ?s = "store sample_state 0x10008 0x30000"
  let ?g = "sample_gmap\<lparr>host_to_guest := [(2, 0x100001)]\<rparr>"
  have inv: "host_to_guest_valid ?g"
    by (simp add: host_to_guest_valid_def IS_GADDR_VALID_def VALID_GADDR_FLAG_def)
  note T = host_to_guest_valid_flag [OF inv, of sample_env ?s "0x200000" "0x400000" 0 "[]"
      "0x7008" PGSTE_IN_BIT]
  have absent: "radix_tree_lookup (host_to_guest ?g) (drop_bit PMD_SHIFT 0x400000) = None"
    by (simp add: radix_tree_lookup_def PMD_SHIFT_def)
  have pl: "?g\<lparr>host_to_guest := radix_tree_place (drop_bit PMD_SHIFT 0x400000)
                (MAKE_VALID_GADDR 0x200000) (host_to_guest ?g)\<rparr>
            = sample_gmap\<lparr>host_to_guest := [(2, 0x100001), (4, 0x200001)]\<rparr>"
    by (simp add: PMD_SHIFT_def MAKE_VALID_GADDR_def HPAGE_MASK_def HPAGE_SIZE_def
        VALID_GADDR_FLAG_def)
  have mv: "MAKE_VALID_GADDR 0x200000 = 0x200001"
    by (simp add: MAKE_VALID_GADDR_def HPAGE_MASK_def HPAGE_SIZE_def VALID_GADDR_FLAG_def)
  have sl: "tbl_slot 0x10000 (drop_bit SEGMENT_SHIFT (0x200000 AND SEGMENT_INDEX)) = 0x10010"
    by (simp add: tbl_slot_def SEGMENT_SHIFT_def SEGMENT_INDEX_def)
  have wk: "gmap_table_walk ?s ?g 0x200001 1 = 0x10010"
    by (simp add: gmap_table_walk_def walk_case_segment_def sample_gmap_fields gmap_is_shadow_def
        asce_type_of_def ASCE_TYPE_MASK_def ASCE_TYPE_REGION1_def ASCE_TYPE_REGION2_def
        ASCE_TYPE_REGION3_def tbl_slot_def SEGMENT_INDEX_def SEGMENT_SHIFT_def Let_def
        mask_eq_exp_minus_1)
  have pre: "\<not> gmap_is_shadow ?g \<and> link_tables sample_env ?s ?g 0x200000 = (0, ?s, 0x10000) \<and>
            \<not> (debug_vm ?s \<and> (pgd_is_none sample_env \<or> p4d_is_none sample_env \<or> pud_is_none sample_env)) \<and>
            \<not> pud_is_leaf sample_env \<and> \<not> (debug_vm ?s \<and> pmd_none (host_pmd sample_env)) \<and>
            \<not> (pmd_leaf (host_pmd sample_env) \<and> \<not> allow_gmap_hpage_1m ?g) \<and> preload_rc sample_env = 0 \<and>
            mem ?s (tbl_slot 0x10000 (drop_bit SEGMENT_SHIFT (0x200000 AND SEGMENT_INDEX)))
              = SEGMENT_ENTRY_EMPTY \<and>
            radix_tree_lookup (host_to_guest ?g) (drop_bit PMD_SHIFT 0x400000) = None"
  proof (intro conjI)
    show "\<not> gmap_is_shadow ?g" by (rule sample_not_shadow)
    show "link_tables sample_env ?s ?g 0x200000 = (0, ?s, 0x10000)" by (rule sample_link_tables)
    show "mem ?s (tbl_slot 0x10000 (drop_bit SEGMENT_SHIFT (0x200000 AND SEGMENT_INDEX)))
              = SEGMENT_ENTRY_EMPTY"
      by (simp only: sl) (simp add: sample_linked_mem SEGMENT_ENTRY_EMPTY_def)
    show "radix_tree_lookup (host_to_guest ?g) (drop_bit PMD_SHIFT 0x400000) = None" by (rule absent)
  qed (simp_all add: sample_linked_fields sample_env_def pmd_leaf_def SEGMENT_ENTRY_LARGE_def)
  have nv: "\<not> IS_GADDR_VALID (host_to_guest_lookup ?g 0x400000)"
    using T absent by blast
  have l: "\<exists>s'. uu_gmap_link sample_env ?s ?g 0x200000 0x400000
             = Some (0, s', sample_gmap\<lparr>host_to_guest := [(2, 0x100001), (4, 0x200001)]\<rparr>)"
    using T pre unfolding pl by blast
  have r: "host_to_guest_lookup (sample_gmap\<lparr>host_to_guest := [(2, 0x100001), (4, 0x200001)]\<rparr>) 0x400000
             = 0x200001 \<and>
           host_to_guest_lookup (sample_gmap\<lparr>host_to_guest := [(2, 0x100001), (4, 0x200001)]\<rparr>) 0x400000
             AND HPAGE_MASK = 0x200000 \<and>
           host_to_guest_pmd_delete ?s (sample_gmap\<lparr>host_to_guest := [(2, 0x100001), (4, 0x200001)]\<rparr>) 0x400000
             = (0x10010, 0x200001, ?g)"
  proof -
    from T absent have
      "\<forall>g'. g' = ?g\<lparr>host_to_guest := radix_tree_place (drop_bit PMD_SHIFT 0x400000)
                                     (MAKE_VALID_GADDR 0x200000) (host_to_guest ?g)\<rparr> \<longrightarrow>
               host_to_guest_lookup g' 0x400000 = MAKE_VALID_GADDR 0x200000 \<and>
               IS_GADDR_VALID (host_to_guest_lookup g' 0x400000) \<and>
               host_to_guest_lookup g' 0x400000 \<noteq> 0 \<and>
               host_to_guest_lookup g' 0x400000 AND HPAGE_MASK = 0x200000 AND HPAGE_MASK \<and>
               (\<forall>va. drop_bit PMD_SHIFT va \<noteq> drop_bit PMD_SHIFT 0x400000 \<longrightarrow>
                  host_to_guest_lookup g' va = host_to_guest_lookup ?g va) \<and>
               (\<forall>s'. host_to_guest_pmd_delete s' g' 0x400000
                  = (gmap_table_walk s' ?g (MAKE_VALID_GADDR 0x200000) 1, MAKE_VALID_GADDR 0x200000, ?g))"
      by blast
    from this [rule_format, OF pl [symmetric]] show ?thesis
      by (simp add: mv wk HPAGE_MASK_def HPAGE_SIZE_def)
  qed
  have d: "host_to_guest_pmd_delete ?s ?g 0x400000 = (0, 0, ?g)"
    and p: "ptep_notify_gmap 0 ?s (?g, []) 0x400000 0x7008 PGSTE_IN_BIT = Some (?s, ?g, [])"
    using T nv by blast+
  from inv nv d p l r show ?thesis by (intro conjI) blast+
qed

section \<open>Failures of linking\<close>

text \<open>
  C6 (amended).  Once the higher-level tables exist: \<^verbatim>\<open>__gmap_link\<close> fails with
  \<^verbatim>\<open>-EFAULT\<close> (NeedsFault) whenever the host walk, its upper levels present, meets a
  large page type that is not permitted: a large pud, or a large pmd while 1M huge pages
  are not allowed.  It does not fail when the guest segment slot is linked already: with
  a present and permitted host pmd and a successful preload it returns 0 and leaves the
  \<^verbatim>\<open>host_to_guest\<close> store alone, whatever host address it is given.  A host mapping that
  is not present is not reported: with \<^verbatim>\<open>CONFIG_DEBUG_VM\<close> the function stops at
  \<^verbatim>\<open>VM_BUG_ON\<close>; without it, it goes on with the empty host pmd and returns a code that is not
  \<^verbatim>\<open>-EFAULT\<close>, namely 0 when the guest slot is empty and the host segment not yet
  recorded: the pair is recorded and the guest slot stays empty.
\<close>

theorem gmap_link_failures:
  assumes ns: "\<not> gmap_is_shadow g"
    and tb: "link_tables env s g gaddr = (0, s3, t3)"
    and slot: "tablep = tbl_slot t3 (drop_bit SEGMENT_SHIFT (gaddr AND SEGMENT_INDEX))"
  shows "(\<not> pgd_is_none env \<and> \<not> p4d_is_none env \<and> \<not> pud_is_none env \<and>
          (pud_is_leaf env \<or> (pmd_leaf (host_pmd env) \<and> \<not> allow_gmap_hpage_1m g)) \<longrightarrow>
            uu_gmap_link env s g gaddr vmaddr = Some (- EFAULT, s3, g)) \<and>
         (\<not> pgd_is_none env \<and> \<not> p4d_is_none env \<and> \<not> pud_is_none env \<and>
          \<not> pud_is_leaf env \<and> \<not> pmd_none (host_pmd env) \<and>
          (pmd_leaf (host_pmd env) \<longrightarrow> allow_gmap_hpage_1m g) \<and> preload_rc env = 0 \<and>
          mem s3 tablep \<noteq> SEGMENT_ENTRY_EMPTY \<longrightarrow>
            (\<exists>s'. uu_gmap_link env s g gaddr vmaddr = Some (0, s', g))) \<and>
         (debug_vm s3 \<and>
          (pgd_is_none env \<or> p4d_is_none env \<or> pud_is_none env \<or>
           (\<not> pud_is_leaf env \<and> pmd_none (host_pmd env))) \<longrightarrow>
            uu_gmap_link env s g gaddr vmaddr = None) \<and>
         (\<not> debug_vm s3 \<and> \<not> pud_is_leaf env \<and> pmd_none (host_pmd env) \<and> preload_rc env = 0 \<longrightarrow>
            (\<exists>rc s' g'. uu_gmap_link env s g gaddr vmaddr = Some (rc, s', g') \<and> rc \<noteq> - EFAULT) \<and>
            (mem s3 tablep = SEGMENT_ENTRY_EMPTY \<and>
             radix_tree_lookup (host_to_guest g) (drop_bit PMD_SHIFT vmaddr) = None \<longrightarrow>
               uu_gmap_link env s g gaddr vmaddr
                 = Some (0, store s3 tablep SEGMENT_ENTRY_EMPTY,
                         g\<lparr>host_to_guest := radix_tree_place (drop_bit PMD_SHIFT vmaddr)
                                                (MAKE_VALID_GADDR gaddr) (host_to_guest g)\<rparr>)))"
proof -
  have u: "uu_gmap_link env s g gaddr vmaddr = link_install env s3 g tablep gaddr vmaddr"
    using ns tb slot by (simp add: uu_gmap_link_def)
  have a: "\<not> pgd_is_none env \<and> \<not> p4d_is_none env \<and> \<not> pud_is_none env \<and>
          (pud_is_leaf env \<or> (pmd_leaf (host_pmd env) \<and> \<not> allow_gmap_hpage_1m g)) \<Longrightarrow>
            link_install env s3 g tablep gaddr vmaddr = Some (- EFAULT, s3, g)"
    by (auto simp add: link_install_def Let_def leaf_not_none)
  have b: "\<not> pgd_is_none env \<and> \<not> p4d_is_none env \<and> \<not> pud_is_none env \<and>
          \<not> pud_is_leaf env \<and> \<not> pmd_none (host_pmd env) \<and>
          (pmd_leaf (host_pmd env) \<longrightarrow> allow_gmap_hpage_1m g) \<and> preload_rc env = 0 \<and>
          mem s3 tablep \<noteq> SEGMENT_ENTRY_EMPTY \<Longrightarrow>
          \<exists>s'. link_install env s3 g tablep gaddr vmaddr = Some (0, s', g)"
    by (auto simp add: link_install_def Let_def)
  have c: "debug_vm s3 \<and>
          (pgd_is_none env \<or> p4d_is_none env \<or> pud_is_none env \<or>
           (\<not> pud_is_leaf env \<and> pmd_none (host_pmd env))) \<Longrightarrow>
            link_install env s3 g tablep gaddr vmaddr = None"
    by (auto simp add: link_install_def Let_def)
  have nl: "pmd_none (host_pmd env) \<Longrightarrow> \<not> pmd_leaf (host_pmd env)"
    using leaf_not_none by blast
  have hw: "pmd_none (host_pmd env) \<Longrightarrow> host_pmd env AND SEGMENT_ENTRY_HARDWARE_BITS = SEGMENT_ENTRY_EMPTY"
    by (simp add: pmd_none_def SEGMENT_ENTRY_EMPTY_def SEGMENT_ENTRY_HARDWARE_BITS_def)
  have d1: "\<not> debug_vm s3 \<and> \<not> pud_is_leaf env \<and> pmd_none (host_pmd env) \<and> preload_rc env = 0 \<Longrightarrow>
            \<exists>rc s' g'. link_install env s3 g tablep gaddr vmaddr = Some (rc, s', g') \<and> rc \<noteq> - EFAULT"
    using nl
    by (auto simp add: link_install_def Let_def radix_tree_insert_ulong_def EFAULT_def EEXIST_def
        split: if_splits)
  have d2: "\<not> debug_vm s3 \<and> \<not> pud_is_leaf env \<and> pmd_none (host_pmd env) \<and> preload_rc env = 0 \<Longrightarrow>
            mem s3 tablep = SEGMENT_ENTRY_EMPTY \<and>
             radix_tree_lookup (host_to_guest g) (drop_bit PMD_SHIFT vmaddr) = None \<Longrightarrow>
            link_install env s3 g tablep gaddr vmaddr
                 = Some (0, store s3 tablep SEGMENT_ENTRY_EMPTY,
                         g\<lparr>host_to_guest := radix_tree_place (drop_bit PMD_SHIFT vmaddr)
                                                (MAKE_VALID_GADDR gaddr) (host_to_guest g)\<rparr>)"
    using nl hw make_valid_gaddr(3) [of gaddr]
    by (auto simp add: link_install_def Let_def radix_tree_insert_ulong_def radix_tree_lookup_def)
  show ?thesis
    unfolding u using a b c d1 d2 by blast
qed

text \<open>
  C6 as stated fails twice.  The slot of guest address \<open>0x100000\<close> is linked to the host
  segment at \<open>0x200000\<close>; linking the same guest address to the host segment at
  \<open>0x400000\<close> returns 0, not a conflict, and changes nothing.  And with a host pmd that
  is not present (empty), in a build without \<^verbatim>\<open>CONFIG_DEBUG_VM\<close>, linking guest address
  \<open>0x200000\<close> returns 0, not \<^verbatim>\<open>-EFAULT\<close>.
\<close>

theorem gmap_link_conflict_counterexample:
  "uu_gmap_link sample_env sample_state sample_gmap 0x100000 0x200000
     = Some (0, store sample_state 0x10008 0x30000, sample_gmap\<lparr>host_to_guest := [(2, 0x100001)]\<rparr>) \<and>
   host_to_guest_lookup (sample_gmap\<lparr>host_to_guest := [(2, 0x100001)]\<rparr>) 0x200000
     = MAKE_VALID_GADDR 0x100000 \<and>
   uu_gmap_link (sample_env\<lparr>host_pmd := 0x50000\<rparr>) (store sample_state 0x10008 0x30000)
       (sample_gmap\<lparr>host_to_guest := [(2, 0x100001)]\<rparr>) 0x100000 0x400000
     = Some (0, store sample_state 0x10008 0x30000, sample_gmap\<lparr>host_to_guest := [(2, 0x100001)]\<rparr>) \<and>
   pmd_none (host_pmd (sample_env\<lparr>host_pmd := SEGMENT_ENTRY_EMPTY\<rparr>)) \<and>
   \<not> debug_vm (store sample_state 0x10008 0x30000) \<and>
   uu_gmap_link (sample_env\<lparr>host_pmd := SEGMENT_ENTRY_EMPTY\<rparr>) (store sample_state 0x10008 0x30000)
       (sample_gmap\<lparr>host_to_guest := [(2, 0x100001)]\<rparr>) 0x200000 0x400000
     = Some (0, store (store sample_state 0x10008 0x30000) 0x10010 SEGMENT_ENTRY_EMPTY,
             sample_gmap\<lparr>host_to_guest := [(2, 0x100001), (4, 0x200001)]\<rparr>)"
proof -
  let ?s = "store sample_state 0x10008 0x30000"
  let ?g = "sample_gmap\<lparr>host_to_guest := [(2, 0x100001)]\<rparr>"
  let ?env = "sample_env\<lparr>host_pmd := 0x50000\<rparr>"
  let ?enone = "sample_env\<lparr>host_pmd := SEGMENT_ENTRY_EMPTY\<rparr>"
  have lk: "host_to_guest_lookup ?g 0x200000 = MAKE_VALID_GADDR 0x100000"
    by (simp add: host_to_guest_lookup_def radix_tree_lookup_def ulong_of_def PMD_SHIFT_def
        MAKE_VALID_GADDR_def HPAGE_MASK_def VALID_GADDR_FLAG_def)
  have lt: "link_tables ?env ?s ?g 0x100000 = (0, ?s, 0x10000)"
    by (rule sample_link_tables)
  have ltn: "link_tables ?enone ?s ?g 0x200000 = (0, ?s, 0x10000)"
    by (rule sample_link_tables)
  have ns: "\<not> gmap_is_shadow ?g" by (rule sample_not_shadow)
  have sl: "tbl_slot 0x10000 (drop_bit SEGMENT_SHIFT (0x100000 AND SEGMENT_INDEX)) = 0x10008"
    by (simp add: tbl_slot_def SEGMENT_SHIFT_def SEGMENT_INDEX_def)
  have sln: "tbl_slot 0x10000 (drop_bit SEGMENT_SHIFT (0x200000 AND SEGMENT_INDEX)) = 0x10010"
    by (simp add: tbl_slot_def SEGMENT_SHIFT_def SEGMENT_INDEX_def)
  have li: "link_install ?env ?s ?g 0x10008 0x100000 0x400000 = Some (0, ?s, ?g)"
    by (simp add: link_install_def sample_env_def sample_linked_mem sample_linked_fields
        sample_gmap_fields SEGMENT_ENTRY_EMPTY_def pmd_none_def pmd_leaf_def
        SEGMENT_ENTRY_LARGE_def SEGMENT_ENTRY_PROTECT_def)
  have lin: "link_install ?enone ?s ?g 0x10010 0x200000 0x400000
               = Some (0, store ?s 0x10010 SEGMENT_ENTRY_EMPTY,
                       sample_gmap\<lparr>host_to_guest := [(2, 0x100001), (4, 0x200001)]\<rparr>)"
    by (simp add: link_install_def sample_env_def sample_linked_mem sample_linked_fields
        sample_gmap_fields SEGMENT_ENTRY_EMPTY_def pmd_none_def pmd_leaf_def
        SEGMENT_ENTRY_LARGE_def radix_tree_insert_ulong_def MAKE_VALID_GADDR_def HPAGE_MASK_def
        HPAGE_SIZE_def VALID_GADDR_FLAG_def PMD_SHIFT_def SEGMENT_ENTRY_HARDWARE_BITS_def)
  have a: "uu_gmap_link ?env ?s ?g 0x100000 0x400000 = Some (0, ?s, ?g)"
    unfolding uu_gmap_link_def
    by (simp only: ns lt sl li if_False prod.case simp_thms)
  have b: "uu_gmap_link ?enone ?s ?g 0x200000 0x400000
             = Some (0, store ?s 0x10010 SEGMENT_ENTRY_EMPTY,
                     sample_gmap\<lparr>host_to_guest := [(2, 0x100001), (4, 0x200001)]\<rparr>)"
    unfolding uu_gmap_link_def
    by (simp only: ns ltn sln lin if_False prod.case simp_thms)
  have p: "pmd_none (host_pmd ?enone)" by (simp add: pmd_none_def)
  have nd: "\<not> debug_vm ?s" by (simp add: sample_linked_fields)
  show ?thesis
    by (intro conjI) (rule sample_first_link lk a b p nd)+
qed

theorem gmap_link_failures_witness:
  "(\<exists>s'. uu_gmap_link (sample_env\<lparr>host_pmd := 0x50000\<rparr>) (store sample_state 0x10008 0x30000)
       (sample_gmap\<lparr>host_to_guest := [(2, 0x100001)]\<rparr>) 0x100000 0x400000
     = Some (0, s', sample_gmap\<lparr>host_to_guest := [(2, 0x100001)]\<rparr>)) \<and>
   uu_gmap_link (sample_env\<lparr>host_pmd := 0x80000400\<rparr>) (store sample_state 0x10008 0x30000)
       (sample_gmap\<lparr>host_to_guest := [(2, 0x100001)]\<rparr>) 0x200000 0x400000
     = Some (- EFAULT, store sample_state 0x10008 0x30000, sample_gmap\<lparr>host_to_guest := [(2, 0x100001)]\<rparr>) \<and>
   uu_gmap_link (sample_env\<lparr>host_pmd := SEGMENT_ENTRY_EMPTY\<rparr>)
       ((store sample_state 0x10008 0x30000)\<lparr>debug_vm := True\<rparr>)
       (sample_gmap\<lparr>host_to_guest := [(2, 0x100001)]\<rparr>) 0x200000 0x400000 = None \<and>
   uu_gmap_link (sample_env\<lparr>host_pmd := SEGMENT_ENTRY_EMPTY\<rparr>) (store sample_state 0x10008 0x30000)
       (sample_gmap\<lparr>host_to_guest := [(2, 0x100001)]\<rparr>) 0x200000 0x400000
     = Some (0, store (store sample_state 0x10008 0x30000) 0x10010 SEGMENT_ENTRY_EMPTY,
             sample_gmap\<lparr>host_to_guest := radix_tree_place (drop_bit PMD_SHIFT 0x400000)
                (MAKE_VALID_GADDR 0x200000) [(2, 0x100001)]\<rparr>)"
proof -
  let ?s = "store sample_state 0x10008 0x30000"
  let ?g = "sample_gmap\<lparr>host_to_guest := [(2, 0x100001)]\<rparr>"
  have ns: "\<not> gmap_is_shadow ?g" by (rule sample_not_shadow)
  have sl1: "0x10008 = tbl_slot 0x10000 (drop_bit SEGMENT_SHIFT (0x100000 AND SEGMENT_INDEX))"
    by (simp add: tbl_slot_def SEGMENT_SHIFT_def SEGMENT_INDEX_def)
  have sl2: "0x10010 = tbl_slot 0x10000 (drop_bit SEGMENT_SHIFT (0x200000 AND SEGMENT_INDEX))"
    by (simp add: tbl_slot_def SEGMENT_SHIFT_def SEGMENT_INDEX_def)
  have a: "\<exists>s'. uu_gmap_link (sample_env\<lparr>host_pmd := 0x50000\<rparr>) ?s ?g 0x100000 0x400000 = Some (0, s', ?g)"
    using gmap_link_failures [OF ns sample_link_tables sl1, of "sample_env\<lparr>host_pmd := 0x50000\<rparr>" ?s "0x400000"]
    by (simp add: sample_env_def sample_linked_mem pmd_none_def pmd_leaf_def SEGMENT_ENTRY_EMPTY_def
        SEGMENT_ENTRY_LARGE_def)
  have c: "uu_gmap_link (sample_env\<lparr>host_pmd := 0x80000400\<rparr>) ?s ?g 0x200000 0x400000 = Some (- EFAULT, ?s, ?g)"
    using gmap_link_failures [OF ns sample_link_tables sl2, of "sample_env\<lparr>host_pmd := 0x80000400\<rparr>" ?s "0x400000"]
    by (simp add: sample_env_def pmd_leaf_def SEGMENT_ENTRY_LARGE_def sample_gmap_fields)
  have d: "uu_gmap_link (sample_env\<lparr>host_pmd := SEGMENT_ENTRY_EMPTY\<rparr>) (?s\<lparr>debug_vm := True\<rparr>) ?g
             0x200000 0x400000 = None"
    using gmap_link_failures [OF ns sample_link_tables sl2,
        of "sample_env\<lparr>host_pmd := SEGMENT_ENTRY_EMPTY\<rparr>" "?s\<lparr>debug_vm := True\<rparr>" "0x400000"]
    by (simp add: sample_env_def pmd_none_def)
  have e: "uu_gmap_link (sample_env\<lparr>host_pmd := SEGMENT_ENTRY_EMPTY\<rparr>) ?s ?g 0x200000 0x400000
     = Some (0, store ?s 0x10010 SEGMENT_ENTRY_EMPTY,
             sample_gmap\<lparr>host_to_guest := radix_tree_place (drop_bit PMD_SHIFT 0x400000)
                (MAKE_VALID_GADDR 0x200000) [(2, 0x100001)]\<rparr>)"
    using gmap_link_failures [OF ns sample_link_tables sl2,
        of "sample_env\<lparr>host_pmd := SEGMENT_ENTRY_EMPTY\<rparr>" ?s "0x400000"]
    by (simp add: sample_env_def pmd_none_def sample_linked_mem sample_linked_fields
        SEGMENT_ENTRY_EMPTY_def radix_tree_lookup_def PMD_SHIFT_def)
  from a c d e show ?thesis by blast
qed

section \<open>Translation through histories of operations\<close>

lemma unmap_segment_loop_parent:
  "unmap_segment_loop s g to n off flush = Some (fl, s', g') \<Longrightarrow> parent g' = parent g"
proof (induction n arbitrary: s g off flush)
  case 0
  then show ?case by simp
next
  case (Suc n)
  from Suc.prems obtain f s1 g1 where
    u: "uu_gmap_unmap_by_gaddr s g (to + off) = Some (f, s1, g1)"
    and r: "unmap_segment_loop s1 g1 to n (off + PMD_SIZE) (flush OR f) = Some (fl, s', g')"
    by (auto split: option.splits)
  show ?case using Suc.IH [OF r] unmap_by_gaddr_g2h [OF u] by simp
qed

lemma gmap_unmap_segment_keeps:
  assumes "gmap_unmap_segment s g to len = Some (rc, s', g')"
    and "\<forall>i < unat (drop_bit PMD_SHIFT len). drop_bit PMD_SHIFT (to + of_nat i * PMD_SIZE) \<noteq> k"
  shows "map_of (guest_to_host g') k = map_of (guest_to_host g) k \<and> parent g' = parent g"
proof (cases "unmap_segment_loop s g to (unat (drop_bit PMD_SHIFT len)) 0 0")
  case None
  then show ?thesis
    using assms(1) by (auto simp add: gmap_unmap_segment_def split: if_splits)
next
  case (Some r)
  obtain fl s1 g1 where r: "r = (fl, s1, g1)" by (cases r)
  have l: "unmap_segment_loop s g to (unat (drop_bit PMD_SHIFT len)) 0 0 = Some (fl, s1, g1)"
    using Some r by simp
  have "\<not> (\<exists>i<unat (drop_bit PMD_SHIFT len). k = drop_bit PMD_SHIFT (to + (0 + of_nat i * PMD_SIZE)))"
    using assms(2) by auto
  then have "map_of (guest_to_host g1) k = map_of (guest_to_host g) k"
    using unmap_segment_loop_deletes [OF l, of k] by auto
  moreover have "parent g1 = parent g" by (rule unmap_segment_loop_parent [OF l])
  ultimately show ?thesis
    using assms(1) l by (auto simp add: gmap_unmap_segment_def split: if_splits)
qed

lemma gmap_map_segment_keeps:
  assumes "gmap_map_segment nomem s g from to len = Some (rc, s', g')"
    and "\<forall>i < unat (drop_bit PMD_SHIFT len). drop_bit PMD_SHIFT (to + of_nat i * PMD_SIZE) \<noteq> k"
  shows "map_of (guest_to_host g') k = map_of (guest_to_host g) k \<and> parent g' = parent g"
proof (cases "map_segment_loop nomem s g from to (unat (drop_bit PMD_SHIFT len)) 0 0")
  case None
  then show ?thesis
    using assms(1) by (auto simp add: gmap_map_segment_def split: if_splits)
next
  case (Some r)
  obtain d fl s1 g1 where r: "r = (d, fl, s1, g1)" by (cases r)
  have l: "map_segment_loop nomem s g from to (unat (drop_bit PMD_SHIFT len)) 0 0 = Some (d, fl, s1, g1)"
    using Some r by simp
  have "\<forall>i<unat (drop_bit PMD_SHIFT len). k \<noteq> drop_bit PMD_SHIFT (to + (0 + of_nat i * PMD_SIZE))"
    using assms(2) by auto
  then have m: "map_of (guest_to_host g1) k = map_of (guest_to_host g) k"
    by (rule map_segment_loop_other [OF l])
  have p: "parent g1 = parent g" by (rule map_segment_loop_parent [OF l])
  show ?thesis
  proof (cases d)
    case True
    then show ?thesis
      using assms(1) l m p by (auto simp add: gmap_map_segment_def Let_def split: if_splits)
  next
    case False
    let ?s2 = "if fl \<noteq> 0 then gmap_flush_tlb g1 s1 else s1"
    show ?thesis
    proof (cases "(from OR to OR len) AND (PMD_SIZE - 1) \<noteq> 0 \<or> len = 0 \<or> from + len < from \<or>
                  to + len < to \<or> from + len - 1 > TASK_SIZE_MAX \<or> to + len - 1 > asce_end g \<or>
                  gmap_is_shadow g")
      case True
      then show ?thesis
        using assms(1) by (auto simp add: gmap_map_segment_def split: if_splits)
    next
      case c: False
      then obtain rc3 s3 g3 where u: "gmap_unmap_segment ?s2 g1 to len = Some (rc3, s3, g3)"
        and g: "g' = g3"
        using assms(1) l False
        by (auto simp add: gmap_map_segment_def Let_def split: if_splits option.splits)
      show ?thesis
        using gmap_unmap_segment_keeps [OF u assms(2)] m p g by simp
    qed
  qed
qed

lemma uu_gmap_link_parent:
  "uu_gmap_link env s g gaddr vmaddr = Some (rc, s', g') \<Longrightarrow> parent g' = parent g"
  unfolding uu_gmap_link_def link_install_def Let_def
  by (auto split: if_splits prod.splits)

lemma run_gmap_op_keeps:
  assumes "run_gmap_op op (s, g) = Some (s', g')" and "op_keeps k op"
  shows "map_of (guest_to_host g') k = map_of (guest_to_host g) k \<and> parent g' = parent g"
proof (cases op)
  case (Op_link env gaddr vmaddr)
  then obtain rc where "uu_gmap_link env s g gaddr vmaddr = Some (rc, s', g')"
    using assms(1) by auto
  then show ?thesis using uu_gmap_link_g2h uu_gmap_link_parent by metis
next
  case (Op_unlink_by_vmaddr vmaddr)
  then obtain f where "uu_gmap_unlink_by_vmaddr s g vmaddr = Some (f, s', g')"
    using assms(1) by auto
  then show ?thesis using unlink_by_vmaddr_g2h by metis
next
  case (Op_unmap_by_gaddr gaddr)
  then obtain f where "uu_gmap_unmap_by_gaddr s g gaddr = Some (f, s', g')"
    using assms(1) by auto
  then show ?thesis using unmap_by_gaddr_g2h [of s g gaddr f s' g'] assms(2) Op_unmap_by_gaddr by simp
next
  case (Op_map_segment nomem hfrom gto len)
  then obtain rc where "gmap_map_segment nomem s g hfrom gto len = Some (rc, s', g')"
    using assms(1) by auto
  then show ?thesis using gmap_map_segment_keeps assms(2) Op_map_segment by simp
next
  case (Op_unmap_segment gto len)
  then obtain rc where "gmap_unmap_segment s g gto len = Some (rc, s', g')"
    using assms(1) by auto
  then show ?thesis using gmap_unmap_segment_keeps assms(2) Op_unmap_segment by simp
qed

lemma run_gmap_ops_keeps:
  "run_gmap_ops ops (s, g) = Some (s', g') \<Longrightarrow> \<forall>op \<in> set ops. op_keeps k op \<Longrightarrow>
   map_of (guest_to_host g') k = map_of (guest_to_host g) k \<and> parent g' = parent g"
proof (induction ops arbitrary: s g)
  case Nil
  then show ?case by simp
next
  case (Cons op ops)
  from Cons.prems(1) obtain s1 g1 where o: "run_gmap_op op (s, g) = Some (s1, g1)"
    and r: "run_gmap_ops ops (s1, g1) = Some (s', g')"
    by (auto split: option.splits)
  show ?case
    using run_gmap_op_keeps [OF o, of k] Cons.IH [OF r] Cons.prems(2) by simp
qed

text \<open>
  C1 (amended).  For a non-shadow space, after \<^verbatim>\<open>gmap_map_segment\<close> has linked the guest
  range \<open>[to, to + len)\<close> to the host range starting at \<open>from\<close> and returned 0, every
  guest address \<open>gaddr\<close> of the range whose host segment address \<open>h\<close> is not 0
  translates to \<open>h\<close> combined with the offset bits of \<open>gaddr\<close> below the segment size.
  It keeps translating so through every history of later operations that is no unlink
  of its segment, links and invalidations from the host side among them.  After that,
  an unlink of the address returns and leaves \<^verbatim>\<open>__gmap_translate\<close> with \<^verbatim>\<open>-EFAULT\<close>:
  \<^verbatim>\<open>__gmap_unmap_by_gaddr\<close> of any address of the segment, and \<^verbatim>\<open>gmap_unmap_segment\<close>
  of any well-formed range with the address in it, which returns 0.  \<^verbatim>\<open>__gmap_link\<close>
  is no link in this sense: it changes no translation.
\<close>

theorem translate_after_map_segment:
  assumes ok: "gmap_map_segment nomem s g from to len = Some (0, s', g')"
    and lo: "to \<le> gaddr" and hi: "gaddr - to < len"
    and nz: "from + ((gaddr - to) AND PMD_MASK) \<noteq> 0"
    and run: "run_gmap_ops ops (s', g') = Some (s2, g2)"
    and keep: "\<forall>op \<in> set ops. op_keeps (drop_bit PMD_SHIFT gaddr) op"
  shows "uu_gmap_translate g' gaddr
           = (from + ((gaddr - to) AND PMD_MASK)) OR (gaddr AND NOT PMD_MASK) \<and>
         uu_gmap_translate g2 gaddr
           = (from + ((gaddr - to) AND PMD_MASK)) OR (gaddr AND NOT PMD_MASK) \<and>
         (\<forall>a. drop_bit PMD_SHIFT a = drop_bit PMD_SHIFT gaddr \<longrightarrow>
            (\<exists>f s3 g3. uu_gmap_unmap_by_gaddr s2 g2 a = Some (f, s3, g3) \<and>
               uu_gmap_translate g3 gaddr = err_ptr EFAULT)) \<and>
         (\<forall>uto ulen. (uto OR ulen) AND (PMD_SIZE - 1) = 0 \<and> uto \<le> gaddr \<and> gaddr - uto < ulen \<and>
            \<not> uto + ulen < uto \<longrightarrow>
            (\<exists>s3 g3. gmap_unmap_segment s2 g2 uto ulen = Some (0, s3, g3) \<and>
               uu_gmap_translate g3 gaddr = err_ptr EFAULT)) \<and>
         (\<forall>env ga va rc s3 g3 a. uu_gmap_link env s2 g2 ga va = Some (rc, s3, g3) \<longrightarrow>
            uu_gmap_translate g3 a = uu_gmap_translate g2 a)"
proof -
  let ?n = "unat (drop_bit PMD_SHIFT len)"
  let ?i = "unat (drop_bit PMD_SHIFT (gaddr - to))"
  let ?k = "drop_bit PMD_SHIFT gaddr"
  let ?h = "from + ((gaddr - to) AND PMD_MASK)"
  note c = map_segment_checks [OF ok]
  from c(6) obtain fl s1 where
    loop: "map_segment_loop nomem s g from to ?n 0 0 = Some (True, fl, s1, g')" by blast
  have i: "?i < ?n" by (rule seg_count_less [OF c(4) hi])
  have "unat to + unat len < 2 ^ LENGTH(64)"
    using c(5) by (simp add: no_olen_add_nat)
  then have room: "unat to + ?n * 2 ^ 20 \<le> 2 ^ 64"
    using pmd_aligned_unat [OF c(4)] by simp
  have dist: "\<forall>j<?n. j \<noteq> ?i \<longrightarrow> drop_bit PMD_SHIFT (to + (0 + of_nat j * PMD_SIZE))
                    \<noteq> drop_bit PMD_SHIFT (to + (0 + of_nat ?i * PMD_SIZE))"
    using seg_index_distinct [OF room _ i] by (simp only: add_0) blast
  have "ulong_of (map_of (guest_to_host g') (drop_bit PMD_SHIFT (to + (0 + of_nat ?i * PMD_SIZE))))
          = from + (0 + of_nat ?i * PMD_SIZE)"
    by (rule map_segment_loop_maps [OF loop i dist])
  then have look: "ulong_of (map_of (guest_to_host g') ?k) = ?h"
    by (simp only: and_pmd_mask add_0 seg_index_of_gaddr [OF c(3) lo, symmetric])
  have t1: "uu_gmap_translate g' gaddr = ?h OR (gaddr AND NOT PMD_MASK)"
    using translate_lookup [OF look] nz by simp
  note k2 = run_gmap_ops_keeps [OF run keep]
  have t2: "uu_gmap_translate g2 gaddr = ?h OR (gaddr AND NOT PMD_MASK)"
    using t1 k2 by (simp add: uu_gmap_translate_def radix_tree_lookup_def)
  have ns: "\<not> gmap_is_shadow g2"
    using map_segment_loop_parent [OF loop] c(1) k2 by (simp add: gmap_is_shadow_def)
  have t3: "\<exists>f s3 g3. uu_gmap_unmap_by_gaddr s2 g2 a = Some (f, s3, g3) \<and>
               uu_gmap_translate g3 gaddr = err_ptr EFAULT"
    if a: "drop_bit PMD_SHIFT a = ?k" for a
  proof -
    obtain f s3 g3 where u: "uu_gmap_unmap_by_gaddr s2 g2 a = Some (f, s3, g3)"
      using unmap_by_gaddr_returns [OF ns] by blast
    have "map_of (guest_to_host g3) ?k = None"
      using unmap_by_gaddr_g2h [OF u] a by simp
    then have "uu_gmap_translate g3 gaddr = err_ptr EFAULT"
      using translate_lookup [of g3 gaddr 0] by (simp add: ulong_of_def)
    then show ?thesis using u by blast
  qed
  have t4: "\<exists>s3 g3. gmap_unmap_segment s2 g2 uto ulen = Some (0, s3, g3) \<and>
               uu_gmap_translate g3 gaddr = err_ptr EFAULT"
    if r: "(uto OR ulen) AND (PMD_SIZE - 1) = 0 \<and> uto \<le> gaddr \<and> gaddr - uto < ulen \<and>
            \<not> uto + ulen < uto" for uto ulen
  proof -
    let ?m = "unat (drop_bit PMD_SHIFT ulen)"
    let ?j = "unat (drop_bit PMD_SHIFT (gaddr - uto))"
    have al: "uto AND (PMD_SIZE - 1) = 0" "ulen AND (PMD_SIZE - 1) = 0"
      using r by (simp_all add: or_and_zero_split)
    have j: "?j < ?m" using r by (intro seg_count_less [OF al(2)]) simp
    have kj: "drop_bit PMD_SHIFT (uto + (0 + of_nat ?j * PMD_SIZE)) = ?k"
      using seg_index_of_gaddr [OF al(1), of gaddr] r by (simp only: and_pmd_mask add_0)
    obtain fl3 s3 g3 where
      ul: "unmap_segment_loop s2 g2 uto ?m 0 0 = Some (fl3, s3, g3)"
      using unmap_segment_loop_returns [OF ns] by blast
    have "\<exists>i<?m. ?k = drop_bit PMD_SHIFT (uto + (0 + of_nat i * PMD_SIZE))"
      using j kj by metis
    then have "map_of (guest_to_host g3) ?k = None"
      using unmap_segment_loop_deletes [OF ul, of ?k] by simp
    then have e: "uu_gmap_translate g3 gaddr = err_ptr EFAULT"
      using translate_lookup [of g3 gaddr 0] by (simp add: ulong_of_def)
    have "ulen \<noteq> 0" using r by auto
    then have "gmap_unmap_segment s2 g2 uto ulen
              = Some (0, if fl3 \<noteq> 0 then gmap_flush_tlb g3 s3 else s3, g3)"
      using ns r ul by (auto simp add: gmap_unmap_segment_def)
    with e show ?thesis by blast
  qed
  have t5: "uu_gmap_translate g3 a = uu_gmap_translate g2 a"
    if "uu_gmap_link env s2 g2 ga va = Some (rc, s3, g3)" for env ga va rc s3 g3 a
    using uu_gmap_link_g2h [OF that] by (simp add: uu_gmap_translate_def)
  from t1 t2 t3 t4 t5 show ?thesis by blast
qed

lemma sample_history:
  "run_gmap_ops [Op_link sample_env 0x300000 0x500000, Op_unlink_by_vmaddr 0x200000,
                 Op_unmap_by_gaddr 0x300000]
     (boot_state, zeroed_gmap\<lparr>table := 0x10000, asce := 0x10000, asce_end := 0x7fffffff,
                               guest_to_host := [(1, 0x200000)]\<rparr>)
   = Some (boot_state, zeroed_gmap\<lparr>table := 0x10000, asce := 0x10000, asce_end := 0x7fffffff,
                                    guest_to_host := [(1, 0x200000)]\<rparr>)"
  by (simp add: uu_gmap_link_def link_tables_def link_install_def asce_type_of_def zeroed_gmap_def
      gmap_is_shadow_def ASCE_TYPE_MASK_def ASCE_TYPE_REGION1_def ASCE_TYPE_REGION2_def
      ASCE_TYPE_REGION3_def sample_env_def boot_state_def pmd_none_def pmd_leaf_def
      SEGMENT_ENTRY_LARGE_def SEGMENT_ENTRY_EMPTY_def SEGMENT_ENTRY_PROTECT_def Let_def
      uu_gmap_unlink_by_vmaddr_def host_to_guest_pmd_delete_def host_to_guest_delete_def
      radix_tree_delete_def ulong_of_def IS_GADDR_VALID_def uu_gmap_unmap_by_gaddr_def
      PMD_SHIFT_def)

theorem translate_after_map_segment_witness:
  "gmap_map_segment (\<lambda>k. False) boot_state
       (zeroed_gmap\<lparr>table := 0x10000, asce := 0x10000, asce_end := 0x7fffffff\<rparr>)
       0x200000 0x100000 0x100000
     = Some (0, boot_state,
         zeroed_gmap\<lparr>table := 0x10000, asce := 0x10000, asce_end := 0x7fffffff,
                      guest_to_host := [(1, 0x200000)]\<rparr>) \<and>
   uu_gmap_translate
       (zeroed_gmap\<lparr>table := 0x10000, asce := 0x10000, asce_end := 0x7fffffff,
                    guest_to_host := [(1, 0x200000)]\<rparr>) 0x101234 = 0x201234 \<and>
   (\<exists>f s3 g3. uu_gmap_unmap_by_gaddr boot_state
       (zeroed_gmap\<lparr>table := 0x10000, asce := 0x10000, asce_end := 0x7fffffff,
                    guest_to_host := [(1, 0x200000)]\<rparr>) 0x1fffff = Some (f, s3, g3) \<and>
      uu_gmap_translate g3 0x101234 = err_ptr EFAULT) \<and>
   (\<exists>s3 g3. gmap_unmap_segment boot_state
       (zeroed_gmap\<lparr>table := 0x10000, asce := 0x10000, asce_end := 0x7fffffff,
                    guest_to_host := [(1, 0x200000)]\<rparr>) 0 0x200000 = Some (0, s3, g3) \<and>
      uu_gmap_translate g3 0x101234 = err_ptr EFAULT)"
proof -
  have ev: "gmap_map_segment (\<lambda>k. False) boot_state
       (zeroed_gmap\<lparr>table := 0x10000, asce := 0x10000, asce_end := 0x7fffffff\<rparr>)
       0x200000 0x100000 0x100000
     = Some (0, boot_state,
         zeroed_gmap\<lparr>table := 0x10000, asce := 0x10000, asce_end := 0x7fffffff,
                      guest_to_host := [(1, 0x200000)]\<rparr>)"
    by (simp add: gmap_map_segment_def zeroed_gmap_def gmap_is_shadow_def PMD_SIZE_def
        PMD_SHIFT_def TASK_SIZE_MAX_def uu_gmap_unmap_by_gaddr_def radix_tree_delete_def
        ulong_of_def radix_tree_insert_ulong_def Let_def)
  have keep: "\<forall>op \<in> set [Op_link sample_env 0x300000 0x500000, Op_unlink_by_vmaddr 0x200000,
                 Op_unmap_by_gaddr 0x300000]. op_keeps (drop_bit PMD_SHIFT 0x101234) op"
    by (simp add: PMD_SHIFT_def)
  note T = translate_after_map_segment [OF ev _ _ _ sample_history keep]
  have T': "uu_gmap_translate
       (zeroed_gmap\<lparr>table := 0x10000, asce := 0x10000, asce_end := 0x7fffffff,
                    guest_to_host := [(1, 0x200000)]\<rparr>) 0x101234 = 0x201234 \<and>
     (\<forall>a. drop_bit PMD_SHIFT a = drop_bit PMD_SHIFT 0x101234 \<longrightarrow>
            (\<exists>f s3 g3. uu_gmap_unmap_by_gaddr boot_state
       (zeroed_gmap\<lparr>table := 0x10000, asce := 0x10000, asce_end := 0x7fffffff,
                    guest_to_host := [(1, 0x200000)]\<rparr>) a = Some (f, s3, g3) \<and>
               uu_gmap_translate g3 0x101234 = err_ptr EFAULT)) \<and>
         (\<forall>uto ulen. (uto OR ulen) AND (PMD_SIZE - 1) = 0 \<and> uto \<le> 0x101234 \<and> 0x101234 - uto < ulen \<and>
            \<not> uto + ulen < uto \<longrightarrow>
            (\<exists>s3 g3. gmap_unmap_segment boot_state
       (zeroed_gmap\<lparr>table := 0x10000, asce := 0x10000, asce_end := 0x7fffffff,
                    guest_to_host := [(1, 0x200000)]\<rparr>) uto ulen = Some (0, s3, g3) \<and>
               uu_gmap_translate g3 0x101234 = err_ptr EFAULT))"
    using T by (simp add: PMD_MASK_def)
  have a: "drop_bit PMD_SHIFT (0x1fffff :: u64) = drop_bit PMD_SHIFT 0x101234"
    by (simp add: PMD_SHIFT_def)
  have b: "((0 :: u64) OR 0x200000) AND (PMD_SIZE - 1) = 0 \<and> (0 :: u64) \<le> 0x101234 \<and>
           (0x101234 :: u64) - 0 < 0x200000 \<and> \<not> (0 :: u64) + 0x200000 < 0"
    by (simp add: PMD_SIZE_def)
  show ?thesis
    using ev T' [THEN conjunct1] T' [THEN conjunct2, THEN conjunct1, rule_format, OF a]
      T' [THEN conjunct2, THEN conjunct2, rule_format, OF b]
    by (intro conjI) assumption+
qed

text \<open>
  C1 as stated fails in two ways.  For the host address 0 the link by
  \<^verbatim>\<open>gmap_map_segment\<close> succeeds, the forward map stores \<^verbatim>\<open>NULL\<close>, and the translation
  reports \<^verbatim>\<open>-EFAULT\<close> instead of \<open>0x1234\<close>.  And a successful \<^verbatim>\<open>__gmap_link\<close> of guest
  address \<open>0x100000\<close> to host address \<open>0x200000\<close> records the pair in \<^verbatim>\<open>host_to_guest\<close>
  only: the translation reports \<^verbatim>\<open>-EFAULT\<close>.
\<close>

theorem translate_host_zero_counterexample:
  "gmap_map_segment (\<lambda>k. False) boot_state
       (zeroed_gmap\<lparr>table := 0x10000, asce := 0x10000, asce_end := 0x7fffffff\<rparr>) 0 0x100000 0x100000
     = Some (0, boot_state, zeroed_gmap\<lparr>table := 0x10000, asce := 0x10000, asce_end := 0x7fffffff\<rparr>) \<and>
   uu_gmap_translate (zeroed_gmap\<lparr>table := 0x10000, asce := 0x10000, asce_end := 0x7fffffff\<rparr>)
       0x101234 = err_ptr EFAULT \<and>
   (0 + ((0x101234 - 0x100000) AND PMD_MASK)) OR (0x101234 AND NOT PMD_MASK) = (0x1234 :: u64) \<and>
   err_ptr EFAULT \<noteq> 0x1234 \<and>
   uu_gmap_link sample_env sample_state sample_gmap 0x100000 0x200000
     = Some (0, store sample_state 0x10008 0x30000, sample_gmap\<lparr>host_to_guest := [(2, 0x100001)]\<rparr>) \<and>
   uu_gmap_translate (sample_gmap\<lparr>host_to_guest := [(2, 0x100001)]\<rparr>) 0x100000 = err_ptr EFAULT \<and>
   err_ptr EFAULT \<noteq> 0x200000"
proof -
  let ?g = "zeroed_gmap\<lparr>table := 0x10000, asce := 0x10000, asce_end := 0x7fffffff\<rparr>"
  have ev: "gmap_map_segment (\<lambda>k. False) boot_state ?g 0 0x100000 0x100000 = Some (0, boot_state, ?g)"
    by (simp add: gmap_map_segment_def zeroed_gmap_def gmap_is_shadow_def PMD_SIZE_def
        PMD_SHIFT_def TASK_SIZE_MAX_def uu_gmap_unmap_by_gaddr_def radix_tree_delete_def
        ulong_of_def radix_tree_insert_ulong_def Let_def)
  have t: "uu_gmap_translate ?g 0x101234 = err_ptr EFAULT"
    by (simp add: uu_gmap_translate_def radix_tree_lookup_def zeroed_gmap_def ulong_of_def)
  have v: "(0 + ((0x101234 - 0x100000) AND PMD_MASK)) OR (0x101234 AND NOT PMD_MASK) = (0x1234 :: u64)"
    by (simp add: PMD_MASK_def)
  have n: "err_ptr EFAULT \<noteq> 0x1234" "err_ptr EFAULT \<noteq> 0x200000"
    by (simp_all add: err_ptr_def EFAULT_def)
  have l: "uu_gmap_translate (sample_gmap\<lparr>host_to_guest := [(2, 0x100001)]\<rparr>) 0x100000 = err_ptr EFAULT"
    by (simp add: uu_gmap_translate_def radix_tree_lookup_def sample_gmap_fields ulong_of_def)
  show ?thesis
    by (intro conjI) (rule ev t v n sample_first_link l)+
qed

end
